theory Spec2Isabelle
  imports Main "HOL-Library.AList" "HOL-Library.Code_Target_Numeral"
begin

section \<open>Python values\<close>

text \<open>
  A Python \<open>str\<close> is a sequence of Unicode code points; \<open>len\<close>, indexing and slicing
  count code points. It is modelled as a list of natural numbers. ASCII literals of the
  source are written \<open>u ''...''\<close>; Cyrillic literals are written as code point lists with
  a transliteration beside them.
\<close>

type_synonym ustr = "nat list"

definition u :: "string \<Rightarrow> ustr" where
  "u s = map of_char s"

datatype py_error = KeyError | IndexError | ValueError | UnicodeEncodeError

text \<open>A \<open>dict\<close> keeps insertion order: it is an association list, written with
  \<open>AList.update\<close> (replace in place, or append) and read with \<open>map_of\<close>.\<close>

definition dict_get :: "('k \<times> 'v) list \<Rightarrow> 'k \<Rightarrow> 'v \<Rightarrow> 'v" where
  "dict_get d k dflt = (case map_of d k of None \<Rightarrow> dflt | Some v \<Rightarrow> v)"

section \<open>Mapping store and instance tracking (data_masking.py)\<close>

record masking_record =
  masked_as :: ustr
  instances :: "nat list"

record masking_dict =
  mappings :: "(ustr \<times> (ustr \<times> masking_record) list) list"
  statistics :: "(ustr \<times> nat) list"

type_synonym counters = "(ustr \<times> nat) list"

text \<open>
  \<^verbatim>\<open>instance_counters.setdefault(masked_value, 0)
  instance_counters[masked_value] += 1
  return instance_counters[masked_value]\<close>
\<close>

definition get_next_instance :: "ustr \<Rightarrow> counters \<Rightarrow> nat \<times> counters" where
  "get_next_instance masked_value instance_counters =
     (let ic0 = (case map_of instance_counters masked_value of
                   None \<Rightarrow> AList.update masked_value 0 instance_counters
                 | Some _ \<Rightarrow> instance_counters);
          ic1 = AList.update masked_value (dict_get ic0 masked_value 0 + 1) ic0
      in (dict_get ic1 masked_value 0, ic1))"

text \<open>
  \<open>add_to_mapping\<close>: reading \<open>masking_dict["mappings"][category]\<close> raises \<open>KeyError\<close>
  when the category is absent; nothing has been written at that point.
\<close>

definition add_to_mapping ::
  "masking_dict \<Rightarrow> counters \<Rightarrow> ustr \<Rightarrow> ustr \<Rightarrow> ustr
     \<Rightarrow> py_error + (ustr \<times> masking_dict \<times> counters)" where
  "add_to_mapping md ic category original masked =
     (case map_of (mappings md) category of
        None \<Rightarrow> Inl KeyError
      | Some cat \<Rightarrow>
          (let (cat1, stats1, masked1) =
                 (case map_of cat original of
                    None \<Rightarrow>
                      (AList.update original \<lparr>masked_as = masked, instances = []\<rparr> cat,
                       AList.update category (dict_get (statistics md) category 0 + 1)
                         (statistics md),
                       masked)
                  | Some r \<Rightarrow> (cat, statistics md, masked_as r));
               (instance_num, ic1) = get_next_instance masked1 ic;
               cat2 = (case map_of cat1 original of
                         None \<Rightarrow> cat1
                       | Some r \<Rightarrow>
                           AList.update original
                             (r\<lparr>instances := instances r @ [instance_num]\<rparr>) cat1)
           in Inr (masked1,
                   \<lparr>mappings = AList.update category cat2 (mappings md), statistics = stats1\<rparr>,
                   ic1)))"

text \<open>Readers used in the statements below.\<close>

definition counter_of :: "counters \<Rightarrow> ustr \<Rightarrow> nat" where
  "counter_of ic m = dict_get ic m 0"

definition record_of :: "masking_dict \<Rightarrow> ustr \<Rightarrow> ustr \<Rightarrow> masking_record option" where
  "record_of md category original =
     (case map_of (mappings md) category of
        None \<Rightarrow> None
      | Some cat \<Rightarrow> map_of cat original)"

definition stat_of :: "masking_dict \<Rightarrow> ustr \<Rightarrow> nat" where
  "stat_of md category = dict_get (statistics md) category 0"

definition instances_of :: "masking_dict \<Rightarrow> ustr \<Rightarrow> ustr \<Rightarrow> nat list" where
  "instances_of md category original =
     (case record_of md category original of None \<Rightarrow> [] | Some r \<Rightarrow> instances r)"

text \<open>The store as \<open>main\<close> creates it: every category present and empty.\<close>

definition all_categories :: "ustr list" where
  "all_categories = map u
     [''ipn'', ''passport_id'', ''military_id'', ''surname'', ''name'', ''military_unit'',
      ''order_number'', ''order_number_with_letters'', ''br_number'', ''br_number_slash'',
      ''br_number_complex'', ''rank'', ''brigade_number'', ''date'', ''patronymic'']"

definition empty_masking_dict :: masking_dict where
  "empty_masking_dict = \<lparr>mappings = map (\<lambda>k. (k, [])) all_categories, statistics = []\<rparr>"

subsection \<open>Facts about the store\<close>

lemma get_next_instance_value:
  "fst (get_next_instance m ic) = counter_of ic m + 1"
  by (simp add: get_next_instance_def counter_of_def dict_get_def update_conv'
           split: option.splits)

lemma get_next_instance_counter:
  "counter_of (snd (get_next_instance m ic)) m' =
     (if m' = m then counter_of ic m + 1 else counter_of ic m')"
  by (simp add: get_next_instance_def counter_of_def dict_get_def update_conv'
           split: option.splits)

lemma add_to_mapping_KeyError:
  "map_of (mappings md) category = None \<Longrightarrow>
   add_to_mapping md ic category original masked = Inl KeyError"
  by (simp add: add_to_mapping_def)

lemma add_to_mapping_new:
  assumes "map_of (mappings md) category = Some cat" and "map_of cat original = None"
  shows "add_to_mapping md ic category original masked =
           Inr (masked,
                \<lparr>mappings = AList.update category
                    (AList.update original
                       \<lparr>masked_as = masked, instances = [counter_of ic masked + 1]\<rparr> cat)
                    (mappings md),
                 statistics = AList.update category (stat_of md category + 1) (statistics md)\<rparr>,
                snd (get_next_instance masked ic))"
  using assms get_next_instance_value [of masked ic]
  by (simp add: add_to_mapping_def stat_of_def update_conv' split_beta Let_def)

lemma add_to_mapping_old:
  assumes "map_of (mappings md) category = Some cat" and "map_of cat original = Some r"
  shows "add_to_mapping md ic category original masked =
           Inr (masked_as r,
                \<lparr>mappings = AList.update category
                    (AList.update original
                       (r\<lparr>instances := instances r @ [counter_of ic (masked_as r) + 1]\<rparr>) cat)
                    (mappings md),
                 statistics = statistics md\<rparr>,
                snd (get_next_instance (masked_as r) ic))"
  using assms get_next_instance_value [of "masked_as r" ic]
  by (simp add: add_to_mapping_def split_beta Let_def)

lemma record_of_update:
  "map_of (mappings md) category = Some cat \<Longrightarrow>
   record_of \<lparr>mappings = AList.update category (AList.update original r cat) (mappings md),
              statistics = st\<rparr> category original = Some r"
  by (simp add: record_of_def update_conv')

section \<open>The libraries the program calls\<close>

text \<open>
  The Unicode character database behind \<open>str.lower\<close>, \<open>str.isdigit\<close> and the character
  classes of \<open>re\<close>, the hash functions of \<open>hashlib\<close>, the generator of module
  \<open>random\<close> and the \<open>Faker\<close> instance \<open>fake_uk\<close> are not part of the repository. They
  are parameters of the model; the states of the two generators are natural numbers.

  \<open>random.randint(a, b)\<close> is \<open>a + _randbelow(b - a + 1)\<close> and \<open>random.choice(seq)\<close> is
  \<open>seq[_randbelow(len(seq))]\<close>, so \<open>rnd_below\<close> is the one primitive of the generator.
\<close>

record ucd =
  uc_lower :: "nat \<Rightarrow> nat list"
  uc_upper :: "nat \<Rightarrow> nat list"
  uc_title :: "nat \<Rightarrow> nat list"
  uc_islower :: "nat \<Rightarrow> bool"
  uc_isupper :: "nat \<Rightarrow> bool"
  uc_istitle :: "nat \<Rightarrow> bool"
  uc_isdigit :: "nat \<Rightarrow> bool"
  uc_isdecimal :: "nat \<Rightarrow> bool"
  uc_isalnum :: "nat \<Rightarrow> bool"
  uc_isspace :: "nat \<Rightarrow> bool"
  re_lower :: "nat \<Rightarrow> nat"
  re_upper :: "nat \<Rightarrow> nat"
  uc_decimal_value :: "nat \<Rightarrow> nat"

record lib =
  digest :: "ustr \<Rightarrow> nat list \<Rightarrow> nat"
  rnd_seed :: "nat \<Rightarrow> nat"
  rnd_below :: "nat \<Rightarrow> nat \<Rightarrow> nat \<times> nat"
  fk_seed :: "nat \<Rightarrow> nat"
  fk_last_name :: "nat \<Rightarrow> ustr \<times> nat"
  fk_first_name_male :: "nat \<Rightarrow> ustr \<times> nat"
  fk_first_name_female :: "nat \<Rightarrow> ustr \<times> nat"
  fk_middle_name_male :: "nat \<Rightarrow> ustr \<times> nat"
  fk_middle_name_female :: "nat \<Rightarrow> ustr \<times> nat"

text \<open>The module-level settings of data_masking.py.\<close>

record config =
  HASH_ALGORITHM :: ustr
  PRESERVE_CASE :: bool
  MASK_NAMES :: bool
  MASK_IPN :: bool
  MASK_PASSPORT :: bool
  MASK_MILITARY_ID :: bool
  MASK_RANKS :: bool
  MASK_BRIGADES :: bool
  MASK_UNITS :: bool
  MASK_ORDERS :: bool
  MASK_BR_NUMBERS :: bool
  MASK_DATES :: bool

text \<open>The tables of rank_data.py, which the program imports.\<close>

record rank_data =
  ARMY_RANKS :: "ustr list"
  NAVAL_RANKS :: "ustr list"
  LEGAL_RANKS :: "ustr list"
  MEDICAL_RANKS :: "ustr list"
  RANK_TO_NOMINATIVE :: "(ustr \<times> (ustr \<times> ustr \<times> ustr)) list"
  RANK_DECLENSIONS :: "(ustr \<times> (ustr \<times> ustr) list) list"

record env =
  unicode :: ucd
  library :: lib
  cfg :: config
  ranks :: rank_data

text \<open>What the library documentation promises of \<open>_randbelow\<close>.\<close>

definition rnd_ok :: "env \<Rightarrow> bool" where
  "rnd_ok E = (\<forall>n g. 0 < n \<longrightarrow> fst (rnd_below (library E) n g) < n)"

subsection \<open>String methods\<close>

text \<open>
  \<open>str.lower\<close> and \<open>str.upper\<close> map every code point through the full case mappings
  (the context rule for the Greek final sigma is left out). \<open>str.capitalize\<close> title-cases
  the first code point and lower-cases the rest.
\<close>

definition py_lower :: "env \<Rightarrow> ustr \<Rightarrow> ustr" where
  "py_lower E s = concat (map (uc_lower (unicode E)) s)"

definition py_upper :: "env \<Rightarrow> ustr \<Rightarrow> ustr" where
  "py_upper E s = concat (map (uc_upper (unicode E)) s)"

definition py_capitalize :: "env \<Rightarrow> ustr \<Rightarrow> ustr" where
  "py_capitalize E s =
     (case s of [] \<Rightarrow> [] | c # cs \<Rightarrow> uc_title (unicode E) c @ py_lower E cs)"

text \<open>\<open>str.isupper\<close>: no lower-case or title-case code point and at least one upper-case
  one; \<open>str.islower\<close> likewise; \<open>str.isdigit\<close>: not empty and digits only.\<close>

definition py_isupper :: "env \<Rightarrow> ustr \<Rightarrow> bool" where
  "py_isupper E s =
     ((\<forall>c \<in> set s. \<not> uc_islower (unicode E) c \<and> \<not> uc_istitle (unicode E) c) \<and>
      (\<exists>c \<in> set s. uc_isupper (unicode E) c))"

definition py_islower :: "env \<Rightarrow> ustr \<Rightarrow> bool" where
  "py_islower E s =
     ((\<forall>c \<in> set s. \<not> uc_isupper (unicode E) c \<and> \<not> uc_istitle (unicode E) c) \<and>
      (\<exists>c \<in> set s. uc_islower (unicode E) c))"

definition py_isdigit :: "env \<Rightarrow> ustr \<Rightarrow> bool" where
  "py_isdigit E s = (s \<noteq> [] \<and> (\<forall>c \<in> set s. uc_isdigit (unicode E) c))"

text \<open>\<open>str(n)\<close> for an integer: the decimal digits, after a minus sign if negative.\<close>

fun str_nat :: "nat \<Rightarrow> ustr" where
  "str_nat n = (if n < 10 then [48 + n] else str_nat (n div 10) @ [48 + n mod 10])"

declare str_nat.simps [simp del]

definition py_str :: "int \<Rightarrow> ustr" where
  "py_str i = (if i < 0 then 45 # str_nat (nat (- i)) else str_nat (nat i))"

subsection \<open>Seeds and draws\<close>

text \<open>\<open>str.encode('utf-8')\<close>; a surrogate (and anything that is no code point) raises.\<close>

definition utf8_char :: "nat \<Rightarrow> nat list option" where
  "utf8_char c =
     (if c < 0x80 then Some [c]
      else if c < 0x800 then Some [0xC0 + c div 64, 0x80 + c mod 64]
      else if 0xD800 \<le> c \<and> c \<le> 0xDFFF then None
      else if c < 0x10000 then
        Some [0xE0 + c div 4096, 0x80 + (c div 64) mod 64, 0x80 + c mod 64]
      else if c < 0x110000 then
        Some [0xF0 + c div 262144, 0x80 + (c div 4096) mod 64,
              0x80 + (c div 64) mod 64, 0x80 + c mod 64]
      else None)"

fun utf8_encode :: "ustr \<Rightarrow> nat list option" where
  "utf8_encode [] = Some []"
| "utf8_encode (c # cs) =
     (case utf8_char c of
        None \<Rightarrow> None
      | Some bs \<Rightarrow> (case utf8_encode cs of None \<Rightarrow> None | Some rest \<Rightarrow> Some (bs @ rest)))"

definition hash_algorithms :: "ustr list" where
  "hash_algorithms = map u [''md5'', ''sha1'', ''sha256'', ''blake2b'', ''sha512'']"

definition get_deterministic_seed :: "env \<Rightarrow> ustr \<Rightarrow> py_error + nat" where
  "get_deterministic_seed E original =
     (if HASH_ALGORITHM (cfg E) \<notin> set hash_algorithms then Inl ValueError
      else case utf8_encode original of
             None \<Rightarrow> Inl UnicodeEncodeError
           | Some bytes \<Rightarrow> Inr (digest (library E) (HASH_ALGORITHM (cfg E)) bytes mod 2 ^ 32))"

definition randint :: "env \<Rightarrow> int \<Rightarrow> int \<Rightarrow> nat \<Rightarrow> int \<times> nat" where
  "randint E a b g =
     (let (k, g') = rnd_below (library E) (nat (b - a + 1)) g in (a + int k, g'))"

text \<open>\<open>[str(random.randint(a, b)) for _ in range(n)]\<close>, joined.\<close>

fun rand_digits :: "env \<Rightarrow> int \<Rightarrow> int \<Rightarrow> nat \<Rightarrow> nat \<Rightarrow> ustr \<times> nat" where
  "rand_digits E a b 0 g = ([], g)"
| "rand_digits E a b (Suc n) g =
     (let (x, g1) = randint E a b g;
          (rest, g2) = rand_digits E a b n g1
      in (py_str x @ rest, g2))"

section \<open>Category generators (data_masking.py)\<close>

text \<open>What a masking function reads and writes: the store, the instance counters, the
  state of module \<open>random\<close> and the state of \<open>fake_uk\<close>.\<close>

record world =
  w_dict :: masking_dict
  w_counters :: counters
  w_random :: nat
  w_faker :: nat

definition record_masked :: "world \<Rightarrow> ustr \<Rightarrow> ustr \<Rightarrow> ustr \<Rightarrow> py_error + (ustr \<times> world)" where
  "record_masked w category original masked =
     (case add_to_mapping (w_dict w) (w_counters w) category original masked of
        Inl e \<Rightarrow> Inl e
      | Inr (m, md', ic') \<Rightarrow> Inr (m, w\<lparr>w_dict := md', w_counters := ic'\<rparr>))"

text \<open>
  \<^verbatim>\<open>if original in masking_dict["mappings"]["ipn"]:
      masked = masking_dict["mappings"]["ipn"][original]["masked_as"]
  else:
      if len(original) != 10 or not original.isdigit(): return original
      seed = get_deterministic_seed(original)
      random.seed(seed)
      middle = ''.join([str(random.randint(0, 9)) for _ in range(6)])
      masked = original[:3] + middle + original[-1]
  return add_to_mapping(masking_dict, instance_counters, "ipn", original, masked)\<close>
\<close>

definition mask_ipn :: "env \<Rightarrow> ustr \<Rightarrow> world \<Rightarrow> py_error + (ustr \<times> world)" where
  "mask_ipn E original w =
     (case map_of (mappings (w_dict w)) (u ''ipn'') of
        None \<Rightarrow> Inl KeyError
      | Some cat \<Rightarrow>
          (case map_of cat original of
             Some r \<Rightarrow> record_masked w (u ''ipn'') original (masked_as r)
           | None \<Rightarrow>
               if length original \<noteq> 10 \<or> \<not> py_isdigit E original then Inr (original, w)
               else
                 (case get_deterministic_seed E original of
                    Inl e \<Rightarrow> Inl e
                  | Inr seed \<Rightarrow>
                      (let (middle, g) = rand_digits E 0 9 6 (rnd_seed (library E) seed);
                           masked = take 3 original @ middle @ [last original]
                       in record_masked (w\<lparr>w_random := g\<rparr>) (u ''ipn'') original masked))))"

text \<open>The abbreviations that are never masked as surnames:
  zsu, mou, vsu, dpsu, nhu, dsns, sbu, hur, ttsk, sp, kmu, ottsksp.\<close>

definition ABBREVIATION_WHITELIST :: "ustr list" where
  "ABBREVIATION_WHITELIST =
     [[1079, 1089, 1091],
      [1084, 1086, 1091],
      [1074, 1089, 1091],
      [1076, 1087, 1089, 1091],
      [1085, 1075, 1091],
      [1076, 1089, 1085, 1089],
      [1089, 1073, 1091],
      [1075, 1091, 1088],
      [1090, 1094, 1082],
      [1089, 1087],
      [1082, 1084, 1091],
      [1086, 1090, 1094, 1082, 1089, 1087]]"

text \<open>
  \<open>mask_surname\<close>. \<open>original[0]\<close> raises \<open>IndexError\<close> on the empty string; the slices
  \<open>fake_surname[1:1+middle_len]\<close> (taken only when the surname has more than four
  characters, so \<open>middle_len\<close> is at least 2), \<open>fake_surname[1:-1]\<close> and
  \<open>original[-2:]\<close> are written with \<open>take\<close> and \<open>drop\<close>.
\<close>

definition mask_surname :: "env \<Rightarrow> ustr \<Rightarrow> world \<Rightarrow> py_error + (ustr \<times> world)" where
  "mask_surname E original w =
     (if py_lower E original \<in> set ABBREVIATION_WHITELIST then Inr (original, w)
      else case map_of (mappings (w_dict w)) (u ''surname'') of
        None \<Rightarrow> Inl KeyError
      | Some cat \<Rightarrow>
          (case map_of cat original of
             Some r \<Rightarrow> record_masked w (u ''surname'') original (masked_as r)
           | None \<Rightarrow>
               (case original of
                  [] \<Rightarrow> Inl IndexError
                | c # cs \<Rightarrow>
                    (let is_upper = py_isupper E original;
                         is_capitalize = (py_isupper E [c] \<and> py_islower E cs)
                     in case get_deterministic_seed E original of
                          Inl e \<Rightarrow> Inl e
                        | Inr seed \<Rightarrow>
                            (let g0 = rnd_seed (library E) seed;
                                 (fake_surname, f1) =
                                    fk_last_name (library E) (fk_seed (library E) seed);
                                 n = int (length original);
                                 (masked, g1) =
                                   (if length original < 5 then
                                      (let (target_length, g) =
                                              randint E (max 3 (n - 1)) (min 6 (n + 2)) g0
                                       in (if int (length fake_surname) > target_length
                                           then take (nat target_length) fake_surname
                                           else fake_surname, g))
                                    else
                                      (let (k, g) = randint E 2 7 g0;
                                           middle_len = min k (int (length fake_surname) - 2);
                                           middle =
                                             (if length fake_surname > 4
                                              then take (nat middle_len) (drop 1 fake_surname)
                                              else drop 1 (butlast fake_surname))
                                       in (take 3 original @ middle
                                             @ drop (length original - 2) original, g)));
                                 masked_cased =
                                   (if is_upper then py_upper E masked
                                    else if is_capitalize then py_capitalize E masked
                                    else masked)
                             in record_masked (w\<lparr>w_random := g1, w_faker := f1\<rparr>)
                                  (u ''surname'') original masked_cased)))))"

subsection \<open>More string methods\<close>

definition py_endswith :: "ustr \<Rightarrow> ustr \<Rightarrow> bool" where
  "py_endswith s suf = (length suf \<le> length s \<and> drop (length s - length suf) s = suf)"

text \<open>\<open>s.endswith((a, b, ...))\<close> and \<open>any(s.endswith(e) for e in ...)\<close>.\<close>

definition endswith_any :: "ustr \<Rightarrow> ustr list \<Rightarrow> bool" where
  "endswith_any s sufs = (\<exists>suf \<in> set sufs. py_endswith s suf)"

text \<open>\<open>s.strip(chars)\<close> and \<open>s.strip()\<close>.\<close>

definition py_strip_chars :: "ustr \<Rightarrow> ustr \<Rightarrow> ustr" where
  "py_strip_chars chars s =
     rev (dropWhile (\<lambda>c. c \<in> set chars) (rev (dropWhile (\<lambda>c. c \<in> set chars) s)))"

definition py_strip :: "env \<Rightarrow> ustr \<Rightarrow> ustr" where
  "py_strip E s =
     rev (dropWhile (uc_isspace (unicode E)) (rev (dropWhile (uc_isspace (unicode E)) s)))"

text \<open>\<open>random.choice(seq)\<close> is \<open>seq[_randbelow(len(seq))]\<close>.\<close>

definition choice :: "env \<Rightarrow> 'a list \<Rightarrow> nat \<Rightarrow> py_error + ('a \<times> nat)" where
  "choice E xs g =
     (let (k, g') = rnd_below (library E) (length xs) g
      in if k < length xs then Inr (xs ! k, g') else Inl IndexError)"

subsection \<open>Names: case, gender and generation\<close>

text \<open>The curated given names, male: andrij, bohdan, viktor, volodymyr, dmytro, ihor, ivan, maksym, oleh, oleksij, petro, serhij, taras, iurij, mykhajlo, vasyl', roman, artem, denys, ievhen, kostiantyn, pavlo, stanislav, iaroslav;
  female: anna, viktoriia, halyna, dariia, iryna, kateryna, mariia, nataliia, olena, oksana, svitlana, tetiana, iuliia, liudmyla, nadiia, valentyna, larysa, ol'ha, sofiia, diana, alla, hanna, liubov.\<close>

definition GOOD_UKRAINIAN_NAMES_MALE :: "ustr list" where
  "GOOD_UKRAINIAN_NAMES_MALE =
     [[1072, 1085, 1076, 1088, 1110, 1081],
      [1073, 1086, 1075, 1076, 1072, 1085],
      [1074, 1110, 1082, 1090, 1086, 1088],
      [1074, 1086, 1083, 1086, 1076, 1080, 1084, 1080, 1088],
      [1076, 1084, 1080, 1090, 1088, 1086],
      [1110, 1075, 1086, 1088],
      [1110, 1074, 1072, 1085],
      [1084, 1072, 1082, 1089, 1080, 1084],
      [1086, 1083, 1077, 1075],
      [1086, 1083, 1077, 1082, 1089, 1110, 1081],
      [1087, 1077, 1090, 1088, 1086],
      [1089, 1077, 1088, 1075, 1110, 1081],
      [1090, 1072, 1088, 1072, 1089],
      [1102, 1088, 1110, 1081],
      [1084, 1080, 1093, 1072, 1081, 1083, 1086],
      [1074, 1072, 1089, 1080, 1083, 1100],
      [1088, 1086, 1084, 1072, 1085],
      [1072, 1088, 1090, 1077, 1084],
      [1076, 1077, 1085, 1080, 1089],
      [1108, 1074, 1075, 1077, 1085],
      [1082, 1086, 1089, 1090, 1103, 1085, 1090, 1080, 1085],
      [1087, 1072, 1074, 1083, 1086],
      [1089, 1090, 1072, 1085, 1110, 1089, 1083, 1072, 1074],
      [1103, 1088, 1086, 1089, 1083, 1072, 1074]]"

definition GOOD_UKRAINIAN_NAMES_FEMALE :: "ustr list" where
  "GOOD_UKRAINIAN_NAMES_FEMALE =
     [[1072, 1085, 1085, 1072],
      [1074, 1110, 1082, 1090, 1086, 1088, 1110, 1103],
      [1075, 1072, 1083, 1080, 1085, 1072],
      [1076, 1072, 1088, 1110, 1103],
      [1110, 1088, 1080, 1085, 1072],
      [1082, 1072, 1090, 1077, 1088, 1080, 1085, 1072],
      [1084, 1072, 1088, 1110, 1103],
      [1085, 1072, 1090, 1072, 1083, 1110, 1103],
      [1086, 1083, 1077, 1085, 1072],
      [1086, 1082, 1089, 1072, 1085, 1072],
      [1089, 1074, 1110, 1090, 1083, 1072, 1085, 1072],
      [1090, 1077, 1090, 1103, 1085, 1072],
      [1102, 1083, 1110, 1103],
      [1083, 1102, 1076, 1084, 1080, 1083, 1072],
      [1085, 1072, 1076, 1110, 1103],
      [1074, 1072, 1083, 1077, 1085, 1090, 1080, 1085, 1072],
      [1083, 1072, 1088, 1080, 1089, 1072],
      [1086, 1083, 1100, 1075, 1072],
      [1089, 1086, 1092, 1110, 1103],
      [1076, 1110, 1072, 1085, 1072],
      [1072, 1083, 1083, 1072],
      [1075, 1072, 1085, 1085, 1072],
      [1083, 1102, 1073, 1086, 1074]]"

definition PROBLEMATIC_NAMES :: "ustr list" where
  "PROBLEMATIC_NAMES =
     [[1084, 1072, 1082, 1072, 1083, 1110, 1110, 1084],
      [1089, 1077, 1088, 1091, 1073, 1072, 1110, 1081],
      [1072, 1072, 1088, 1086, 1085],
      [1110, 1111, 1083, 1110, 1103],
      [1072, 1072, 1076, 1072, 1084],
      [1110, 1110, 1089, 1091, 1089],
      [1072, 1072, 1088, 1110, 1086, 1085],
      [1108, 1108, 1074, 1072],
      [1084, 1077, 1083, 1093, 1110, 1086, 1088],
      [1074, 1072, 1083, 1090, 1072, 1089, 1072, 1088],
      [1081, 1086, 1089, 1080, 1087],
      [1108, 1074, 1089, 1090, 1072, 1093, 1110, 1081],
      [1077, 1084, 1084, 1072, 1085, 1091, 1111, 1083],
      [1088, 1072, 1092, 1072, 1111, 1083],
      [1089, 1072, 1084, 1091, 1111, 1083],
      [1110, 1108, 1088, 1077, 1084, 1110, 1103]]"

text \<open>The endings below are, in order: om, em, iem, im, yim; u, iu; oiu, ieiu, iieiu;
  a, ia; the common female endings iia, la, na, ra, ta, ka, ha, va, nia, sia, sha;
  i, yi; iia.\<close>

definition detect_name_case_and_gender :: "env \<Rightarrow> ustr \<Rightarrow> ustr \<times> ustr" where
  "detect_name_case_and_gender E name =
     (if name = [] then (u ''nominative'', u ''male'')
      else
        (let name_lower = py_strip_chars (u ''.,!?;'') (py_lower E name) in
         if endswith_any name_lower [[1086, 1084],
      [1077, 1084],
      [1108, 1084],
      [1110, 1084],
      [1111, 1084]]
           then (u ''instrumental'', u ''male'')
         else if endswith_any name_lower [[1091],
      [1102]] \<and>
                 \<not> endswith_any name_lower [[1086, 1102],
      [1108, 1102],
      [1110, 1108, 1102]]
           then (u ''dative'', u ''male'')
         else if endswith_any name_lower [[1072],
      [1103]] \<and> length name > 4 \<and>
                 \<not> endswith_any name_lower
                      [[1110, 1103],
                      [1083, 1072],
                      [1085, 1072],
                      [1088, 1072],
                      [1090, 1072],
                      [1082, 1072],
                      [1075, 1072],
                      [1074, 1072],
                      [1085, 1103],
                      [1089, 1103],
                      [1096, 1072]]
           then (u ''genitive'', u ''male'')
         else if endswith_any name_lower [[1110, 1108, 1102],
      [1086, 1102],
      [1108, 1102]]
           then (u ''instrumental'', u ''female'')
         else if endswith_any name_lower [[1110],
      [1111]] \<and> length name > 3
           then (u ''dative'', u ''female'')
         else if endswith_any name_lower [[1110, 1103],
      [1072],
      [1103]] \<and> length name > 2
           then (u ''nominative'', u ''female'')
         else (u ''nominative'', u ''male'')))"

text \<open>Male endings: ovych, ievych, iiovych, jovych and their forms in -a, -u, -em;
  female endings: ivna, yivna, ivny, yivny, ivni, yivni, ivnoiu, yivnoiu.\<close>

definition detect_gender_by_patronymic :: "env \<Rightarrow> ustr \<Rightarrow> ustr" where
  "detect_gender_by_patronymic E patronymic =
     (if patronymic = [] then u ''unknown''
      else
        (let patron_lower = py_strip_chars (u ''.,!?;'') (py_lower E patronymic) in
         if endswith_any patron_lower
              [[1086, 1074, 1080, 1095],
               [1108, 1074, 1080, 1095],
               [1110, 1081, 1086, 1074, 1080, 1095],
               [1081, 1086, 1074, 1080, 1095],
               [1086, 1074, 1080, 1095, 1072],
               [1108, 1074, 1080, 1095, 1072],
               [1110, 1081, 1086, 1074, 1080, 1095, 1072],
               [1081, 1086, 1074, 1080, 1095, 1072],
               [1086, 1074, 1080, 1095, 1091],
               [1108, 1074, 1080, 1095, 1091],
               [1110, 1081, 1086, 1074, 1080, 1095, 1091],
               [1081, 1086, 1074, 1080, 1095, 1091],
               [1086, 1074, 1080, 1095, 1077, 1084],
               [1108, 1074, 1080, 1095, 1077, 1084],
               [1110, 1081, 1086, 1074, 1080, 1095, 1077, 1084],
               [1081, 1086, 1074, 1080, 1095, 1077, 1084]]
           then u ''male''
         else if endswith_any patron_lower
              [[1110, 1074, 1085, 1072],
               [1111, 1074, 1085, 1072],
               [1110, 1074, 1085, 1080],
               [1111, 1074, 1085, 1080],
               [1110, 1074, 1085, 1110],
               [1111, 1074, 1085, 1110],
               [1110, 1074, 1085, 1086, 1102],
               [1111, 1074, 1085, 1086, 1102]]
           then u ''female''
         else u ''unknown''))"

text \<open>\<open>is_easy_to_decline\<close>; the regular expression \<open>([aeiou...])\1\<close> looks for a vowel
  (a, e, ie, y, i, yi, o, u, iu, ia) written twice in a row.\<close>

fun doubled_vowel :: "ustr \<Rightarrow> bool" where
  "doubled_vowel (a # b # rest) =
     ((a = b \<and> a \<in> set [1072, 1077, 1108, 1080, 1110, 1111, 1086, 1091, 1102, 1103]) \<or> doubled_vowel (b # rest))"
| "doubled_vowel _ = False"

definition is_easy_to_decline :: "env \<Rightarrow> ustr \<Rightarrow> ustr \<Rightarrow> bool" where
  "is_easy_to_decline E name gender =
     (if name = [] then False
      else
        (let name_lower = py_lower E name in
         if name_lower \<in> set PROBLEMATIC_NAMES then False
         else if doubled_vowel name_lower then False
         else if length name < 4 \<or> length name > 9 then False
         else if gender = u ''male'' then
           (if endswith_any name_lower
                 [[1086],
                 [1072],
                 [1081],
                 [1110, 1081],
                 [1088],
                 [1085],
                 [1083],
                 [1082],
                 [1084],
                 [1074],
                 [1090]]
            then name_lower \<notin> set [[1110, 1083, 1083, 1103],
                 [1089, 1072, 1074, 1074, 1072],
                 [1083, 1091, 1082, 1072],
                 [1082, 1091, 1079, 1100, 1084, 1072],
                 [1092, 1086, 1084, 1072]]
            else False)
         else if gender = u ''female'' then endswith_any name_lower [[1072],
      [1103],
      [1110, 1103]]
         else False))"

text \<open>\<open>apply_case_to_name\<close>. The letters: o = 1086, a = 1072, i = 1110, j = 1081,
  ia = 1103, y = 1080, u = 1091, iu = 1102, ie = 1108, m = 1084, yi = 1111.\<close>

definition apply_case_to_name :: "env \<Rightarrow> ustr \<Rightarrow> ustr \<Rightarrow> ustr \<Rightarrow> ustr" where
  "apply_case_to_name E name0 gcase gender =
     (if name0 = [] then name0
      else
        (let name = py_strip E name0;
             ends_o = py_endswith name [1086];
             ends_a = py_endswith name [1072];
             ends_ij = py_endswith name [1110, 1081];
             ends_j = py_endswith name [1081];
             ends_iia = py_endswith name [1110, 1103];
             ends_ia = py_endswith name [1103]
         in
         if gcase = u ''nominative'' then name
         else if gender = u ''male'' then
           (let stem = (if ends_o \<or> ends_a then butlast name
                        else if ends_ij then take (length name - 2) name @ [1110]
                        else if ends_j then butlast name
                        else name)
            in
            if gcase = u ''genitive'' then
              (if ends_o \<or> ends_a then stem @ (if ends_o then [1072] else [1080])
               else if ends_ij \<or> ends_j then stem @ [1103]
               else stem @ [1072])
            else if gcase = u ''dative'' then
              (if ends_o then stem @ [1091]
               else if ends_a then stem @ [1110]
               else if ends_ij \<or> ends_j then stem @ [1102]
               else stem @ [1091])
            else if gcase = u ''instrumental'' then
              (if ends_o then stem @ [1086, 1084]
               else if ends_a then stem @ [1086, 1102]
               else if ends_ij \<or> ends_j then stem @ [1108, 1084]
               else stem @ [1086, 1084])
            else name)
         else if gender = u ''female'' then
           (let stem = (if ends_iia then take (length name - 2) name
                        else if ends_a \<or> ends_ia then butlast name
                        else name)
            in
            if gcase = u ''genitive'' \<or> gcase = u ''dative'' then
              (if ends_iia then stem @ [1110, 1111] else stem @ [1110])
            else if gcase = u ''instrumental'' then
              (if ends_iia then stem @ [1110, 1108, 1102] else stem @ [1086, 1102])
            else name)
         else name))"

text \<open>
  \<open>generate_easy_name\<close> seeds module \<open>random\<close> and draws from the curated list when it
  has a name with the wanted first letter. Otherwise it asks \<open>fake_uk\<close> up to
  \<open>max_attempts\<close> times, and \<open>fake_uk\<close> is not seeded here: the names it returns
  depend on the state in which earlier calls left it.
\<close>

fun faker_first_names ::
  "env \<Rightarrow> ustr \<Rightarrow> ustr \<Rightarrow> nat \<Rightarrow> nat \<Rightarrow> py_error + (ustr option \<times> nat)" where
  "faker_first_names E gender first_letter 0 f = Inr (None, f)"
| "faker_first_names E gender first_letter (Suc n) f =
     (let (name, f1) = (if gender = u ''female'' then fk_first_name_female (library E) f
                        else fk_first_name_male (library E) f)
      in case name of
           [] \<Rightarrow> Inl IndexError
         | c # _ \<Rightarrow>
             if uc_lower (unicode E) c \<noteq> first_letter
               then faker_first_names E gender first_letter n f1
             else if is_easy_to_decline E name gender then Inr (Some name, f1)
             else faker_first_names E gender first_letter n f1)"

definition generate_easy_name ::
  "env \<Rightarrow> ustr \<Rightarrow> ustr \<Rightarrow> nat \<Rightarrow> nat \<Rightarrow> nat \<Rightarrow> py_error + (ustr \<times> nat \<times> nat)" where
  "generate_easy_name E gender first_letter seed max_attempts f =
     (let g0 = rnd_seed (library E) seed;
          whitelist = (if gender = u ''male'' then GOOD_UKRAINIAN_NAMES_MALE
                       else GOOD_UKRAINIAN_NAMES_FEMALE);
          available = filter (\<lambda>n. py_lower E (take 1 n) = py_lower E first_letter) whitelist
      in if available \<noteq> [] then
           (case choice E available g0 of
              Inl e \<Rightarrow> Inl e
            | Inr (name, g1) \<Rightarrow> Inr (py_capitalize E name, g1, f))
         else
           (case faker_first_names E gender first_letter max_attempts f of
              Inl e \<Rightarrow> Inl e
            | Inr (Some name, f1) \<Rightarrow> Inr (name, g0, f1)
            | Inr (None, f1) \<Rightarrow>
                (case choice E whitelist g0 of
                   Inl e \<Rightarrow> Inl e
                 | Inr (name, g1) \<Rightarrow> Inr (py_capitalize E name, g1, f1))))"

text \<open>
  The retry loop of \<open>mask_name\<close>:
  \<^verbatim>\<open>attempts = 0
  while masked.lower() == original.lower() and attempts < 10:
      seed = get_deterministic_seed(original + str(attempts))
      new_name = generate_easy_name(gender, first_letter, seed, max_attempts=50)
      masked = apply_case_to_name(new_name, case, gender)
      attempts += 1\<close>
  It returns the value it ends with, the number of retries made and the generator
  states.
\<close>

function name_retry ::
  "env \<Rightarrow> ustr \<Rightarrow> ustr \<Rightarrow> ustr \<Rightarrow> ustr \<Rightarrow> ustr \<Rightarrow> nat \<Rightarrow> nat \<Rightarrow> nat
     \<Rightarrow> py_error + (ustr \<times> nat \<times> nat \<times> nat)" where
  "name_retry E original gcase gender first_letter masked attempts g f =
     (if py_lower E masked = py_lower E original \<and> attempts < 10 then
        (case get_deterministic_seed E (original @ py_str (int attempts)) of
           Inl e \<Rightarrow> Inl e
         | Inr seed \<Rightarrow>
             (case generate_easy_name E gender first_letter seed 50 f of
                Inl e \<Rightarrow> Inl e
              | Inr (new_name, g1, f1) \<Rightarrow>
                  name_retry E original gcase gender first_letter
                    (apply_case_to_name E new_name gcase gender) (attempts + 1) g1 f1))
      else Inr (masked, attempts, g, f))"
  by pat_completeness auto
termination
  by (relation "measure (\<lambda>(E, original, gcase, gender, first_letter, masked, attempts, g, f).
                           10 - attempts)") auto

declare name_retry.simps [simp del]

text \<open>The first generation of \<open>mask_name\<close> followed by the retry loop. The hints are
  \<open>None\<close> or a string; an empty string counts as no hint.\<close>

definition name_generate ::
  "env \<Rightarrow> ustr \<Rightarrow> ustr option \<Rightarrow> ustr option \<Rightarrow> nat \<Rightarrow> nat
     \<Rightarrow> py_error + (ustr \<times> nat \<times> nat \<times> nat)" where
  "name_generate E original gender_hint patronymic_hint g f =
     (let (gcase, gender_from_name) = detect_name_case_and_gender E original;
          gender1 =
            (case gender_hint of
               Some h \<Rightarrow> if h \<noteq> [] then h else
                  (case patronymic_hint of
                     Some p \<Rightarrow> if p \<noteq> [] then
                        (let d = detect_gender_by_patronymic E p
                         in if d = u ''unknown'' then gender_from_name else d)
                        else gender_from_name
                   | None \<Rightarrow> gender_from_name)
             | None \<Rightarrow>
                  (case patronymic_hint of
                     Some p \<Rightarrow> if p \<noteq> [] then
                        (let d = detect_gender_by_patronymic E p
                         in if d = u ''unknown'' then gender_from_name else d)
                        else gender_from_name
                   | None \<Rightarrow> gender_from_name));
          gender = (if gender1 = u ''unknown'' then u ''male'' else gender1);
          first_letter = py_lower E (take 1 original)
      in case get_deterministic_seed E original of
           Inl e \<Rightarrow> Inl e
         | Inr seed \<Rightarrow>
             (case generate_easy_name E gender first_letter seed 50 f of
                Inl e \<Rightarrow> Inl e
              | Inr (new_name, g1, f1) \<Rightarrow>
                  name_retry E original gcase gender first_letter
                    (apply_case_to_name E new_name gcase gender) 0 g1 f1))"

text \<open>The casing applied to the value before it is recorded.\<close>

definition name_casing :: "env \<Rightarrow> ustr \<Rightarrow> ustr \<Rightarrow> ustr" where
  "name_casing E original masked =
     (if py_isupper E original then py_upper E masked
      else if py_isupper E (take 1 original) \<and>
              (length original = 1 \<or> py_islower E (drop 1 original))
        then py_capitalize E masked
      else if py_islower E original then py_lower E masked
      else masked)"

text \<open>\<open>mask_name\<close>. \<open>original[0]\<close> is read before anything else, so the empty string
  raises \<open>IndexError\<close>; then the \<open>name\<close> category is read.\<close>

definition mask_name ::
  "env \<Rightarrow> ustr \<Rightarrow> ustr option \<Rightarrow> ustr option \<Rightarrow> world \<Rightarrow> py_error + (ustr \<times> world)" where
  "mask_name E original gender_hint patronymic_hint w =
     (if original = [] then Inl IndexError
      else case map_of (mappings (w_dict w)) (u ''name'') of
        None \<Rightarrow> Inl KeyError
      | Some cat \<Rightarrow>
          (case map_of cat original of
             Some r \<Rightarrow>
               record_masked w (u ''name'') original (name_casing E original (masked_as r))
           | None \<Rightarrow>
               (case name_generate E original gender_hint patronymic_hint
                       (w_random w) (w_faker w) of
                  Inl e \<Rightarrow> Inl e
                | Inr (masked, attempts, g, f) \<Rightarrow>
                    record_masked (w\<lparr>w_random := g, w_faker := f\<rparr>) (u ''name'') original
                      (name_casing E original masked))))"

section \<open>Regular expressions (module re)\<close>

text \<open>
  The patterns of the source are values of the type \<open>rx\<close>, matched by a backtracking
  matcher that returns the ways to match in the order in which \<open>re\<close> tries them: the
  left alternative before the right one, one more repetition before stopping. A match
  state is the position reached and the groups captured so far. With \<open>IGNORECASE\<close> a
  literal is compared through the simple lower-case mapping and a range is tried on the
  lower-cased character and on its upper-case form, as the engine of \<open>re\<close> does.
\<close>

datatype cclass = CChar nat | CRange nat nat | CDigit | CSpace | CWord

datatype rx =
    Lit nat
  | Cls "cclass list"
  | Dot
  | Eps
  | Seq rx rx
  | Alt rx rx
  | Star rx
  | WordB
  | NotWordBehind
  | NotWordAhead
  | Eos
  | Grp nat rx

type_synonym mstate = "nat \<times> (nat \<times> nat \<times> nat) list"

definition is_word :: "env \<Rightarrow> nat \<Rightarrow> bool" where
  "is_word E c = (uc_isalnum (unicode E) c \<or> c = 95)"

fun cclass_has :: "env \<Rightarrow> bool \<Rightarrow> cclass \<Rightarrow> nat \<Rightarrow> bool" where
  "cclass_has E icase (CChar a) c =
     (if icase then re_lower (unicode E) c = re_lower (unicode E) a else c = a)"
| "cclass_has E icase (CRange a b) c =
     (if icase then
        (let l = re_lower (unicode E) c; up = re_upper (unicode E) l
         in (a \<le> l \<and> l \<le> b) \<or> (a \<le> up \<and> up \<le> b))
      else a \<le> c \<and> c \<le> b)"
| "cclass_has E icase CDigit c = uc_isdecimal (unicode E) c"
| "cclass_has E icase CSpace c = uc_isspace (unicode E) c"
| "cclass_has E icase CWord c = is_word E c"

text \<open>\<open>\b\<close> at position \<open>i\<close>: exactly one of the two neighbours is a word character.\<close>

definition word_before :: "env \<Rightarrow> ustr \<Rightarrow> nat \<Rightarrow> bool" where
  "word_before E t i = (0 < i \<and> i \<le> length t \<and> is_word E (t ! (i - 1)))"

definition word_after :: "env \<Rightarrow> ustr \<Rightarrow> nat \<Rightarrow> bool" where
  "word_after E t i = (i < length t \<and> is_word E (t ! i))"

text \<open>Greedy repetition; an iteration that consumes nothing ends the repetition.\<close>

fun star_greedy :: "(mstate \<Rightarrow> mstate list) \<Rightarrow> nat \<Rightarrow> mstate \<Rightarrow> mstate list" where
  "star_greedy f 0 st = [st]"
| "star_greedy f (Suc n) st =
     concat (map (star_greedy f n) (filter (\<lambda>s. fst st < fst s) (f st))) @ [st]"

fun rx_match :: "env \<Rightarrow> bool \<Rightarrow> ustr \<Rightarrow> rx \<Rightarrow> mstate \<Rightarrow> mstate list" where
  "rx_match E icase t (Lit a) st =
     (if fst st < length t \<and> cclass_has E icase (CChar a) (t ! fst st)
      then [(fst st + 1, snd st)] else [])"
| "rx_match E icase t (Cls cs) st =
     (if fst st < length t \<and> (\<exists>k \<in> set cs. cclass_has E icase k (t ! fst st))
      then [(fst st + 1, snd st)] else [])"
| "rx_match E icase t Dot st =
     (if fst st < length t \<and> t ! fst st \<noteq> 10 then [(fst st + 1, snd st)] else [])"
| "rx_match E icase t Eps st = [st]"
| "rx_match E icase t (Seq a b) st = concat (map (rx_match E icase t b) (rx_match E icase t a st))"
| "rx_match E icase t (Alt a b) st = rx_match E icase t a st @ rx_match E icase t b st"
| "rx_match E icase t (Star a) st =
     star_greedy (rx_match E icase t a) (length t + 1 - fst st) st"
| "rx_match E icase t WordB st =
     (if word_before E t (fst st) \<noteq> word_after E t (fst st) then [st] else [])"
| "rx_match E icase t NotWordBehind st = (if word_before E t (fst st) then [] else [st])"
| "rx_match E icase t NotWordAhead st = (if word_after E t (fst st) then [] else [st])"
| "rx_match E icase t Eos st = (if fst st = length t then [st] else [])"
| "rx_match E icase t (Grp n a) st =
     map (\<lambda>s. (fst s, AList.update n (fst st, fst s) (snd s))) (rx_match E icase t a st)"

text \<open>Pattern builders: a literal string, \<open>r+\<close>, \<open>r?\<close>, \<open>r{n}\<close>, \<open>(a|b|...)\<close>, a sequence.\<close>

fun Str :: "ustr \<Rightarrow> rx" where
  "Str [] = Eps"
| "Str (c # cs) = Seq (Lit c) (Str cs)"

definition Plus :: "rx \<Rightarrow> rx" where
  "Plus r = Seq r (Star r)"

definition Opt :: "rx \<Rightarrow> rx" where
  "Opt r = Alt r Eps"

fun Rep :: "nat \<Rightarrow> rx \<Rightarrow> rx" where
  "Rep 0 r = Eps"
| "Rep (Suc n) r = Seq r (Rep n r)"

fun Alts :: "rx list \<Rightarrow> rx" where
  "Alts [] = Cls []"
| "Alts [r] = r"
| "Alts (r # rs) = Alt r (Alts rs)"

fun Seqs :: "rx list \<Rightarrow> rx" where
  "Seqs [] = Eps"
| "Seqs (r # rs) = Seq r (Seqs rs)"

text \<open>\<open>re.match\<close> (at a position), \<open>re.search\<close> and \<open>re.finditer\<close>: the first way to match
  at the leftmost position that has one. A match is (start, end, groups).\<close>

definition rx_match_at ::
  "env \<Rightarrow> bool \<Rightarrow> ustr \<Rightarrow> rx \<Rightarrow> nat \<Rightarrow> (nat \<times> nat \<times> (nat \<times> nat \<times> nat) list) option" where
  "rx_match_at E icase t r pos =
     (case rx_match E icase t r (pos, []) of
        [] \<Rightarrow> None
      | s # _ \<Rightarrow> Some (pos, fst s, snd s))"

function rx_finditer ::
  "env \<Rightarrow> bool \<Rightarrow> ustr \<Rightarrow> rx \<Rightarrow> nat \<Rightarrow> (nat \<times> nat \<times> (nat \<times> nat \<times> nat) list) list" where
  "rx_finditer E icase t r pos =
     (if length t < pos then []
      else case rx_match_at E icase t r pos of
             None \<Rightarrow> rx_finditer E icase t r (pos + 1)
           | Some m \<Rightarrow>
               m # rx_finditer E icase t r (if pos < fst (snd m) then fst (snd m) else pos + 1))"
  by pat_completeness auto
termination
  by (relation "measure (\<lambda>(E, icase, t, r, pos). length t + 1 - pos)") auto

declare rx_finditer.simps [simp del]

function rx_search ::
  "env \<Rightarrow> bool \<Rightarrow> ustr \<Rightarrow> rx \<Rightarrow> nat \<Rightarrow> (nat \<times> nat \<times> (nat \<times> nat \<times> nat) list) option" where
  "rx_search E icase t r pos =
     (if length t < pos then None
      else case rx_match_at E icase t r pos of
             None \<Rightarrow> rx_search E icase t r (pos + 1)
           | Some m \<Rightarrow> Some m)"
  by pat_completeness auto
termination
  by (relation "measure (\<lambda>(E, icase, t, r, pos). length t + 1 - pos)") auto

declare rx_search.simps [simp del]

text \<open>\<open>text[start:end]\<close>.\<close>

definition slice :: "ustr \<Rightarrow> nat \<Rightarrow> nat \<Rightarrow> ustr" where
  "slice t i j = take (j - i) (drop i t)"

section \<open>Ranks (data_masking.py)\<close>

text \<open>
  \<open>RANK_PATTERNS\<close>: each pattern is \<open>\b(...|...)\b\<close> over the rank names of one service
  category, in this order. Army: rekrut, riadovyj, soldat, starshyj soldat, efrejtor, molodshyj serzhant, serzhant, starshyj serzhant, holovnyj serzhant, shtabs-serzhant, majster-serzhant, starshyj majster-serzhant, holovnyj majster-serzhant, praporshchyk, starshyj praporshchyk, molodshyj lejtenant, lejtenant, starshyj lejtenant, kapitan, major, pidpolkovnyk, polkovnyk, bryhadnyj heneral, heneral-major, heneral-lejtenant, heneral.
  Naval: matros, moriak, starshyj matros, starshyj moriak, molodshyj serzhant, serzhant, starshyj serzhant, holovnyj serzhant, shtabs-serzhant, majster-serzhant, starshyj majster-serzhant, holovnyj majster-serzhant, molodshyj lejtenant, lejtenant, starshyj lejtenant, kapitan-lejtenant, kapitan <digits>-ho ranhu, kontr-admiral, vitse-admiral, admiral.
  The legal and medical patterns are the army officer and sergeant ranks followed by
  "iustytsiyi" and by "medychnoyi sluzhby".
\<close>

definition RANK_PATTERN_army :: rx where
  "RANK_PATTERN_army = Seqs [WordB, Grp 1 (Alts
        [Str [1088, 1077, 1082, 1088, 1091, 1090],
         Str [1088, 1103, 1076, 1086, 1074, 1080, 1081],
         Str [1089, 1086, 1083, 1076, 1072, 1090],
         Str [1089, 1090, 1072, 1088, 1096, 1080, 1081, 32, 1089, 1086, 1083, 1076, 1072, 1090],
         Str [1077, 1092, 1088, 1077, 1081, 1090, 1086, 1088],
         Str [1084, 1086, 1083, 1086, 1076, 1096, 1080, 1081, 32, 1089, 1077, 1088, 1078, 1072, 1085, 1090],
         Str [1089, 1077, 1088, 1078, 1072, 1085, 1090],
         Str [1089, 1090, 1072, 1088, 1096, 1080, 1081, 32, 1089, 1077, 1088, 1078, 1072, 1085, 1090],
         Str [1075, 1086, 1083, 1086, 1074, 1085, 1080, 1081, 32, 1089, 1077, 1088, 1078, 1072, 1085, 1090],
         Str [1096, 1090, 1072, 1073, 1089, 45, 1089, 1077, 1088, 1078, 1072, 1085, 1090],
         Str [1084, 1072, 1081, 1089, 1090, 1077, 1088, 45, 1089, 1077, 1088, 1078, 1072, 1085, 1090],
         Str [1089, 1090, 1072, 1088, 1096, 1080, 1081, 32, 1084, 1072, 1081, 1089, 1090, 1077, 1088, 45, 1089, 1077, 1088, 1078, 1072, 1085, 1090],
         Str [1075, 1086, 1083, 1086, 1074, 1085, 1080, 1081, 32, 1084, 1072, 1081, 1089, 1090, 1077, 1088, 45, 1089, 1077, 1088, 1078, 1072, 1085, 1090],
         Str [1087, 1088, 1072, 1087, 1086, 1088, 1097, 1080, 1082],
         Str [1089, 1090, 1072, 1088, 1096, 1080, 1081, 32, 1087, 1088, 1072, 1087, 1086, 1088, 1097, 1080, 1082],
         Str [1084, 1086, 1083, 1086, 1076, 1096, 1080, 1081, 32, 1083, 1077, 1081, 1090, 1077, 1085, 1072, 1085, 1090],
         Str [1083, 1077, 1081, 1090, 1077, 1085, 1072, 1085, 1090],
         Str [1089, 1090, 1072, 1088, 1096, 1080, 1081, 32, 1083, 1077, 1081, 1090, 1077, 1085, 1072, 1085, 1090],
         Str [1082, 1072, 1087, 1110, 1090, 1072, 1085],
         Str [1084, 1072, 1081, 1086, 1088],
         Str [1087, 1110, 1076, 1087, 1086, 1083, 1082, 1086, 1074, 1085, 1080, 1082],
         Str [1087, 1086, 1083, 1082, 1086, 1074, 1085, 1080, 1082],
         Str [1073, 1088, 1080, 1075, 1072, 1076, 1085, 1080, 1081, 32, 1075, 1077, 1085, 1077, 1088, 1072, 1083],
         Str [1075, 1077, 1085, 1077, 1088, 1072, 1083, 45, 1084, 1072, 1081, 1086, 1088],
         Str [1075, 1077, 1085, 1077, 1088, 1072, 1083, 45, 1083, 1077, 1081, 1090, 1077, 1085, 1072, 1085, 1090],
         Str [1075, 1077, 1085, 1077, 1088, 1072, 1083]]), WordB]"

definition RANK_PATTERN_naval :: rx where
  "RANK_PATTERN_naval = Seqs [WordB, Grp 1 (Alts
        [Str [1084, 1072, 1090, 1088, 1086, 1089],
         Str [1084, 1086, 1088, 1103, 1082],
         Str [1089, 1090, 1072, 1088, 1096, 1080, 1081, 32, 1084, 1072, 1090, 1088, 1086, 1089],
         Str [1089, 1090, 1072, 1088, 1096, 1080, 1081, 32, 1084, 1086, 1088, 1103, 1082],
         Str [1084, 1086, 1083, 1086, 1076, 1096, 1080, 1081, 32, 1089, 1077, 1088, 1078, 1072, 1085, 1090],
         Str [1089, 1077, 1088, 1078, 1072, 1085, 1090],
         Str [1089, 1090, 1072, 1088, 1096, 1080, 1081, 32, 1089, 1077, 1088, 1078, 1072, 1085, 1090],
         Str [1075, 1086, 1083, 1086, 1074, 1085, 1080, 1081, 32, 1089, 1077, 1088, 1078, 1072, 1085, 1090],
         Str [1096, 1090, 1072, 1073, 1089, 45, 1089, 1077, 1088, 1078, 1072, 1085, 1090],
         Str [1084, 1072, 1081, 1089, 1090, 1077, 1088, 45, 1089, 1077, 1088, 1078, 1072, 1085, 1090],
         Str [1089, 1090, 1072, 1088, 1096, 1080, 1081, 32, 1084, 1072, 1081, 1089, 1090, 1077, 1088, 45, 1089, 1077, 1088, 1078, 1072, 1085, 1090],
         Str [1075, 1086, 1083, 1086, 1074, 1085, 1080, 1081, 32, 1084, 1072, 1081, 1089, 1090, 1077, 1088, 45, 1089, 1077, 1088, 1078, 1072, 1085, 1090],
         Str [1084, 1086, 1083, 1086, 1076, 1096, 1080, 1081, 32, 1083, 1077, 1081, 1090, 1077, 1085, 1072, 1085, 1090],
         Str [1083, 1077, 1081, 1090, 1077, 1085, 1072, 1085, 1090],
         Str [1089, 1090, 1072, 1088, 1096, 1080, 1081, 32, 1083, 1077, 1081, 1090, 1077, 1085, 1072, 1085, 1090],
         Str [1082, 1072, 1087, 1110, 1090, 1072, 1085, 45, 1083, 1077, 1081, 1090, 1077, 1085, 1072, 1085, 1090],
         Seq (Str [1082, 1072, 1087, 1110, 1090, 1072, 1085, 32]) (Seq (Plus (Cls [CDigit])) (Str [45, 1075, 1086, 32, 1088, 1072, 1085, 1075, 1091])),
         Str [1082, 1086, 1085, 1090, 1088, 45, 1072, 1076, 1084, 1110, 1088, 1072, 1083],
         Str [1074, 1110, 1094, 1077, 45, 1072, 1076, 1084, 1110, 1088, 1072, 1083],
         Str [1072, 1076, 1084, 1110, 1088, 1072, 1083]]), WordB]"

definition RANK_PATTERN_legal :: rx where
  "RANK_PATTERN_legal = Seqs [WordB, Grp 1 (Alts
        [Str [1084, 1086, 1083, 1086, 1076, 1096, 1080, 1081, 32, 1089, 1077, 1088, 1078, 1072, 1085, 1090, 32, 1102, 1089, 1090, 1080, 1094, 1110, 1111],
         Str [1089, 1077, 1088, 1078, 1072, 1085, 1090, 32, 1102, 1089, 1090, 1080, 1094, 1110, 1111],
         Str [1089, 1090, 1072, 1088, 1096, 1080, 1081, 32, 1089, 1077, 1088, 1078, 1072, 1085, 1090, 32, 1102, 1089, 1090, 1080, 1094, 1110, 1111],
         Str [1075, 1086, 1083, 1086, 1074, 1085, 1080, 1081, 32, 1089, 1077, 1088, 1078, 1072, 1085, 1090, 32, 1102, 1089, 1090, 1080, 1094, 1110, 1111],
         Str [1096, 1090, 1072, 1073, 1089, 45, 1089, 1077, 1088, 1078, 1072, 1085, 1090, 32, 1102, 1089, 1090, 1080, 1094, 1110, 1111],
         Str [1084, 1086, 1083, 1086, 1076, 1096, 1080, 1081, 32, 1083, 1077, 1081, 1090, 1077, 1085, 1072, 1085, 1090, 32, 1102, 1089, 1090, 1080, 1094, 1110, 1111],
         Str [1083, 1077, 1081, 1090, 1077, 1085, 1072, 1085, 1090, 32, 1102, 1089, 1090, 1080, 1094, 1110, 1111],
         Str [1089, 1090, 1072, 1088, 1096, 1080, 1081, 32, 1083, 1077, 1081, 1090, 1077, 1085, 1072, 1085, 1090, 32, 1102, 1089, 1090, 1080, 1094, 1110, 1111],
         Str [1082, 1072, 1087, 1110, 1090, 1072, 1085, 32, 1102, 1089, 1090, 1080, 1094, 1110, 1111],
         Str [1084, 1072, 1081, 1086, 1088, 32, 1102, 1089, 1090, 1080, 1094, 1110, 1111],
         Str [1087, 1110, 1076, 1087, 1086, 1083, 1082, 1086, 1074, 1085, 1080, 1082, 32, 1102, 1089, 1090, 1080, 1094, 1110, 1111],
         Str [1087, 1086, 1083, 1082, 1086, 1074, 1085, 1080, 1082, 32, 1102, 1089, 1090, 1080, 1094, 1110, 1111],
         Str [1075, 1077, 1085, 1077, 1088, 1072, 1083, 45, 1084, 1072, 1081, 1086, 1088, 32, 1102, 1089, 1090, 1080, 1094, 1110, 1111],
         Str [1075, 1077, 1085, 1077, 1088, 1072, 1083, 45, 1083, 1077, 1081, 1090, 1077, 1085, 1072, 1085, 1090, 32, 1102, 1089, 1090, 1080, 1094, 1110, 1111]]), WordB]"

definition RANK_PATTERN_medical :: rx where
  "RANK_PATTERN_medical = Seqs [WordB, Grp 1 (Alts
        [Str [1084, 1086, 1083, 1086, 1076, 1096, 1080, 1081, 32, 1089, 1077, 1088, 1078, 1072, 1085, 1090, 32, 1084, 1077, 1076, 1080, 1095, 1085, 1086, 1111, 32, 1089, 1083, 1091, 1078, 1073, 1080],
         Str [1089, 1077, 1088, 1078, 1072, 1085, 1090, 32, 1084, 1077, 1076, 1080, 1095, 1085, 1086, 1111, 32, 1089, 1083, 1091, 1078, 1073, 1080],
         Str [1089, 1090, 1072, 1088, 1096, 1080, 1081, 32, 1089, 1077, 1088, 1078, 1072, 1085, 1090, 32, 1084, 1077, 1076, 1080, 1095, 1085, 1086, 1111, 32, 1089, 1083, 1091, 1078, 1073, 1080],
         Str [1075, 1086, 1083, 1086, 1074, 1085, 1080, 1081, 32, 1089, 1077, 1088, 1078, 1072, 1085, 1090, 32, 1084, 1077, 1076, 1080, 1095, 1085, 1086, 1111, 32, 1089, 1083, 1091, 1078, 1073, 1080],
         Str [1096, 1090, 1072, 1073, 1089, 45, 1089, 1077, 1088, 1078, 1072, 1085, 1090, 32, 1084, 1077, 1076, 1080, 1095, 1085, 1086, 1111, 32, 1089, 1083, 1091, 1078, 1073, 1080],
         Str [1084, 1086, 1083, 1086, 1076, 1096, 1080, 1081, 32, 1083, 1077, 1081, 1090, 1077, 1085, 1072, 1085, 1090, 32, 1084, 1077, 1076, 1080, 1095, 1085, 1086, 1111, 32, 1089, 1083, 1091, 1078, 1073, 1080],
         Str [1083, 1077, 1081, 1090, 1077, 1085, 1072, 1085, 1090, 32, 1084, 1077, 1076, 1080, 1095, 1085, 1086, 1111, 32, 1089, 1083, 1091, 1078, 1073, 1080],
         Str [1089, 1090, 1072, 1088, 1096, 1080, 1081, 32, 1083, 1077, 1081, 1090, 1077, 1085, 1072, 1085, 1090, 32, 1084, 1077, 1076, 1080, 1095, 1085, 1086, 1111, 32, 1089, 1083, 1091, 1078, 1073, 1080],
         Str [1082, 1072, 1087, 1110, 1090, 1072, 1085, 32, 1084, 1077, 1076, 1080, 1095, 1085, 1086, 1111, 32, 1089, 1083, 1091, 1078, 1073, 1080],
         Str [1084, 1072, 1081, 1086, 1088, 32, 1084, 1077, 1076, 1080, 1095, 1085, 1086, 1111, 32, 1089, 1083, 1091, 1078, 1073, 1080],
         Str [1087, 1110, 1076, 1087, 1086, 1083, 1082, 1086, 1074, 1085, 1080, 1082, 32, 1084, 1077, 1076, 1080, 1095, 1085, 1086, 1111, 32, 1089, 1083, 1091, 1078, 1073, 1080],
         Str [1087, 1086, 1083, 1082, 1086, 1074, 1085, 1080, 1082, 32, 1084, 1077, 1076, 1080, 1095, 1085, 1086, 1111, 32, 1089, 1083, 1091, 1078, 1073, 1080],
         Str [1075, 1077, 1085, 1077, 1088, 1072, 1083, 45, 1084, 1072, 1081, 1086, 1088, 32, 1084, 1077, 1076, 1080, 1095, 1085, 1086, 1111, 32, 1089, 1083, 1091, 1078, 1073, 1080],
         Str [1075, 1077, 1085, 1077, 1088, 1072, 1083, 45, 1083, 1077, 1081, 1090, 1077, 1085, 1072, 1085, 1090, 32, 1084, 1077, 1076, 1080, 1095, 1085, 1086, 1111, 32, 1089, 1083, 1091, 1078, 1073, 1080]]), WordB]"

definition RANK_PATTERNS :: "(ustr \<times> rx) list" where
  "RANK_PATTERNS =
     [(u ''army'', RANK_PATTERN_army), (u ''naval'', RANK_PATTERN_naval),
      (u ''legal'', RANK_PATTERN_legal), (u ''medical'', RANK_PATTERN_medical)]"

text \<open>\<open>str.split()\<close>: the maximal runs of characters that are not white space.\<close>

fun split_ws :: "env \<Rightarrow> ustr \<Rightarrow> ustr \<Rightarrow> ustr list" where
  "split_ws E [] cur = (if cur = [] then [] else [cur])"
| "split_ws E (c # cs) cur =
     (if uc_isspace (unicode E) c
      then (if cur = [] then split_ws E cs [] else cur # split_ws E cs [])
      else split_ws E cs (cur @ [c]))"

definition py_split :: "env \<Rightarrow> ustr \<Rightarrow> ustr list" where
  "py_split E s = split_ws E s []"

text \<open>\<open>str.istitle\<close> and \<open>str.title\<close>: an upper-case or title-case character may only
  follow an uncased one, a lower-case character only a cased one.\<close>

definition uc_cased :: "env \<Rightarrow> nat \<Rightarrow> bool" where
  "uc_cased E c = (uc_isupper (unicode E) c \<or> uc_islower (unicode E) c \<or> uc_istitle (unicode E) c)"

fun istitle_from :: "env \<Rightarrow> ustr \<Rightarrow> bool \<Rightarrow> bool \<Rightarrow> bool" where
  "istitle_from E [] previous_is_cased cased = cased"
| "istitle_from E (c # cs) previous_is_cased cased =
     (if uc_isupper (unicode E) c \<or> uc_istitle (unicode E) c then
        (if previous_is_cased then False else istitle_from E cs True True)
      else if uc_islower (unicode E) c then
        (if previous_is_cased then istitle_from E cs True True else False)
      else istitle_from E cs False cased)"

definition py_istitle :: "env \<Rightarrow> ustr \<Rightarrow> bool" where
  "py_istitle E s = istitle_from E s False False"

fun title_from :: "env \<Rightarrow> ustr \<Rightarrow> bool \<Rightarrow> ustr" where
  "title_from E [] previous_is_cased = []"
| "title_from E (c # cs) previous_is_cased =
     (if previous_is_cased then uc_lower (unicode E) c else uc_title (unicode E) c)
       @ title_from E cs (uc_cased E c)"

definition py_title :: "env \<Rightarrow> ustr \<Rightarrow> ustr" where
  "py_title E s = title_from E s False"

text \<open>
  \<^verbatim>\<open>if not original or not masked: return masked
  if original.isupper(): return masked.upper()
  elif len(original) > 1 and original[0].isupper() and original[1:].islower():
      return masked.capitalize()
  else: return masked.lower()\<close>
\<close>

definition apply_original_case :: "env \<Rightarrow> ustr \<Rightarrow> ustr \<Rightarrow> ustr" where
  "apply_original_case E original masked =
     (if original = [] \<or> masked = [] then masked
      else if py_isupper E original then py_upper E masked
      else if length original > 1 \<and> py_isupper E (take 1 original)
              \<and> py_islower E (drop 1 original)
        then py_capitalize E masked
      else py_lower E masked)"

text \<open>\<open>get_rank_category_and_match\<close>: the first pattern of \<open>RANK_PATTERNS\<close>, in the order
  army, naval, legal, medical, that is found in the lower-cased text, and what it
  matched.\<close>

fun first_rank_match :: "env \<Rightarrow> ustr \<Rightarrow> (ustr \<times> rx) list \<Rightarrow> (ustr \<times> ustr) option" where
  "first_rank_match E text_lower [] = None"
| "first_rank_match E text_lower ((category, pattern) # rest) =
     (case rx_search E True text_lower pattern 0 of
        None \<Rightarrow> first_rank_match E text_lower rest
      | Some m \<Rightarrow> Some (category, slice text_lower (fst m) (fst (snd m))))"

definition get_rank_category_and_match :: "env \<Rightarrow> ustr \<Rightarrow> (ustr \<times> ustr) option" where
  "get_rank_category_and_match E text = first_rank_match E (py_lower E text) RANK_PATTERNS"

definition get_rank_info :: "env \<Rightarrow> ustr \<Rightarrow> (ustr \<times> ustr \<times> ustr) option" where
  "get_rank_info E rank_form = map_of (RANK_TO_NOMINATIVE (ranks E)) (py_lower E rank_form)"

definition get_rank_in_case :: "env \<Rightarrow> ustr \<Rightarrow> ustr \<Rightarrow> ustr" where
  "get_rank_in_case E nominative_rank target_case =
     (case map_of (RANK_DECLENSIONS (ranks E)) nominative_rank of
        None \<Rightarrow> nominative_rank
      | Some forms \<Rightarrow> dict_get forms target_case nominative_rank)"

definition rank_hierarchy :: "env \<Rightarrow> ustr \<Rightarrow> ustr list option" where
  "rank_hierarchy E category_name =
     (if category_name = u ''army'' then Some (ARMY_RANKS (ranks E))
      else if category_name = u ''naval'' then Some (NAVAL_RANKS (ranks E))
      else if category_name = u ''legal'' then Some (LEGAL_RANKS (ranks E))
      else if category_name = u ''medical'' then Some (MEDICAL_RANKS (ranks E))
      else None)"

text \<open>\<open>list.index\<close>; \<open>None\<close> stands for the \<open>ValueError\<close> that the caller catches.\<close>

fun index_of :: "'a list \<Rightarrow> 'a \<Rightarrow> nat option" where
  "index_of [] x = None"
| "index_of (y # ys) x = (if y = x then Some 0 else map_option Suc (index_of ys x))"

text \<open>
  One draw: \<^verbatim>\<open>shift = random.choice([-2, -1, 1, 2])
  new_idx = max(0, min(len(hierarchy) - 1, idx + shift))
  masked = hierarchy[new_idx]\<close>
\<close>

definition rank_draw :: "env \<Rightarrow> ustr list \<Rightarrow> nat \<Rightarrow> nat \<Rightarrow> py_error + (ustr \<times> nat)" where
  "rank_draw E hierarchy idx g =
     (case choice E [- 2, - 1, 1, 2 :: int] g of
        Inl e \<Rightarrow> Inl e
      | Inr (shift, g1) \<Rightarrow>
          (let new_idx = max 0 (min (int (length hierarchy) - 1) (int idx + shift))
           in if nat new_idx < length hierarchy then Inr (hierarchy ! nat new_idx, g1)
              else Inl IndexError))"

text \<open>
  The retry loop of \<open>mask_rank\<close>:
  \<^verbatim>\<open>attempts = 0
  while masked.lower() == original_key and attempts < 10:
      shift = random.choice([-2, -1, 1, 2])
      new_idx = max(0, min(len(hierarchy) - 1, idx + shift))
      masked = hierarchy[new_idx]
      attempts += 1\<close>
\<close>

function rank_retry ::
  "env \<Rightarrow> ustr list \<Rightarrow> nat \<Rightarrow> ustr \<Rightarrow> ustr \<Rightarrow> nat \<Rightarrow> nat \<Rightarrow> py_error + (ustr \<times> nat \<times> nat)" where
  "rank_retry E hierarchy idx original_key masked attempts g =
     (if py_lower E masked = original_key \<and> attempts < 10 then
        (case rank_draw E hierarchy idx g of
           Inl e \<Rightarrow> Inl e
         | Inr (masked', g1) \<Rightarrow>
             rank_retry E hierarchy idx original_key masked' (attempts + 1) g1)
      else Inr (masked, attempts, g))"
  by pat_completeness auto
termination
  by (relation "measure (\<lambda>(E, hierarchy, idx, original_key, masked, attempts, g).
                           10 - attempts)") auto

declare rank_retry.simps [simp del]

text \<open>The first draw followed by the retry loop.\<close>

definition rank_generate ::
  "env \<Rightarrow> ustr list \<Rightarrow> nat \<Rightarrow> ustr \<Rightarrow> nat \<Rightarrow> py_error + (ustr \<times> nat \<times> nat)" where
  "rank_generate E hierarchy idx original_key g =
     (case rank_draw E hierarchy idx g of
        Inl e \<Rightarrow> Inl e
      | Inr (masked, g1) \<Rightarrow> rank_retry E hierarchy idx original_key masked 0 g1)"

text \<open>The re-inflection applied to the value of the loop before it is recorded.\<close>

definition rank_inflect :: "env \<Rightarrow> ustr \<Rightarrow> ustr \<Rightarrow> ustr" where
  "rank_inflect E original_key masked =
     (case get_rank_info E original_key of
        None \<Rightarrow> masked
      | Some (detected_base, detected_case, detected_gender) \<Rightarrow>
          if detected_case \<noteq> [] \<and> detected_case \<noteq> u ''nominative''
          then get_rank_in_case E masked detected_case else masked)"

text \<open>The casing of the value that \<open>mask_rank\<close> returns after a first masking.\<close>

definition rank_casing :: "env \<Rightarrow> ustr \<Rightarrow> ustr \<Rightarrow> ustr" where
  "rank_casing E original final_masked =
     (if PRESERVE_CASE (cfg E) then
        (if 45 \<in> set original \<and> py_istitle E original then py_title E final_masked
         else if length (py_split E original) > 1 \<and>
                 (\<forall>word \<in> set (py_split E original). word \<noteq> [] \<and> py_isupper E (take 1 word))
           then py_title E final_masked
         else apply_original_case E original final_masked)
      else final_masked)"

definition is_someone_else_mask :: "env \<Rightarrow> (ustr \<times> masking_record) list \<Rightarrow> ustr \<Rightarrow> bool" where
  "is_someone_else_mask E cat original_key =
     (\<exists>p \<in> set cat. py_lower E (masked_as (snd p)) = original_key \<and> fst p \<noteq> original_key)"

text \<open>\<open>mask_rank\<close>. The generation with its hierarchy, as far as it gets.\<close>

definition rank_generation ::
  "env \<Rightarrow> ustr \<Rightarrow> (py_error + (ustr \<times> nat \<times> nat)) option" where
  "rank_generation E original_key =
     (case get_rank_category_and_match E original_key of
        None \<Rightarrow> None
      | Some (category_name, matched) \<Rightarrow>
          if matched = [] then None
          else
            (case rank_hierarchy E category_name of
               None \<Rightarrow> None
             | Some hierarchy \<Rightarrow>
                 (case index_of (map (py_lower E) hierarchy) (py_lower E matched) of
                    None \<Rightarrow> None
                  | Some idx \<Rightarrow>
                      (case get_deterministic_seed E original_key of
                         Inl e \<Rightarrow> Some (Inl e)
                       | Inr seed \<Rightarrow>
                           Some (rank_generate E hierarchy idx original_key
                                   (rnd_seed (library E) seed))))))"

definition mask_rank :: "env \<Rightarrow> ustr \<Rightarrow> world \<Rightarrow> py_error + (ustr \<times> world)" where
  "mask_rank E original w =
     (let original_key = py_lower E original in
      case map_of (mappings (w_dict w)) (u ''rank'') of
        None \<Rightarrow> Inl KeyError
      | Some cat \<Rightarrow>
          (case (if is_someone_else_mask E cat original_key then None
                 else map_of cat original_key) of
             Some r \<Rightarrow>
               (case record_masked w (u ''rank'') original_key (masked_as r) of
                  Inl e \<Rightarrow> Inl e
                | Inr (final_masked, w') \<Rightarrow>
                    Inr (if PRESERVE_CASE (cfg E)
                         then apply_original_case E original final_masked
                         else final_masked, w'))
           | None \<Rightarrow>
               (case rank_generation E original_key of
                  None \<Rightarrow> Inr (original, w)
                | Some (Inl e) \<Rightarrow> Inl e
                | Some (Inr (masked, attempts, g)) \<Rightarrow>
                    (case record_masked (w\<lparr>w_random := g\<rparr>) (u ''rank'') original_key
                            (rank_inflect E original_key masked) of
                       Inl e \<Rightarrow> Inl e
                     | Inr (final_masked, w') \<Rightarrow>
                         Inr (rank_casing E original final_masked, w')))))"

section \<open>Span detection (mask_text_context_aware)\<close>

text \<open>\<open>int(s)\<close> on a run of decimal digits.\<close>

definition py_int :: "env \<Rightarrow> ustr \<Rightarrow> nat" where
  "py_int E s = foldl (\<lambda>n c. 10 * n + uc_decimal_value (unicode E) c) 0 s"

definition is_leap :: "nat \<Rightarrow> bool" where
  "is_leap y = (y mod 4 = 0 \<and> (y mod 100 \<noteq> 0 \<or> y mod 400 = 0))"

definition days_in_month :: "nat \<Rightarrow> nat \<Rightarrow> nat" where
  "days_in_month y m =
     (if m = 2 then (if is_leap y then 29 else 28)
      else if m = 4 \<or> m = 6 \<or> m = 9 \<or> m = 11 then 30 else 31)"

text \<open>\<open>is_valid_date\<close>: the year within 2015..2035 and \<open>datetime(year, month, day)\<close> does
  not raise.\<close>

definition is_valid_date :: "nat \<Rightarrow> nat \<Rightarrow> nat \<Rightarrow> bool" where
  "is_valid_date day month year =
     (if year < 2015 \<or> year > 2035 then False
      else 1 \<le> month \<and> month \<le> 12 \<and> 1 \<le> day \<and> day \<le> days_in_month year month)"

text \<open>The entries of \<open>items_to_mask\<close> and of \<open>items_to_skip\<close>.\<close>

record span =
  sp_type :: ustr
  full_text :: ustr
  number_part :: ustr
  sp_start :: nat
  sp_end :: nat

record skip_item =
  sk_start :: nat
  sk_end :: nat
  sk_text :: ustr

abbreviation digit :: rx where
  "digit \<equiv> Cls [CDigit]"

abbreviation space :: rx where
  "space \<equiv> Cls [CSpace]"

text \<open>\<open>[/-]\<close> and \<open>[A-Ya-yaA-Za-z]\<close> (Cyrillic A..Ya, a..ya; Latin).\<close>

abbreviation slash_dash :: rx where
  "slash_dash \<equiv> Cls [CChar 47, CChar 45]"

abbreviation letter :: rx where
  "letter \<equiv> Cls [CRange 1040 1071, CRange 1072 1103, CRange 65 90, CRange 97 122]"

text \<open>\<open>\d+(?:\s*,\s*\d+)*\<close> after one of the citation words (statei, stat'i, punktu,
  chastyna, rozdilu and their other endings) and white space.\<close>

definition legal_numbers :: rx where
  "legal_numbers =
     Seq (Plus digit) (Star (Seqs [Star space, Lit 44, Star space, Plus digit]))"

definition legal_patterns :: "rx list" where
  "legal_patterns =
     [Seqs [Grp 1 (Alt (Seq (Str [1089, 1090, 1072, 1090, 1077]) (Cls [CChar 1081, CChar 1111]))
                       (Seq (Str [1089, 1090, 1072, 1090, 1100]) (Cls [CChar 1110, CChar 1077, CChar 1102, CChar 1103]))),
            Plus space, Grp 2 legal_numbers],
      Seqs [Grp 1 (Seq (Str [1087, 1091, 1085, 1082, 1090]) (Cls [CChar 1091, CChar 1072, CChar 1080, CChar 1110, CChar 1077, CChar 1108])), Plus space, Grp 2 legal_numbers],
      Seqs [Grp 1 (Seq (Str [1095, 1072, 1089, 1090, 1080, 1085]) (Cls [CChar 1072, CChar 1080, CChar 1102, CChar 1110, CChar 1077, CChar 1108])), Plus space, Grp 2 legal_numbers],
      Seqs [Grp 1 (Seq (Str [1088, 1086, 1079, 1076, 1110, 1083]) (Cls [CChar 1091, CChar 1072, CChar 1110, CChar 1077, CChar 1108])), Plus space, Grp 2 legal_numbers]]"

definition group_span :: "(nat \<times> nat \<times> nat) list \<Rightarrow> nat \<Rightarrow> nat \<times> nat" where
  "group_span caps n = dict_get caps n (0, 0)"

text \<open>The skip items of one match of a legal pattern: every run of digits of group 2.\<close>

definition legal_skip_items ::
  "env \<Rightarrow> ustr \<Rightarrow> nat \<times> nat \<times> (nat \<times> nat \<times> nat) list \<Rightarrow> skip_item list" where
  "legal_skip_items E t m =
     (let (base_pos, e2) = group_span (snd (snd m)) 2;
          numbers_text = slice t base_pos e2
      in map (\<lambda>nm. \<lparr>sk_start = base_pos + fst nm, sk_end = base_pos + fst (snd nm),
                       sk_text = slice numbers_text (fst nm) (fst (snd nm))\<rparr>)
             (rx_finditer E False numbers_text (Plus digit) 0))"

text \<open>\<open>UKRAINIAN_DATE_PATTERN\<close>: \<open>\b\d{1,2}[.\-]\d{1,2}[.\-]\d{2,4}\b\<close>.\<close>

definition UKRAINIAN_DATE_PATTERN :: rx where
  "UKRAINIAN_DATE_PATTERN =
     Seqs [WordB, digit, Opt digit, Cls [CChar 46, CChar 45], digit, Opt digit,
           Cls [CChar 46, CChar 45], digit, digit, Opt (Seq digit (Opt digit)), WordB]"

text \<open>\<open>analyze_number_sign_context\<close>, for the numero sign matched at \<open>[start, end)\<close>.
  The letters of the patterns: BR = 1041 1056; the suffixes dsk, p, k.\<close>

definition br_after_sign :: rx where
  "br_after_sign =
     Seqs [Star space, Str [1041, 1056], Opt (Cls [CChar 45, CSpace]),
           Grp 1 (Seqs [Plus digit, Star (Seq slash_dash (Plus digit)),
                        Star (Seq slash_dash (Plus letter))])]"

definition number_after_sign :: rx where
  "number_after_sign =
     Seqs [Star space,
           Grp 1 (Seqs [Plus digit, Star (Seq slash_dash (Plus digit)),
                        Opt (Alt (Seq slash_dash (Plus letter)) (Plus letter))])]"

definition br_suffix :: rx where
  "br_suffix = Alts [Str [1076, 1089, 1082], Str [1087], Str [1082]]"

definition make_span :: "ustr \<Rightarrow> ustr \<Rightarrow> ustr \<Rightarrow> nat \<Rightarrow> nat \<Rightarrow> span" where
  "make_span ty full part s e =
     \<lparr>sp_type = ty, full_text = full, number_part = part, sp_start = s, sp_end = e\<rparr>"

definition analyze_number_sign_context :: "env \<Rightarrow> ustr \<Rightarrow> nat \<Rightarrow> nat \<Rightarrow> span option" where
  "analyze_number_sign_context E t m_start m_end =
     (let after_text = slice t m_end (m_end + 100);
          br = (if rx_match_at E True after_text (Seq (Star space) (Str [1041, 1056])) 0 \<noteq> None
                then rx_match_at E True after_text br_after_sign 0 else None)
      in case br of
           Some bm \<Rightarrow>
             Some (make_span (u ''br_complex'') (slice t m_start (m_end + fst (snd bm)))
                     (slice after_text (fst (group_span (snd (snd bm)) 1))
                                       (snd (group_span (snd (snd bm)) 1)))
                     m_start (m_end + fst (snd bm)))
         | None \<Rightarrow>
             (case rx_match_at E False after_text number_after_sign 0 of
                None \<Rightarrow> None
              | Some nm \<Rightarrow>
                  (let number_text = slice after_text (fst (group_span (snd (snd nm)) 1))
                                                      (snd (group_span (snd (snd nm)) 1));
                       full = slice t m_start (m_end + fst (snd nm));
                       e = m_end + fst (snd nm);
                       ty =
                         (if rx_search E True number_text (Seq (Grp 1 br_suffix) Eos) 0 \<noteq> None
                          then (if count_list number_text 47 \<ge> 2 then u ''br_with_slashes''
                                else u ''br_with_suffix'')
                          else if rx_search E False number_text letter 0 \<noteq> None
                            then u ''order_with_letters''
                          else u ''order_simple'')
                   in Some (make_span ty full number_text m_start e))))"

text \<open>\<open>analyze_br_keyword\<close>, for the word BR matched at \<open>[start, end)\<close>.\<close>

definition number_after_br :: rx where
  "number_after_br =
     Seqs [Opt (Cls [CChar 45, CSpace]),
           Grp 1 (Seqs [Plus digit, Star (Seq slash_dash (Plus digit)), Opt br_suffix])]"

definition analyze_br_keyword :: "env \<Rightarrow> ustr \<Rightarrow> nat \<Rightarrow> nat \<Rightarrow> span option" where
  "analyze_br_keyword E t m_start m_end =
     (let after_text = slice t m_end (m_end + 100)
      in case rx_match_at E True after_text number_after_br 0 of
           None \<Rightarrow> None
         | Some bm \<Rightarrow>
             Some (make_span (u ''br_standalone'')
                     (slice t m_start m_end @ slice after_text 0 (fst (snd bm)))
                     (slice after_text (fst (group_span (snd (snd bm)) 1))
                                       (snd (group_span (snd (snd bm)) 1)))
                     m_start (m_end + fst (snd bm))))"

text \<open>The two tests of the source: ranges that overlap, and a range inside another.\<close>

definition overlaps_skip :: "nat \<Rightarrow> nat \<Rightarrow> skip_item \<Rightarrow> bool" where
  "overlaps_skip s e item = (s < sk_end item \<and> e > sk_start item)"

definition inside_skip :: "nat \<Rightarrow> nat \<Rightarrow> skip_item \<Rightarrow> bool" where
  "inside_skip s e item = (s \<ge> sk_start item \<and> e \<le> sk_end item)"

definition overlaps_span :: "nat \<Rightarrow> nat \<Rightarrow> span \<Rightarrow> bool" where
  "overlaps_span s e item = (s < sp_end item \<and> e > sp_start item)"

text \<open>The fixed-shape identifiers, the brigade phrase and the date.\<close>

definition ipn_pattern :: rx where
  "ipn_pattern = Seqs [WordB, Rep 10 digit, WordB]"

definition passport_pattern :: rx where
  "passport_pattern = Seqs [WordB, Rep 9 digit, WordB]"

definition military_id_pattern :: rx where
  "military_id_pattern =
     Seqs [WordB, Rep 2 (Cls [CRange 65 90, CRange 1040 1071]), Opt (Cls [CSpace, CChar 45]),
           Rep 6 digit, WordB]"

definition military_unit_pattern :: rx where
  "military_unit_pattern = Seqs [WordB, Cls [CRange 1040 1071, CRange 65 90], Rep 4 digit, WordB]"

text \<open>The brigade phrases: okremoyi mekhanizovanoyi bryhady, ombr, oshp, oshbr, bryhady, okremoyi shturmovoyi bryhady, desantno-shturmovoyi bryhady, dshb, tankovoyi bryhady, tbr.\<close>

definition brigade_number_pattern :: rx where
  "brigade_number_pattern =
     Seqs [WordB, Grp 1 (Plus digit), Plus space,
           Grp 2 (Alts
            [Str [1086, 1082, 1088, 1077, 1084, 1086, 1111, 32, 1084, 1077, 1093, 1072, 1085, 1110, 1079, 1086, 1074, 1072, 1085, 1086, 1111, 32, 1073, 1088, 1080, 1075, 1072, 1076, 1080],
            Str [1086, 1084, 1073, 1088],
            Str [1086, 1096, 1087],
            Str [1086, 1096, 1073, 1088],
            Str [1073, 1088, 1080, 1075, 1072, 1076, 1080],
            Str [1086, 1082, 1088, 1077, 1084, 1086, 1111, 32, 1096, 1090, 1091, 1088, 1084, 1086, 1074, 1086, 1111, 32, 1073, 1088, 1080, 1075, 1072, 1076, 1080],
            Str [1076, 1077, 1089, 1072, 1085, 1090, 1085, 1086, 45, 1096, 1090, 1091, 1088, 1084, 1086, 1074, 1086, 1111, 32, 1073, 1088, 1080, 1075, 1072, 1076, 1080],
            Str [1076, 1096, 1073],
            Str [1090, 1072, 1085, 1082, 1086, 1074, 1086, 1111, 32, 1073, 1088, 1080, 1075, 1072, 1076, 1080],
            Str [1090, 1073, 1088]]), WordB]"

definition date_pattern :: rx where
  "date_pattern =
     Seqs [WordB, Grp 1 (Rep 2 digit), Lit 46, Grp 2 (Rep 2 digit), Lit 46,
           Grp 3 (Rep 4 digit), WordB]"

text \<open>One pass over the matches of a pattern: a match is registered unless it lies
  inside a skip item or overlaps a candidate registered before.\<close>

definition register_plain ::
  "ustr \<Rightarrow> ustr \<Rightarrow> skip_item list \<Rightarrow> span list
     \<Rightarrow> nat \<times> nat \<times> (nat \<times> nat \<times> nat) list \<Rightarrow> span list" where
  "register_plain ty t items_to_skip items_to_mask m =
     (let s = fst m; e = fst (snd m);
          skip = ((\<exists>item \<in> set items_to_skip. inside_skip s e item) \<or>
                  (\<exists>item \<in> set items_to_mask. overlaps_span s e item))
      in if skip then items_to_mask
         else items_to_mask @ [make_span ty (slice t s e) (slice t s e) s e])"

definition register_brigade ::
  "ustr \<Rightarrow> skip_item list \<Rightarrow> span list
     \<Rightarrow> nat \<times> nat \<times> (nat \<times> nat \<times> nat) list \<Rightarrow> span list" where
  "register_brigade t items_to_skip items_to_mask m =
     (let s = fst m; e = fst (snd m); g1 = group_span (snd (snd m)) 1;
          skip = ((\<exists>item \<in> set items_to_skip. inside_skip s e item) \<or>
                  (\<exists>item \<in> set items_to_mask. overlaps_span s e item))
      in if skip then items_to_mask
         else items_to_mask
                @ [make_span (u ''brigade_number'') (slice t s e) (slice t (fst g1) (snd g1)) s e])"

definition register_date ::
  "env \<Rightarrow> ustr \<Rightarrow> skip_item list \<Rightarrow> span list
     \<Rightarrow> nat \<times> nat \<times> (nat \<times> nat \<times> nat) list \<Rightarrow> span list" where
  "register_date E t items_to_skip items_to_mask m =
     (let caps = snd (snd m);
          g = (\<lambda>n. py_int E (slice t (fst (group_span caps n)) (snd (group_span caps n))))
      in if is_valid_date (g 1) (g 2) (g 3)
         then register_plain (u ''date'') t items_to_skip items_to_mask m
         else items_to_mask)"

definition register_br ::
  "env \<Rightarrow> ustr \<Rightarrow> skip_item list \<Rightarrow> span list
     \<Rightarrow> nat \<times> nat \<times> (nat \<times> nat \<times> nat) list \<Rightarrow> span list" where
  "register_br E t items_to_skip items_to_mask m =
     (case analyze_br_keyword E t (fst m) (fst (snd m)) of
        None \<Rightarrow> items_to_mask
      | Some result \<Rightarrow>
          if (\<exists>item \<in> set items_to_skip. overlaps_skip (sp_start result) (sp_end result) item) \<or>
             (\<exists>item \<in> set items_to_mask. overlaps_span (sp_start result) (sp_end result) item)
          then items_to_mask else items_to_mask @ [result])"

text \<open>
  The detection part of \<open>mask_text_context_aware\<close>, on the text after
  \<open>normalize_broken_ranks\<close>: the skip items and the candidates in the order of their
  registration. Every registered candidate is then substituted, from the highest start
  offset down.
\<close>

definition detect_spans :: "env \<Rightarrow> ustr \<Rightarrow> skip_item list \<times> span list" where
  "detect_spans E t =
     (let skip0 =
            (if MASK_DATES (cfg E) then []
             else map (\<lambda>m. \<lparr>sk_start = fst m, sk_end = fst (snd m),
                              sk_text = slice t (fst m) (fst (snd m))\<rparr>)
                      (rx_finditer E False t UKRAINIAN_DATE_PATTERN 0));
          items_to_skip =
            skip0 @ concat (map (\<lambda>pattern. concat (map (legal_skip_items E t)
                                                        (rx_finditer E True t pattern 0)))
                                legal_patterns);
          m1 = (if MASK_ORDERS (cfg E) \<or> MASK_BR_NUMBERS (cfg E)
                then concat (map (\<lambda>m. case analyze_number_sign_context E t (fst m) (fst (snd m)) of
                                         None \<Rightarrow> [] | Some result \<Rightarrow> [result])
                                 (rx_finditer E False t (Lit 8470) 0))
                else []);
          m2 = (if MASK_BR_NUMBERS (cfg E)
                then foldl (register_br E t items_to_skip) m1
                       (rx_finditer E True t (Seqs [WordB, Str [1041, 1056], WordB]) 0)
                else m1);
          m3 = (if MASK_IPN (cfg E)
                then foldl (register_plain (u ''ipn'') t items_to_skip) m2
                       (rx_finditer E False t ipn_pattern 0)
                else m2);
          m4 = (if MASK_PASSPORT (cfg E)
                then foldl (register_plain (u ''passport_id'') t items_to_skip) m3
                       (rx_finditer E False t passport_pattern 0)
                else m3);
          m5 = (if MASK_MILITARY_ID (cfg E)
                then foldl (register_plain (u ''military_id'') t items_to_skip) m4
                       (rx_finditer E True t military_id_pattern 0)
                else m4);
          m6 = (if MASK_UNITS (cfg E)
                then foldl (register_plain (u ''military_unit'') t items_to_skip) m5
                       (rx_finditer E False t military_unit_pattern 0)
                else m5);
          m7 = (if MASK_BRIGADES (cfg E)
                then foldl (register_brigade t items_to_skip) m6
                       (rx_finditer E True t brigade_number_pattern 0)
                else m6);
          m8 = (if MASK_DATES (cfg E)
                then foldl (register_date E t items_to_skip) m7
                       (rx_finditer E True t date_pattern 0)
                else m7)
      in (items_to_skip, m8))"

section \<open>A concrete environment\<close>

text \<open>
  To run the model on concrete inputs: the part of the Unicode database that covers
  Basic Latin, the superscript digits of Latin-1 (digits for \<open>str.isdigit\<close>, not for
  \<open>str.isdecimal\<close> or \<open>\d\<close>), the Cyrillic letters and the modifier letter apostrophe
  (U+02BC, alphanumeric and without case); a checksum in place of the hash; a small
  linear congruential generator in place of the Mersenne Twister; and a \<open>Faker\<close> that
  walks through a short list of surnames and names. The library \<open>lib0\<close> only serves to
  run the definitions: its seeds and draws are not those of \<open>hashlib\<close> and \<open>random\<close>.
  What is stated of \<open>mask_rank\<close> below is stated for every library, with the draw it
  rests on named where it rests on one.
\<close>

definition lower0 :: "nat \<Rightarrow> nat" where
  "lower0 c =
     (if 65 \<le> c \<and> c \<le> 90 then c + 32
      else if 0x410 \<le> c \<and> c \<le> 0x42F then c + 32
      else if 0x400 \<le> c \<and> c \<le> 0x40F then c + 80
      else if c = 0x490 then 0x491
      else c)"

definition upper0 :: "nat \<Rightarrow> nat" where
  "upper0 c =
     (if 97 \<le> c \<and> c \<le> 122 then c - 32
      else if 0x430 \<le> c \<and> c \<le> 0x44F then c - 32
      else if 0x450 \<le> c \<and> c \<le> 0x45F then c - 80
      else if c = 0x491 then 0x490
      else c)"

definition isdecimal0 :: "nat \<Rightarrow> bool" where
  "isdecimal0 c = (48 \<le> c \<and> c \<le> 57)"

definition isdigit0 :: "nat \<Rightarrow> bool" where
  "isdigit0 c = (isdecimal0 c \<or> c = 0xB2 \<or> c = 0xB3 \<or> c = 0xB9)"

definition isspace0 :: "nat \<Rightarrow> bool" where
  "isspace0 c = ((9 \<le> c \<and> c \<le> 13) \<or> (28 \<le> c \<and> c \<le> 32) \<or> c = 0x85 \<or> c = 0xA0)"

definition ucd0 :: ucd where
  "ucd0 =
     \<lparr>uc_lower = (\<lambda>c. [lower0 c]), uc_upper = (\<lambda>c. [upper0 c]), uc_title = (\<lambda>c. [upper0 c]),
      uc_islower = (\<lambda>c. upper0 c \<noteq> c), uc_isupper = (\<lambda>c. lower0 c \<noteq> c),
      uc_istitle = (\<lambda>c. False),
      uc_isdigit = isdigit0, uc_isdecimal = isdecimal0,
      uc_isalnum = (\<lambda>c. isdigit0 c \<or> upper0 c \<noteq> c \<or> lower0 c \<noteq> c \<or> c = 0x2BC),
      uc_isspace = isspace0, re_lower = lower0, re_upper = upper0,
      uc_decimal_value = (\<lambda>c. c - 48)\<rparr>"

text \<open>Surnames of the stand-in \<open>Faker\<close>: Huk, SHevchenko, Mel'nyk, Bondarenko.\<close>

definition faker_surnames :: "ustr list" where
  "faker_surnames =
     [[1043, 1091, 1082],
      [1064, 1077, 1074, 1095, 1077, 1085, 1082, 1086],
      [1052, 1077, 1083, 1100, 1085, 1080, 1082],
      [1041, 1086, 1085, 1076, 1072, 1088, 1077, 1085, 1082, 1086]]"

text \<open>Its given names: Nazar, Nykon; Nina, Nonna.\<close>

definition faker_first_names_male :: "ustr list" where
  "faker_first_names_male =
     [[1053, 1072, 1079, 1072, 1088],
      [1053, 1080, 1082, 1086, 1085]]"

definition faker_first_names_female :: "ustr list" where
  "faker_first_names_female =
     [[1053, 1110, 1085, 1072],
      [1053, 1086, 1085, 1085, 1072]]"

definition lib0 :: lib where
  "lib0 =
     \<lparr>digest = (\<lambda>alg bytes. sum_list bytes + 7 * length bytes),
      rnd_seed = (\<lambda>n. n),
      rnd_below = (\<lambda>n g. (g mod n, (5 * g + 3) mod 1009)),
      fk_seed = (\<lambda>n. 0),
      fk_last_name = (\<lambda>f. (faker_surnames ! (f mod 4), Suc f)),
      fk_first_name_male = (\<lambda>f. (faker_first_names_male ! (f mod 2), Suc f)),
      fk_first_name_female = (\<lambda>f. (faker_first_names_female ! (f mod 2), Suc f)),
      fk_middle_name_male = (\<lambda>f. (faker_surnames ! (f mod 4), Suc f)),
      fk_middle_name_female = (\<lambda>f. (faker_surnames ! (f mod 4), Suc f))\<rparr>"

definition cfg0 :: config where
  "cfg0 = \<lparr>HASH_ALGORITHM = u ''blake2b'', PRESERVE_CASE = True, MASK_NAMES = True,
            MASK_IPN = True, MASK_PASSPORT = True, MASK_MILITARY_ID = True, MASK_RANKS = True,
            MASK_BRIGADES = True, MASK_UNITS = True, MASK_ORDERS = True,
            MASK_BR_NUMBERS = True, MASK_DATES = True\<rparr>"

text \<open>
  Modelled from the spec: the tables of rank_data.py are not in the repository. The
  spec describes each hierarchy as an ordered list of base (nominative, male) rank
  names per service category, and a reverse index from every inflected form to
  (base form, case, gender). Here the hierarchies are the rank names of
  \<open>RANK_PATTERNS\<close> in their order (with "kapitan 1-ho ranhu" for the naval pattern
  with a number), and the index and the declension table hold the forms that the
  tests of the repository spell out (soldat, kapitan, maior, heneral, matros,
  starshyi soldat), the naval base form kapitan-leitenant, and the forms of
  heneral-maior (heneral-maiora, heneral-maioru, heneral-maiorom), declined like maior.
\<close>

definition rank_data0 :: rank_data where
  "rank_data0 =
     \<lparr>ARMY_RANKS =
        [[1088, 1077, 1082, 1088, 1091, 1090],
         [1088, 1103, 1076, 1086, 1074, 1080, 1081],
         [1089, 1086, 1083, 1076, 1072, 1090],
         [1089, 1090, 1072, 1088, 1096, 1080, 1081, 32, 1089, 1086, 1083, 1076, 1072, 1090],
         [1077, 1092, 1088, 1077, 1081, 1090, 1086, 1088],
         [1084, 1086, 1083, 1086, 1076, 1096, 1080, 1081, 32, 1089, 1077, 1088, 1078, 1072, 1085, 1090],
         [1089, 1077, 1088, 1078, 1072, 1085, 1090],
         [1089, 1090, 1072, 1088, 1096, 1080, 1081, 32, 1089, 1077, 1088, 1078, 1072, 1085, 1090],
         [1075, 1086, 1083, 1086, 1074, 1085, 1080, 1081, 32, 1089, 1077, 1088, 1078, 1072, 1085, 1090],
         [1096, 1090, 1072, 1073, 1089, 45, 1089, 1077, 1088, 1078, 1072, 1085, 1090],
         [1084, 1072, 1081, 1089, 1090, 1077, 1088, 45, 1089, 1077, 1088, 1078, 1072, 1085, 1090],
         [1089, 1090, 1072, 1088, 1096, 1080, 1081, 32, 1084, 1072, 1081, 1089, 1090, 1077, 1088, 45, 1089, 1077, 1088, 1078, 1072, 1085, 1090],
         [1075, 1086, 1083, 1086, 1074, 1085, 1080, 1081, 32, 1084, 1072, 1081, 1089, 1090, 1077, 1088, 45, 1089, 1077, 1088, 1078, 1072, 1085, 1090],
         [1087, 1088, 1072, 1087, 1086, 1088, 1097, 1080, 1082],
         [1089, 1090, 1072, 1088, 1096, 1080, 1081, 32, 1087, 1088, 1072, 1087, 1086, 1088, 1097, 1080, 1082],
         [1084, 1086, 1083, 1086, 1076, 1096, 1080, 1081, 32, 1083, 1077, 1081, 1090, 1077, 1085, 1072, 1085, 1090],
         [1083, 1077, 1081, 1090, 1077, 1085, 1072, 1085, 1090],
         [1089, 1090, 1072, 1088, 1096, 1080, 1081, 32, 1083, 1077, 1081, 1090, 1077, 1085, 1072, 1085, 1090],
         [1082, 1072, 1087, 1110, 1090, 1072, 1085],
         [1084, 1072, 1081, 1086, 1088],
         [1087, 1110, 1076, 1087, 1086, 1083, 1082, 1086, 1074, 1085, 1080, 1082],
         [1087, 1086, 1083, 1082, 1086, 1074, 1085, 1080, 1082],
         [1073, 1088, 1080, 1075, 1072, 1076, 1085, 1080, 1081, 32, 1075, 1077, 1085, 1077, 1088, 1072, 1083],
         [1075, 1077, 1085, 1077, 1088, 1072, 1083, 45, 1084, 1072, 1081, 1086, 1088],
         [1075, 1077, 1085, 1077, 1088, 1072, 1083, 45, 1083, 1077, 1081, 1090, 1077, 1085, 1072, 1085, 1090],
         [1075, 1077, 1085, 1077, 1088, 1072, 1083]],
      NAVAL_RANKS =
        [[1084, 1072, 1090, 1088, 1086, 1089],
         [1084, 1086, 1088, 1103, 1082],
         [1089, 1090, 1072, 1088, 1096, 1080, 1081, 32, 1084, 1072, 1090, 1088, 1086, 1089],
         [1089, 1090, 1072, 1088, 1096, 1080, 1081, 32, 1084, 1086, 1088, 1103, 1082],
         [1084, 1086, 1083, 1086, 1076, 1096, 1080, 1081, 32, 1089, 1077, 1088, 1078, 1072, 1085, 1090],
         [1089, 1077, 1088, 1078, 1072, 1085, 1090],
         [1089, 1090, 1072, 1088, 1096, 1080, 1081, 32, 1089, 1077, 1088, 1078, 1072, 1085, 1090],
         [1075, 1086, 1083, 1086, 1074, 1085, 1080, 1081, 32, 1089, 1077, 1088, 1078, 1072, 1085, 1090],
         [1096, 1090, 1072, 1073, 1089, 45, 1089, 1077, 1088, 1078, 1072, 1085, 1090],
         [1084, 1072, 1081, 1089, 1090, 1077, 1088, 45, 1089, 1077, 1088, 1078, 1072, 1085, 1090],
         [1089, 1090, 1072, 1088, 1096, 1080, 1081, 32, 1084, 1072, 1081, 1089, 1090, 1077, 1088, 45, 1089, 1077, 1088, 1078, 1072, 1085, 1090],
         [1075, 1086, 1083, 1086, 1074, 1085, 1080, 1081, 32, 1084, 1072, 1081, 1089, 1090, 1077, 1088, 45, 1089, 1077, 1088, 1078, 1072, 1085, 1090],
         [1084, 1086, 1083, 1086, 1076, 1096, 1080, 1081, 32, 1083, 1077, 1081, 1090, 1077, 1085, 1072, 1085, 1090],
         [1083, 1077, 1081, 1090, 1077, 1085, 1072, 1085, 1090],
         [1089, 1090, 1072, 1088, 1096, 1080, 1081, 32, 1083, 1077, 1081, 1090, 1077, 1085, 1072, 1085, 1090],
         [1082, 1072, 1087, 1110, 1090, 1072, 1085, 45, 1083, 1077, 1081, 1090, 1077, 1085, 1072, 1085, 1090],
         [1082, 1072, 1087, 1110, 1090, 1072, 1085, 32, 49, 45, 1075, 1086, 32, 1088, 1072, 1085, 1075, 1091],
         [1082, 1086, 1085, 1090, 1088, 45, 1072, 1076, 1084, 1110, 1088, 1072, 1083],
         [1074, 1110, 1094, 1077, 45, 1072, 1076, 1084, 1110, 1088, 1072, 1083],
         [1072, 1076, 1084, 1110, 1088, 1072, 1083]],
      LEGAL_RANKS =
        [[1084, 1086, 1083, 1086, 1076, 1096, 1080, 1081, 32, 1089, 1077, 1088, 1078, 1072, 1085, 1090, 32, 1102, 1089, 1090, 1080, 1094, 1110, 1111],
         [1089, 1077, 1088, 1078, 1072, 1085, 1090, 32, 1102, 1089, 1090, 1080, 1094, 1110, 1111],
         [1089, 1090, 1072, 1088, 1096, 1080, 1081, 32, 1089, 1077, 1088, 1078, 1072, 1085, 1090, 32, 1102, 1089, 1090, 1080, 1094, 1110, 1111],
         [1075, 1086, 1083, 1086, 1074, 1085, 1080, 1081, 32, 1089, 1077, 1088, 1078, 1072, 1085, 1090, 32, 1102, 1089, 1090, 1080, 1094, 1110, 1111],
         [1096, 1090, 1072, 1073, 1089, 45, 1089, 1077, 1088, 1078, 1072, 1085, 1090, 32, 1102, 1089, 1090, 1080, 1094, 1110, 1111],
         [1084, 1086, 1083, 1086, 1076, 1096, 1080, 1081, 32, 1083, 1077, 1081, 1090, 1077, 1085, 1072, 1085, 1090, 32, 1102, 1089, 1090, 1080, 1094, 1110, 1111],
         [1083, 1077, 1081, 1090, 1077, 1085, 1072, 1085, 1090, 32, 1102, 1089, 1090, 1080, 1094, 1110, 1111],
         [1089, 1090, 1072, 1088, 1096, 1080, 1081, 32, 1083, 1077, 1081, 1090, 1077, 1085, 1072, 1085, 1090, 32, 1102, 1089, 1090, 1080, 1094, 1110, 1111],
         [1082, 1072, 1087, 1110, 1090, 1072, 1085, 32, 1102, 1089, 1090, 1080, 1094, 1110, 1111],
         [1084, 1072, 1081, 1086, 1088, 32, 1102, 1089, 1090, 1080, 1094, 1110, 1111],
         [1087, 1110, 1076, 1087, 1086, 1083, 1082, 1086, 1074, 1085, 1080, 1082, 32, 1102, 1089, 1090, 1080, 1094, 1110, 1111],
         [1087, 1086, 1083, 1082, 1086, 1074, 1085, 1080, 1082, 32, 1102, 1089, 1090, 1080, 1094, 1110, 1111],
         [1075, 1077, 1085, 1077, 1088, 1072, 1083, 45, 1084, 1072, 1081, 1086, 1088, 32, 1102, 1089, 1090, 1080, 1094, 1110, 1111],
         [1075, 1077, 1085, 1077, 1088, 1072, 1083, 45, 1083, 1077, 1081, 1090, 1077, 1085, 1072, 1085, 1090, 32, 1102, 1089, 1090, 1080, 1094, 1110, 1111]],
      MEDICAL_RANKS =
        [[1084, 1086, 1083, 1086, 1076, 1096, 1080, 1081, 32, 1089, 1077, 1088, 1078, 1072, 1085, 1090, 32, 1084, 1077, 1076, 1080, 1095, 1085, 1086, 1111, 32, 1089, 1083, 1091, 1078, 1073, 1080],
         [1089, 1077, 1088, 1078, 1072, 1085, 1090, 32, 1084, 1077, 1076, 1080, 1095, 1085, 1086, 1111, 32, 1089, 1083, 1091, 1078, 1073, 1080],
         [1089, 1090, 1072, 1088, 1096, 1080, 1081, 32, 1089, 1077, 1088, 1078, 1072, 1085, 1090, 32, 1084, 1077, 1076, 1080, 1095, 1085, 1086, 1111, 32, 1089, 1083, 1091, 1078, 1073, 1080],
         [1075, 1086, 1083, 1086, 1074, 1085, 1080, 1081, 32, 1089, 1077, 1088, 1078, 1072, 1085, 1090, 32, 1084, 1077, 1076, 1080, 1095, 1085, 1086, 1111, 32, 1089, 1083, 1091, 1078, 1073, 1080],
         [1096, 1090, 1072, 1073, 1089, 45, 1089, 1077, 1088, 1078, 1072, 1085, 1090, 32, 1084, 1077, 1076, 1080, 1095, 1085, 1086, 1111, 32, 1089, 1083, 1091, 1078, 1073, 1080],
         [1084, 1086, 1083, 1086, 1076, 1096, 1080, 1081, 32, 1083, 1077, 1081, 1090, 1077, 1085, 1072, 1085, 1090, 32, 1084, 1077, 1076, 1080, 1095, 1085, 1086, 1111, 32, 1089, 1083, 1091, 1078, 1073, 1080],
         [1083, 1077, 1081, 1090, 1077, 1085, 1072, 1085, 1090, 32, 1084, 1077, 1076, 1080, 1095, 1085, 1086, 1111, 32, 1089, 1083, 1091, 1078, 1073, 1080],
         [1089, 1090, 1072, 1088, 1096, 1080, 1081, 32, 1083, 1077, 1081, 1090, 1077, 1085, 1072, 1085, 1090, 32, 1084, 1077, 1076, 1080, 1095, 1085, 1086, 1111, 32, 1089, 1083, 1091, 1078, 1073, 1080],
         [1082, 1072, 1087, 1110, 1090, 1072, 1085, 32, 1084, 1077, 1076, 1080, 1095, 1085, 1086, 1111, 32, 1089, 1083, 1091, 1078, 1073, 1080],
         [1084, 1072, 1081, 1086, 1088, 32, 1084, 1077, 1076, 1080, 1095, 1085, 1086, 1111, 32, 1089, 1083, 1091, 1078, 1073, 1080],
         [1087, 1110, 1076, 1087, 1086, 1083, 1082, 1086, 1074, 1085, 1080, 1082, 32, 1084, 1077, 1076, 1080, 1095, 1085, 1086, 1111, 32, 1089, 1083, 1091, 1078, 1073, 1080],
         [1087, 1086, 1083, 1082, 1086, 1074, 1085, 1080, 1082, 32, 1084, 1077, 1076, 1080, 1095, 1085, 1086, 1111, 32, 1089, 1083, 1091, 1078, 1073, 1080],
         [1075, 1077, 1085, 1077, 1088, 1072, 1083, 45, 1084, 1072, 1081, 1086, 1088, 32, 1084, 1077, 1076, 1080, 1095, 1085, 1086, 1111, 32, 1089, 1083, 1091, 1078, 1073, 1080],
         [1075, 1077, 1085, 1077, 1088, 1072, 1083, 45, 1083, 1077, 1081, 1090, 1077, 1085, 1072, 1085, 1090, 32, 1084, 1077, 1076, 1080, 1095, 1085, 1086, 1111, 32, 1089, 1083, 1091, 1078, 1073, 1080]],
      RANK_TO_NOMINATIVE =
        [([1089, 1086, 1083, 1076, 1072, 1090], ([1089, 1086, 1083, 1076, 1072, 1090], u ''nominative'', u ''male'')),
         ([1089, 1086, 1083, 1076, 1072, 1090, 1072], ([1089, 1086, 1083, 1076, 1072, 1090], u ''genitive'', u ''male'')),
         ([1089, 1086, 1083, 1076, 1072, 1090, 1091], ([1089, 1086, 1083, 1076, 1072, 1090], u ''dative'', u ''male'')),
         ([1089, 1086, 1083, 1076, 1072, 1090, 1086, 1084], ([1089, 1086, 1083, 1076, 1072, 1090], u ''instrumental'', u ''male'')),
         ([1082, 1072, 1087, 1110, 1090, 1072, 1085], ([1082, 1072, 1087, 1110, 1090, 1072, 1085], u ''nominative'', u ''male'')),
         ([1082, 1072, 1087, 1110, 1090, 1072, 1085, 1072], ([1082, 1072, 1087, 1110, 1090, 1072, 1085], u ''genitive'', u ''male'')),
         ([1082, 1072, 1087, 1110, 1090, 1072, 1085, 1091], ([1082, 1072, 1087, 1110, 1090, 1072, 1085], u ''dative'', u ''male'')),
         ([1082, 1072, 1087, 1110, 1090, 1072, 1085, 1086, 1084], ([1082, 1072, 1087, 1110, 1090, 1072, 1085], u ''instrumental'', u ''male'')),
         ([1084, 1072, 1081, 1086, 1088], ([1084, 1072, 1081, 1086, 1088], u ''nominative'', u ''male'')),
         ([1084, 1072, 1081, 1086, 1088, 1072], ([1084, 1072, 1081, 1086, 1088], u ''genitive'', u ''male'')),
         ([1084, 1072, 1081, 1086, 1088, 1091], ([1084, 1072, 1081, 1086, 1088], u ''dative'', u ''male'')),
         ([1084, 1072, 1081, 1086, 1088, 1086, 1084], ([1084, 1072, 1081, 1086, 1088], u ''instrumental'', u ''male'')),
         ([1075, 1077, 1085, 1077, 1088, 1072, 1083], ([1075, 1077, 1085, 1077, 1088, 1072, 1083], u ''nominative'', u ''male'')),
         ([1075, 1077, 1085, 1077, 1088, 1072, 1083, 1072], ([1075, 1077, 1085, 1077, 1088, 1072, 1083], u ''genitive'', u ''male'')),
         ([1075, 1077, 1085, 1077, 1088, 1072, 1083, 1091], ([1075, 1077, 1085, 1077, 1088, 1072, 1083], u ''dative'', u ''male'')),
         ([1075, 1077, 1085, 1077, 1088, 1072, 1083, 1086, 1084], ([1075, 1077, 1085, 1077, 1088, 1072, 1083], u ''instrumental'', u ''male'')),
         ([1084, 1072, 1090, 1088, 1086, 1089], ([1084, 1072, 1090, 1088, 1086, 1089], u ''nominative'', u ''male'')),
         ([1084, 1072, 1090, 1088, 1086, 1089, 1072], ([1084, 1072, 1090, 1088, 1086, 1089], u ''genitive'', u ''male'')),
         ([1084, 1072, 1090, 1088, 1086, 1089, 1091], ([1084, 1072, 1090, 1088, 1086, 1089], u ''dative'', u ''male'')),
         ([1084, 1072, 1090, 1088, 1086, 1089, 1086, 1084], ([1084, 1072, 1090, 1088, 1086, 1089], u ''instrumental'', u ''male'')),
         ([1089, 1090, 1072, 1088, 1096, 1080, 1081, 32, 1089, 1086, 1083, 1076, 1072, 1090], ([1089, 1090, 1072, 1088, 1096, 1080, 1081, 32, 1089, 1086, 1083, 1076, 1072, 1090], u ''nominative'', u ''male'')),
         ([1089, 1090, 1072, 1088, 1096, 1086, 1075, 1086, 32, 1089, 1086, 1083, 1076, 1072, 1090, 1072], ([1089, 1090, 1072, 1088, 1096, 1080, 1081, 32, 1089, 1086, 1083, 1076, 1072, 1090], u ''genitive'', u ''male'')),
         ([1089, 1090, 1072, 1088, 1096, 1086, 1084, 1091, 32, 1089, 1086, 1083, 1076, 1072, 1090, 1091], ([1089, 1090, 1072, 1088, 1096, 1080, 1081, 32, 1089, 1086, 1083, 1076, 1072, 1090], u ''dative'', u ''male'')),
         ([1089, 1090, 1072, 1088, 1096, 1080, 1084, 32, 1089, 1086, 1083, 1076, 1072, 1090, 1086, 1084], ([1089, 1090, 1072, 1088, 1096, 1080, 1081, 32, 1089, 1086, 1083, 1076, 1072, 1090], u ''instrumental'', u ''male'')),
         ([1082, 1072, 1087, 1110, 1090, 1072, 1085, 45, 1083, 1077, 1081, 1090, 1077, 1085, 1072, 1085, 1090], ([1082, 1072, 1087, 1110, 1090, 1072, 1085, 45, 1083, 1077, 1081, 1090, 1077, 1085, 1072, 1085, 1090], u ''nominative'', u ''male'')),
         ([1075, 1077, 1085, 1077, 1088, 1072, 1083, 45, 1084, 1072, 1081, 1086, 1088], ([1075, 1077, 1085, 1077, 1088, 1072, 1083, 45, 1084, 1072, 1081, 1086, 1088], u ''nominative'', u ''male'')),
         ([1075, 1077, 1085, 1077, 1088, 1072, 1083, 45, 1084, 1072, 1081, 1086, 1088, 1072], ([1075, 1077, 1085, 1077, 1088, 1072, 1083, 45, 1084, 1072, 1081, 1086, 1088], u ''genitive'', u ''male'')),
         ([1075, 1077, 1085, 1077, 1088, 1072, 1083, 45, 1084, 1072, 1081, 1086, 1088, 1091], ([1075, 1077, 1085, 1077, 1088, 1072, 1083, 45, 1084, 1072, 1081, 1086, 1088], u ''dative'', u ''male'')),
         ([1075, 1077, 1085, 1077, 1088, 1072, 1083, 45, 1084, 1072, 1081, 1086, 1088, 1086, 1084], ([1075, 1077, 1085, 1077, 1088, 1072, 1083, 45, 1084, 1072, 1081, 1086, 1088], u ''instrumental'', u ''male''))],
      RANK_DECLENSIONS =
        [([1089, 1086, 1083, 1076, 1072, 1090],
       [(u ''nominative'', [1089, 1086, 1083, 1076, 1072, 1090]),
        (u ''genitive'', [1089, 1086, 1083, 1076, 1072, 1090, 1072]),
        (u ''dative'', [1089, 1086, 1083, 1076, 1072, 1090, 1091]),
        (u ''instrumental'', [1089, 1086, 1083, 1076, 1072, 1090, 1086, 1084])]),
         ([1082, 1072, 1087, 1110, 1090, 1072, 1085],
       [(u ''nominative'', [1082, 1072, 1087, 1110, 1090, 1072, 1085]),
        (u ''genitive'', [1082, 1072, 1087, 1110, 1090, 1072, 1085, 1072]),
        (u ''dative'', [1082, 1072, 1087, 1110, 1090, 1072, 1085, 1091]),
        (u ''instrumental'', [1082, 1072, 1087, 1110, 1090, 1072, 1085, 1086, 1084])]),
         ([1084, 1072, 1081, 1086, 1088],
       [(u ''nominative'', [1084, 1072, 1081, 1086, 1088]),
        (u ''genitive'', [1084, 1072, 1081, 1086, 1088, 1072]),
        (u ''dative'', [1084, 1072, 1081, 1086, 1088, 1091]),
        (u ''instrumental'', [1084, 1072, 1081, 1086, 1088, 1086, 1084])]),
         ([1075, 1077, 1085, 1077, 1088, 1072, 1083],
       [(u ''nominative'', [1075, 1077, 1085, 1077, 1088, 1072, 1083]),
        (u ''genitive'', [1075, 1077, 1085, 1077, 1088, 1072, 1083, 1072]),
        (u ''dative'', [1075, 1077, 1085, 1077, 1088, 1072, 1083, 1091]),
        (u ''instrumental'', [1075, 1077, 1085, 1077, 1088, 1072, 1083, 1086, 1084])]),
         ([1084, 1072, 1090, 1088, 1086, 1089],
       [(u ''nominative'', [1084, 1072, 1090, 1088, 1086, 1089]),
        (u ''genitive'', [1084, 1072, 1090, 1088, 1086, 1089, 1072]),
        (u ''dative'', [1084, 1072, 1090, 1088, 1086, 1089, 1091]),
        (u ''instrumental'', [1084, 1072, 1090, 1088, 1086, 1089, 1086, 1084])]),
         ([1089, 1090, 1072, 1088, 1096, 1080, 1081, 32, 1089, 1086, 1083, 1076, 1072, 1090],
       [(u ''nominative'', [1089, 1090, 1072, 1088, 1096, 1080, 1081, 32, 1089, 1086, 1083, 1076, 1072, 1090]),
        (u ''genitive'', [1089, 1090, 1072, 1088, 1096, 1086, 1075, 1086, 32, 1089, 1086, 1083, 1076, 1072, 1090, 1072]),
        (u ''dative'', [1089, 1090, 1072, 1088, 1096, 1086, 1084, 1091, 32, 1089, 1086, 1083, 1076, 1072, 1090, 1091]),
        (u ''instrumental'', [1089, 1090, 1072, 1088, 1096, 1080, 1084, 32, 1089, 1086, 1083, 1076, 1072, 1090, 1086, 1084])]),
         ([1075, 1077, 1085, 1077, 1088, 1072, 1083, 45, 1084, 1072, 1081, 1086, 1088],
       [(u ''nominative'', [1075, 1077, 1085, 1077, 1088, 1072, 1083, 45, 1084, 1072, 1081, 1086, 1088]),
        (u ''genitive'', [1075, 1077, 1085, 1077, 1088, 1072, 1083, 45, 1084, 1072, 1081, 1086, 1088, 1072]),
        (u ''dative'', [1075, 1077, 1085, 1077, 1088, 1072, 1083, 45, 1084, 1072, 1081, 1086, 1088, 1091]),
        (u ''instrumental'', [1075, 1077, 1085, 1077, 1088, 1072, 1083, 45, 1084, 1072, 1081, 1086, 1088, 1086, 1084])])]\<rparr>"

definition env0 :: env where
  "env0 = \<lparr>unicode = ucd0, library = lib0, cfg = cfg0, ranks = rank_data0\<rparr>"

definition world0 :: world where
  "world0 = \<lparr>w_dict = empty_masking_dict, w_counters = [], w_random = 0, w_faker = 0\<rparr>"

lemma rnd_ok_env0: "rnd_ok env0"
  by (simp add: rnd_ok_def env0_def lib0_def)

section \<open>Claims about the mapping store\<close>

text \<open>
  C5. For every call \<open>add_to_mapping(store, counters, category, original, masked)\<close> on a
  store that has the category: if \<open>original\<close> is already recorded for the category, the
  supplied \<open>masked\<close> is ignored, the stored \<open>masked_as\<close> is returned and the statistics
  are unchanged; if \<open>original\<close> is new, a record with \<open>masked_as\<close> equal to the supplied
  value is created and the category's uniqueness statistic grows by exactly one. In both
  cases the value returned is the \<open>masked_as\<close> of the record now stored.
\<close>

theorem add_to_mapping_reuses_or_creates:
  assumes "map_of (mappings md) category = Some cat"
  shows "\<exists>ret md' ic'.
           add_to_mapping md ic category original masked = Inr (ret, md', ic') \<and>
           (case map_of cat original of
              Some r \<Rightarrow> ret = masked_as r \<and> statistics md' = statistics md
                          \<and> stat_of md' category = stat_of md category
            | None \<Rightarrow> ret = masked \<and> stat_of md' category = stat_of md category + 1) \<and>
           (\<exists>r'. record_of md' category original = Some r' \<and> masked_as r' = ret)"
proof (cases "map_of cat original")
  case None
  show ?thesis
    using add_to_mapping_new [OF assms None, of ic masked] assms None
    by (simp add: record_of_update) (simp add: stat_of_def dict_get_def update_conv')
next
  case (Some r)
  show ?thesis
    using add_to_mapping_old [OF assms Some, of ic masked] assms Some
    by (simp add: record_of_update stat_of_def)
qed

definition store_with_ipn :: masking_dict where
  "store_with_ipn =
     \<lparr>mappings = [(u ''ipn'', [(u ''1234567890'',
                                  \<lparr>masked_as = u ''1235550000'', instances = [1]\<rparr>)])],
      statistics = [(u ''ipn'', 1)]\<rparr>"

theorem add_to_mapping_reuses_or_creates_witness:
  "map_of (mappings store_with_ipn) (u ''ipn'') =
     Some [(u ''1234567890'', \<lparr>masked_as = u ''1235550000'', instances = [1]\<rparr>)] \<and>
   (\<exists>md' ic'. add_to_mapping store_with_ipn [] (u ''ipn'') (u ''1234567890'') (u ''1239999990'')
        = Inr (u ''1235550000'', md', ic') \<and> stat_of md' (u ''ipn'') = 1) \<and>
   (\<exists>md' ic'. add_to_mapping store_with_ipn [] (u ''ipn'') (u ''7777777777'') (u ''7770000007'')
        = Inr (u ''7770000007'', md', ic') \<and> stat_of md' (u ''ipn'') = 2)"
proof -
  have h: "map_of (mappings store_with_ipn) (u ''ipn'') =
     Some [(u ''1234567890'', \<lparr>masked_as = u ''1235550000'', instances = [1]\<rparr>)]"
    by (simp add: store_with_ipn_def)
  have s: "stat_of store_with_ipn (u ''ipn'') = 1"
    by (simp add: store_with_ipn_def stat_of_def dict_get_def)
  show ?thesis
    using h s
      add_to_mapping_reuses_or_creates [OF h, of "[]" "u ''1234567890''" "u ''1239999990''"]
      add_to_mapping_reuses_or_creates [OF h, of "[]" "u ''7777777777''" "u ''7770000007''"]
    by (auto simp: u_def)
qed

text \<open>
  C4. Every successful call of \<open>add_to_mapping\<close>, for any category and any original (new
  or repeated), increments the counter of the resulting masked value by exactly one,
  leaves every other counter as it was (so no counter ever decreases or is reset),
  and appends the new counter value to the instance list of the record of the original.
  The counter is keyed by the masked value alone: the new counters are those of
  \<open>get_next_instance\<close> on the returned value, whatever the category and the original.
\<close>

theorem instance_counter_incremented_and_appended:
  assumes "add_to_mapping md ic category original masked = Inr (ret, md', ic')"
  shows "counter_of ic' ret = counter_of ic ret + 1 \<and>
         (\<forall>m. m \<noteq> ret \<longrightarrow> counter_of ic' m = counter_of ic m) \<and>
         (\<forall>m. counter_of ic m \<le> counter_of ic' m) \<and>
         instances_of md' category original =
           instances_of md category original @ [counter_of ic' ret] \<and>
         (\<exists>r. record_of md' category original = Some r \<and> masked_as r = ret) \<and>
         ic' = snd (get_next_instance ret ic)"
proof -
  from assms obtain cat where cat: "map_of (mappings md) category = Some cat"
    by (cases "map_of (mappings md) category") (simp_all add: add_to_mapping_def)
  show ?thesis
  proof (cases "map_of cat original")
    case None
    from add_to_mapping_new [OF cat None, of ic masked] assms
    have r: "ret = masked" "ic' = snd (get_next_instance masked ic)"
      and m: "md' = \<lparr>mappings = AList.update category
                    (AList.update original
                       \<lparr>masked_as = masked, instances = [counter_of ic masked + 1]\<rparr> cat)
                    (mappings md),
                 statistics = AList.update category (stat_of md category + 1) (statistics md)\<rparr>"
      by simp_all
    show ?thesis
      using cat None
      by (simp add: r m get_next_instance_counter instances_of_def record_of_update)
         (simp add: record_of_def)
  next
    case (Some r0)
    from add_to_mapping_old [OF cat Some, of ic masked] assms
    have r: "ret = masked_as r0" "ic' = snd (get_next_instance (masked_as r0) ic)"
      and m: "md' = \<lparr>mappings = AList.update category
                    (AList.update original
                       (r0\<lparr>instances := instances r0 @ [counter_of ic (masked_as r0) + 1]\<rparr>) cat)
                    (mappings md),
                 statistics = statistics md\<rparr>"
      by simp_all
    show ?thesis
      using cat Some
      by (simp add: r m get_next_instance_counter instances_of_def record_of_update)
         (simp add: record_of_def)
  qed
qed

theorem instance_counter_incremented_and_appended_witness:
  "\<exists>md' ic'.
     add_to_mapping store_with_ipn [(u ''1235550000'', 1)] (u ''ipn'') (u ''1234567890'') []
       = Inr (u ''1235550000'', md', ic') \<and>
     counter_of ic' (u ''1235550000'') = 2 \<and>
     instances_of md' (u ''ipn'') (u ''1234567890'') = [1, 2]"
proof -
  have e: "\<exists>md' ic'.
     add_to_mapping store_with_ipn [(u ''1235550000'', 1)] (u ''ipn'') (u ''1234567890'') []
       = Inr (u ''1235550000'', md', ic')"
    by (simp add: add_to_mapping_def store_with_ipn_def split_beta Let_def)
  then obtain md' ic' where a:
    "add_to_mapping store_with_ipn [(u ''1235550000'', 1)] (u ''ipn'') (u ''1234567890'') []
       = Inr (u ''1235550000'', md', ic')"
    by blast
  have i: "instances_of store_with_ipn (u ''ipn'') (u ''1234567890'') = [1]"
    by (simp add: instances_of_def record_of_def store_with_ipn_def)
  have c: "counter_of [(u ''1235550000'', 1)] (u ''1235550000'') = 1"
    by (simp add: counter_of_def dict_get_def)
  show ?thesis
    using instance_counter_incremented_and_appended [OF a] a i c by auto
qed

section \<open>Claims about the category generators\<close>

subsection \<open>Facts about seeds, draws and recording\<close>

definition ascii_digits :: "ustr \<Rightarrow> bool" where
  "ascii_digits s = (\<forall>c \<in> set s. 48 \<le> c \<and> c \<le> 57)"

text \<open>The format of a masked IPN: ten digits \<open>0\<close>..\<open>9\<close>, the first three and the last
  as in the original.\<close>

definition ipn_shape :: "ustr \<Rightarrow> ustr \<Rightarrow> bool" where
  "ipn_shape original m =
     (length m = 10 \<and> ascii_digits m \<and> take 3 m = take 3 original \<and> last m = last original)"

text \<open>A store whose IPN records have this format, as every record written by
  \<open>mask_ipn\<close> has.\<close>

definition ipn_records_ok :: "masking_dict \<Rightarrow> bool" where
  "ipn_records_ok d =
     (\<forall>cat original r.
        map_of (mappings d) (u ''ipn'') = Some cat \<longrightarrow> map_of cat original = Some r \<longrightarrow>
        length original = 10 \<longrightarrow> ascii_digits original \<longrightarrow> ipn_shape original (masked_as r))"

lemma utf8_encode_ascii: "\<forall>c \<in> set s. c < 128 \<Longrightarrow> utf8_encode s = Some s"
  by (induction s) (simp_all add: utf8_char_def)

lemma seed_of_ascii:
  assumes "HASH_ALGORITHM (cfg E) \<in> set hash_algorithms" and "\<forall>c \<in> set s. c < 128"
  shows "\<exists>seed. get_deterministic_seed E s = Inr seed"
  using assms by (simp add: get_deterministic_seed_def utf8_encode_ascii)

lemma py_str_digit: "0 \<le> x \<Longrightarrow> x \<le> 9 \<Longrightarrow> py_str x = [48 + nat x]"
  by (simp add: py_str_def str_nat.simps)

lemma randint_range:
  assumes "rnd_ok E" and "a \<le> b"
  shows "a \<le> fst (randint E a b g) \<and> fst (randint E a b g) \<le> b"
proof -
  have "fst (rnd_below (library E) (nat (b - a + 1)) g) < nat (b - a + 1)"
    using assms by (simp add: rnd_ok_def)
  then show ?thesis
    by (auto simp: randint_def split_beta)
qed

lemma rand_digits_09:
  assumes "rnd_ok E"
  shows "length (fst (rand_digits E 0 9 n g)) = n \<and> ascii_digits (fst (rand_digits E 0 9 n g))"
proof (induction n arbitrary: g)
  case 0
  show ?case by (simp add: ascii_digits_def)
next
  case (Suc n)
  have r: "0 \<le> fst (randint E 0 9 g) \<and> fst (randint E 0 9 g) \<le> 9"
    using randint_range [OF assms, of 0 9 g] by simp
  show ?case
    using Suc [of "snd (randint E 0 9 g)"] r
    by (simp add: split_beta py_str_digit ascii_digits_def) linarith
qed

lemma record_masked_new:
  assumes "map_of (mappings (w_dict w)) category = Some cat" and "map_of cat original = None"
  shows "\<exists>w'. record_masked w category original masked = Inr (masked, w')"
  using add_to_mapping_new [OF assms, of "w_counters w" masked]
  by (simp add: record_masked_def)

lemma record_masked_old:
  assumes "map_of (mappings (w_dict w)) category = Some cat" and "map_of cat original = Some r"
  shows "\<exists>w'. record_masked w category original masked = Inr (masked_as r, w')"
  using add_to_mapping_old [OF assms, of "w_counters w" masked]
  by (simp add: record_masked_def)

lemma ipn_shape_refl: "length s = 10 \<Longrightarrow> ascii_digits s \<Longrightarrow> ipn_shape s s"
  by (simp add: ipn_shape_def)

lemma ipn_shape_generated:
  assumes "length original = 10" "ascii_digits original" "length middle = 6" "ascii_digits middle"
  shows "ipn_shape original (take 3 original @ middle @ [last original])"
proof -
  have "original \<noteq> []"
    using assms(1) by auto
  then have "last original \<in> set original"
    by simp
  then show ?thesis
    using assms by (auto simp: ipn_shape_def ascii_digits_def dest: in_set_takeD)
qed

lemma ipn_records_ok_empty: "ipn_records_ok empty_masking_dict"
  by (simp add: ipn_records_ok_def empty_masking_dict_def all_categories_def u_def)

lemma ipn_records_ok_update:
  assumes ok: "ipn_records_ok d" and cat: "map_of (mappings d) (u ''ipn'') = Some cat"
    and r: "length original = 10 \<longrightarrow> ascii_digits original \<longrightarrow> ipn_shape original (masked_as r)"
  shows "ipn_records_ok \<lparr>mappings = AList.update (u ''ipn'') (AList.update original r cat) (mappings d),
                           statistics = st\<rparr>"
  using assms
  by (auto simp: ipn_records_ok_def update_conv' split: if_splits)

text \<open>\<open>mask_ipn\<close> keeps the format of the IPN records, so every store that a run builds from
  the empty one has it.\<close>

lemma mask_ipn_keeps_records_ok:
  assumes "rnd_ok E" and ok: "ipn_records_ok (w_dict w)"
    and m: "mask_ipn E original w = Inr (m, w')"
  shows "ipn_records_ok (w_dict w')"
proof -
  from m obtain cat where cat: "map_of (mappings (w_dict w)) (u ''ipn'') = Some cat"
    by (cases "map_of (mappings (w_dict w)) (u ''ipn'')") (simp_all add: mask_ipn_def)
  show ?thesis
  proof (cases "map_of cat original")
    case (Some r)
    have sh: "length original = 10 \<longrightarrow> ascii_digits original \<longrightarrow> ipn_shape original (masked_as r)"
      using ok cat Some by (simp add: ipn_records_ok_def)
    have "w_dict w' = \<lparr>mappings = AList.update (u ''ipn'')
                    (AList.update original
                       (r\<lparr>instances := instances r @ [counter_of (w_counters w) (masked_as r) + 1]\<rparr>) cat)
                    (mappings (w_dict w)),
                 statistics = statistics (w_dict w)\<rparr>"
      using m cat Some add_to_mapping_old [OF cat Some, of "w_counters w" "masked_as r"]
      by (auto simp: mask_ipn_def record_masked_def)
    then show ?thesis
      using ipn_records_ok_update [OF ok cat, of original
              "r\<lparr>instances := instances r @ [counter_of (w_counters w) (masked_as r) + 1]\<rparr>"] sh
      by simp
  next
    case None
    show ?thesis
    proof (cases "length original \<noteq> 10 \<or> \<not> py_isdigit E original")
      case True
      then show ?thesis
        using m cat None ok by (auto simp: mask_ipn_def)
    next
      case False
      from m cat None False obtain seed where
        seed: "get_deterministic_seed E original = Inr seed"
        by (auto simp: mask_ipn_def split: sum.splits)
      let ?d = "rand_digits E 0 9 6 (rnd_seed (library E) seed)"
      let ?masked = "take 3 original @ fst ?d @ [last original]"
      have sh: "length original = 10 \<longrightarrow> ascii_digits original \<longrightarrow> ipn_shape original ?masked"
        using rand_digits_09 [OF assms(1), of 6 "rnd_seed (library E) seed"]
        by (auto intro: ipn_shape_generated)
      have cat': "map_of (mappings (w_dict (w\<lparr>w_random := snd ?d\<rparr>))) (u ''ipn'') = Some cat"
        using cat by simp
      have "w_dict w' = \<lparr>mappings = AList.update (u ''ipn'')
                    (AList.update original
                       \<lparr>masked_as = ?masked,
                          instances = [counter_of (w_counters w) ?masked + 1]\<rparr> cat)
                    (mappings (w_dict w)),
                 statistics = AList.update (u ''ipn'') (stat_of (w_dict w) (u ''ipn'') + 1)
                                (statistics (w_dict w))\<rparr>"
        using m cat None False seed
          add_to_mapping_new [OF cat' None, of "w_counters w" ?masked]
        by (auto simp: mask_ipn_def record_masked_def split_beta)
      then show ?thesis
        using ipn_records_ok_update [OF ok cat, of original
                "\<lparr>masked_as = ?masked, instances = [counter_of (w_counters w) ?masked + 1]\<rparr>"] sh
        by simp
    qed
  qed
qed

subsection \<open>C6: the format of a masked IPN\<close>

text \<open>
  C6, as the code has it. On a store that has the \<open>ipn\<close> category and whose IPN records
  have the IPN format, with a known hash algorithm and a generator that keeps
  \<open>randint\<close> within its bounds: for every input of exactly ten digits \<open>0\<close>..\<open>9\<close>,
  \<open>mask_ipn\<close> returns (it does not raise) a string of exactly ten digits \<open>0\<close>..\<open>9\<close> whose
  first three characters and last character are those of the input. For every input
  that fails the guard of the code, that is, whose length is not 10 or for which
  \<open>str.isdigit\<close> is false, and that is not recorded yet, \<open>mask_ipn\<close> returns the input
  unchanged and leaves store, counters and generators as they were.
\<close>

theorem mask_ipn_format_and_guard:
  assumes "rnd_ok E" and "HASH_ALGORITHM (cfg E) \<in> set hash_algorithms"
    and "map_of (mappings (w_dict w)) (u ''ipn'') = Some cat"
    and "ipn_records_ok (w_dict w)"
  shows "(length original = 10 \<and> ascii_digits original
            \<longrightarrow> (\<exists>m w'. mask_ipn E original w = Inr (m, w') \<and> ipn_shape original m)) \<and>
         ((length original \<noteq> 10 \<or> \<not> py_isdigit E original) \<and> map_of cat original = None
            \<longrightarrow> mask_ipn E original w = Inr (original, w))"
proof (intro conjI impI)
  assume h: "(length original \<noteq> 10 \<or> \<not> py_isdigit E original) \<and> map_of cat original = None"
  then show "mask_ipn E original w = Inr (original, w)"
    using assms(3) by (auto simp: mask_ipn_def)
next
  assume h: "length original = 10 \<and> ascii_digits original"
  show "\<exists>m w'. mask_ipn E original w = Inr (m, w') \<and> ipn_shape original m"
  proof (cases "map_of cat original")
    case (Some r)
    have "ipn_shape original (masked_as r)"
      using assms(3,4) Some h by (simp add: ipn_records_ok_def)
    then show ?thesis
      using record_masked_old [OF assms(3) Some, of "masked_as r"] assms(3) Some
      by (auto simp: mask_ipn_def)
  next
    case None
    show ?thesis
    proof (cases "py_isdigit E original")
      case False
      then show ?thesis
        using None assms(3) h by (simp add: mask_ipn_def ipn_shape_refl)
    next
      case True
      have "\<forall>c \<in> set original. c < 128"
        using h by (auto simp: ascii_digits_def)
      from seed_of_ascii [OF assms(2) this] obtain seed
        where seed: "get_deterministic_seed E original = Inr seed" ..
      let ?d = "rand_digits E 0 9 6 (rnd_seed (library E) seed)"
      have sh: "ipn_shape original (take 3 original @ fst ?d @ [last original])"
        using rand_digits_09 [OF assms(1), of 6 "rnd_seed (library E) seed"] h
        by (intro ipn_shape_generated) simp_all
      have nw: "map_of (mappings (w_dict (w\<lparr>w_random := snd ?d\<rparr>))) (u ''ipn'') = Some cat"
        using assms(3) by simp
      show ?thesis
        using record_masked_new [OF nw None, of "take 3 original @ fst ?d @ [last original]"]
          sh None assms(3) h True seed
        by (auto simp: mask_ipn_def split_beta)
    qed
  qed
qed

theorem mask_ipn_format_and_guard_witness:
  "rnd_ok env0 \<and> HASH_ALGORITHM (cfg env0) \<in> set hash_algorithms \<and>
   map_of (mappings (w_dict world0)) (u ''ipn'') = Some [] \<and> ipn_records_ok (w_dict world0) \<and>
   length (u ''1234567890'') = 10 \<and> ascii_digits (u ''1234567890'') \<and>
   (\<exists>m w'. mask_ipn env0 (u ''1234567890'') world0 = Inr (m, w') \<and>
            ipn_shape (u ''1234567890'') m) \<and>
   length (u ''12345'') \<noteq> 10 \<and>
   mask_ipn env0 (u ''12345'') world0 = Inr (u ''12345'', world0)"
proof -
  have h2: "HASH_ALGORITHM (cfg env0) \<in> set hash_algorithms"
    by (simp add: env0_def cfg0_def hash_algorithms_def u_def)
  have h3: "map_of (mappings (w_dict world0)) (u ''ipn'') = Some []"
    by (simp add: world0_def empty_masking_dict_def all_categories_def u_def)
  have h4: "ipn_records_ok (w_dict world0)"
    by (simp add: world0_def ipn_records_ok_empty)
  have d: "length (u ''1234567890'') = 10 \<and> ascii_digits (u ''1234567890'')"
    by (simp add: u_def ascii_digits_def)
  have n: "length (u ''12345'') \<noteq> 10"
    by (simp add: u_def)
  show ?thesis
    using mask_ipn_format_and_guard [OF rnd_ok_env0 h2 h3 h4, of "u ''1234567890''"]
      mask_ipn_format_and_guard [OF rnd_ok_env0 h2 h3 h4, of "u ''12345''"]
      rnd_ok_env0 h2 h3 h4 d n
    by simp
qed

text \<open>
  C6 as stated fails on the second half: the guard is \<open>str.isdigit\<close>, which also accepts
  digits that are not decimal digits. Ten superscript twos (U+00B2) are not ten decimal
  digits, the string is not recorded, and yet \<open>mask_ipn\<close> masks and records it.
\<close>

theorem mask_ipn_superscript_digits_counterexample:
  "\<not> ascii_digits (replicate 10 0xB2) \<and>
   \<not> (\<forall>c \<in> set (replicate 10 0xB2). uc_isdecimal (unicode env0) c) \<and>
   record_of (w_dict world0) (u ''ipn'') (replicate 10 0xB2) = None \<and>
   mask_ipn env0 (replicate 10 0xB2) world0 \<noteq> Inr (replicate 10 0xB2, world0) \<and>
   map_sum id fst (mask_ipn env0 (replicate 10 0xB2) world0)
     = Inr [0xB2, 0xB2, 0xB2, 48, 50, 51, 49, 57, 48, 0xB2]"
proof -
  have a: "\<not> ascii_digits (replicate 10 0xB2)"
    by (simp add: ascii_digits_def)
  have b: "\<not> (\<forall>c \<in> set (replicate 10 0xB2). uc_isdecimal (unicode env0) c)"
    by (simp add: env0_def ucd0_def isdecimal0_def)
  have c: "record_of (w_dict world0) (u ''ipn'') (replicate 10 0xB2) = None"
    by (simp add: record_of_def world0_def empty_masking_dict_def all_categories_def u_def)
  have d: "mask_ipn env0 (replicate 10 0xB2) world0 \<noteq> Inr (replicate 10 0xB2, world0)"
    by code_simp
  have e: "map_sum id fst (mask_ipn env0 (replicate 10 0xB2) world0)
     = Inr [0xB2, 0xB2, 0xB2, 48, 50, 51, 49, 57, 48, 0xB2]"
    by code_simp
  show ?thesis
    using a b c d e by blast
qed

subsection \<open>C10: abbreviations are not surnames\<close>

text \<open>
  C10. For every input whose lower-case form is in the abbreviation whitelist,
  \<open>mask_surname\<close> returns the input unchanged and writes nothing: the store, the
  instance counters and the generators are as before.
\<close>

theorem mask_surname_whitelist_untouched:
  assumes "py_lower E original \<in> set ABBREVIATION_WHITELIST"
  shows "mask_surname E original w = Inr (original, w)"
  using assms by (simp add: mask_surname_def)

text \<open>\<open>[1047, 1057, 1059]\<close> is the upper-case abbreviation ZSU.\<close>

theorem mask_surname_whitelist_untouched_witness:
  "py_lower env0 [1047, 1057, 1059] \<in> set ABBREVIATION_WHITELIST \<and>
   mask_surname env0 [1047, 1057, 1059] world0 = Inr ([1047, 1057, 1059], world0)"
proof -
  have l: "py_lower env0 [1047, 1057, 1059] = [1079, 1089, 1091]"
    by (simp add: py_lower_def env0_def ucd0_def lower0_def)
  have m: "py_lower env0 [1047, 1057, 1059] \<in> set ABBREVIATION_WHITELIST"
    by (simp add: l ABBREVIATION_WHITELIST_def)
  show ?thesis
    using mask_surname_whitelist_untouched [OF m, of world0] m by simp
qed

subsection \<open>C7: the retry loops against self-mapping\<close>

lemma name_retry_result:
  assumes "name_retry E original gcase gender first_letter masked attempts g f = Inr (m, k, g', f')"
    and "attempts \<le> 10"
  shows "k \<le> 10 \<and> (py_lower E m \<noteq> py_lower E original \<or> k = 10)"
  using assms
proof (induction E original gcase gender first_letter masked attempts g f
         rule: name_retry.induct)
  case (1 E original gcase gender first_letter masked attempts g f)
  show ?case
  proof (cases "py_lower E masked = py_lower E original \<and> attempts < 10")
    case False
    then show ?thesis
      using "1.prems" by (auto simp: name_retry.simps [of E original gcase gender first_letter masked])
  next
    case True
    from "1.prems"(1) True obtain seed new_name g1 f1 where
      s: "get_deterministic_seed E (original @ py_str (int attempts)) = Inr seed" and
      n: "generate_easy_name E gender first_letter seed 50 f = Inr (new_name, g1, f1)" and
      r: "name_retry E original gcase gender first_letter
            (apply_case_to_name E new_name gcase gender) (attempts + 1) g1 f1 = Inr (m, k, g', f')"
      by (auto simp: name_retry.simps [of E original gcase gender first_letter masked]
               split: sum.splits)
    show ?thesis
      using "1.IH" [OF True s n refl refl r] True by simp
  qed
qed

lemma rank_retry_result:
  assumes "rank_retry E hierarchy idx original_key masked attempts g = Inr (m, k, g')"
    and "attempts \<le> 10"
  shows "k \<le> 10 \<and> (py_lower E m \<noteq> original_key \<or> k = 10)"
  using assms
proof (induction E hierarchy idx original_key masked attempts g rule: rank_retry.induct)
  case (1 E hierarchy idx original_key masked attempts g)
  show ?case
  proof (cases "py_lower E masked = original_key \<and> attempts < 10")
    case False
    then show ?thesis
      using "1.prems" by (auto simp: rank_retry.simps [of E hierarchy idx original_key masked])
  next
    case True
    from "1.prems"(1) True obtain masked' g1 where
      d: "rank_draw E hierarchy idx g = Inr (masked', g1)" and
      r: "rank_retry E hierarchy idx original_key masked' (attempts + 1) g1 = Inr (m, k, g')"
      by (auto simp: rank_retry.simps [of E hierarchy idx original_key masked]
               split: sum.splits)
    show ?thesis
      using "1.IH" [OF True d refl r] True by simp
  qed
qed

lemma name_generate_result:
  assumes "name_generate E original gender_hint patronymic_hint g f = Inr (m, k, g', f')"
  shows "k \<le> 10 \<and> (py_lower E m \<noteq> py_lower E original \<or> k = 10)"
  using assms
  by (auto simp: name_generate_def Let_def split_beta split: sum.splits
           dest!: name_retry_result)

lemma rank_generate_result:
  assumes "rank_generate E hierarchy idx original_key g = Inr (m, k, g')"
  shows "k \<le> 10 \<and> (py_lower E m \<noteq> original_key \<or> k = 10)"
  using assms
  by (auto simp: rank_generate_def split: sum.splits dest!: rank_retry_result)

lemma rank_generation_result:
  assumes "rank_generation E original_key = Some (Inr (m, k, g'))"
  shows "k \<le> 10 \<and> (py_lower E m \<noteq> original_key \<or> k = 10)"
  using assms
  by (auto simp: rank_generation_def split: option.splits sum.splits if_splits
           dest!: rank_generate_result)

lemma record_masked_new_value:
  assumes "map_of (mappings (w_dict w)) category = Some cat" and "map_of cat original = None"
    and "record_masked w category original masked = Inr (m, w')"
  shows "m = masked"
  using add_to_mapping_new [OF assms(1,2), of "w_counters w" masked] assms(3)
  by (simp add: record_masked_def)

text \<open>
  What the two loops do establish. For a given name and for a rank masked for the first
  time, the value with which the loop ends is not case-insensitively equal to the
  original as written, unless the loop has used all of its 10 retries; the loop makes at
  most 10. The value returned is that value after \<open>name_casing\<close>, or after the
  re-inflection and \<open>rank_casing\<close>; neither is compared with the original again.
\<close>

lemma retry_loops_end_value:
  "(map_of (mappings (w_dict w)) (u ''name'') = Some cat \<longrightarrow> map_of cat original = None \<longrightarrow>
    mask_name E original gender_hint patronymic_hint w = Inr (m, w') \<longrightarrow>
      (\<exists>masked attempts g f.
         name_generate E original gender_hint patronymic_hint (w_random w) (w_faker w)
           = Inr (masked, attempts, g, f) \<and>
         m = name_casing E original masked \<and> attempts \<le> 10 \<and>
         (py_lower E masked \<noteq> py_lower E original \<or> attempts = 10))) \<and>
   (map_of (mappings (w_dict w)) (u ''rank'') = Some rcat \<longrightarrow>
    map_of rcat (py_lower E rank) = None \<longrightarrow>
    mask_rank E rank w = Inr (mr, wr) \<longrightarrow> wr \<noteq> w \<longrightarrow>
      (\<exists>masked attempts g.
         rank_generation E (py_lower E rank) = Some (Inr (masked, attempts, g)) \<and>
         mr = rank_casing E rank (rank_inflect E (py_lower E rank) masked) \<and> attempts \<le> 10 \<and>
         (py_lower E masked \<noteq> py_lower E rank \<or> attempts = 10)))"
proof (intro conjI impI)
  assume c: "map_of (mappings (w_dict w)) (u ''name'') = Some cat"
    and n: "map_of cat original = None"
    and r: "mask_name E original gender_hint patronymic_hint w = Inr (m, w')"
  from r c n obtain masked attempts g f where
    gen: "name_generate E original gender_hint patronymic_hint (w_random w) (w_faker w)
           = Inr (masked, attempts, g, f)" and
    rec: "record_masked (w\<lparr>w_random := g, w_faker := f\<rparr>) (u ''name'') original
            (name_casing E original masked) = Inr (m, w')"
    by (auto simp: mask_name_def split: if_splits sum.splits)
  have c': "map_of (mappings (w_dict (w\<lparr>w_random := g, w_faker := f\<rparr>))) (u ''name'') = Some cat"
    using c by simp
  have "m = name_casing E original masked"
    using record_masked_new_value [OF c' n rec] .
  then show "\<exists>masked attempts g f.
         name_generate E original gender_hint patronymic_hint (w_random w) (w_faker w)
           = Inr (masked, attempts, g, f) \<and>
         m = name_casing E original masked \<and> attempts \<le> 10 \<and>
         (py_lower E masked \<noteq> py_lower E original \<or> attempts = 10)"
    using gen name_generate_result [OF gen] by blast
next
  assume c: "map_of (mappings (w_dict w)) (u ''rank'') = Some rcat"
    and n: "map_of rcat (py_lower E rank) = None"
    and r: "mask_rank E rank w = Inr (mr, wr)"
    and d: "wr \<noteq> w"
  from r c n d obtain masked attempts g final_masked where
    gen: "rank_generation E (py_lower E rank) = Some (Inr (masked, attempts, g))" and
    rec: "record_masked (w\<lparr>w_random := g\<rparr>) (u ''rank'') (py_lower E rank)
            (rank_inflect E (py_lower E rank) masked) = Inr (final_masked, wr)" and
    mr: "mr = rank_casing E rank final_masked"
    by (auto simp: mask_rank_def Let_def split: if_splits sum.splits option.splits)
  have c': "map_of (mappings (w_dict (w\<lparr>w_random := g\<rparr>))) (u ''rank'') = Some rcat"
    using c by simp
  have "final_masked = rank_inflect E (py_lower E rank) masked"
    using record_masked_new_value [OF c' n rec] .
  then show "\<exists>masked attempts g.
         rank_generation E (py_lower E rank) = Some (Inr (masked, attempts, g)) \<and>
         mr = rank_casing E rank (rank_inflect E (py_lower E rank) masked) \<and> attempts \<le> 10 \<and>
         (py_lower E masked \<noteq> py_lower E rank \<or> attempts = 10)"
    using gen mr rank_generation_result [OF gen] by blast
qed

text \<open>The first draw of \<open>mask_rank\<close>, and a first masking whose first draw needs no retry.\<close>

lemma rank_draw_at:
  assumes "rnd_below (library E) 4 g = (k, g1)" and "k < 4"
    and "nat (max 0 (min (int (length hierarchy) - 1) (int idx + [- 2, - 1, 1, 2] ! k))) = j"
    and "j < length hierarchy"
  shows "rank_draw E hierarchy idx g = Inr (hierarchy ! j, g1)"
proof -
  have len: "length [- 2, - 1, 1, 2 :: int] = 4"
    by simp
  show ?thesis
    using assms unfolding rank_draw_def choice_def len by simp
qed

lemma rank_generate_first_draw:
  assumes "rank_draw E hierarchy idx g = Inr (masked, g1)"
    and "py_lower E masked \<noteq> original_key"
  shows "rank_generate E hierarchy idx original_key g = Inr (masked, 0, g1)"
  using assms
  by (simp add: rank_generate_def rank_retry.simps [of E hierarchy idx original_key masked 0 g1])

lemma mask_rank_first:
  assumes "map_of (mappings (w_dict w)) (u ''rank'') = Some []"
    and "rank_generation E (py_lower E original) = Some (Inr (masked, attempts, g))"
  shows "\<exists>w'. mask_rank E original w =
           Inr (rank_casing E original (rank_inflect E (py_lower E original) masked), w') \<and>
           record_of (w_dict w') (u ''rank'') (py_lower E original) =
             Some \<lparr>masked_as = rank_inflect E (py_lower E original) masked,
                   instances = [counter_of (w_counters w)
                                  (rank_inflect E (py_lower E original) masked) + 1]\<rparr>"
proof -
  let ?w = "w\<lparr>w_random := g\<rparr>"
  let ?key = "py_lower E original"
  let ?m = "rank_inflect E ?key masked"
  have c: "map_of (mappings (w_dict ?w)) (u ''rank'') = Some []"
    using assms(1) by simp
  have n: "map_of [] ?key = (None :: masking_record option)"
    by simp
  have r: "record_masked ?w (u ''rank'') ?key ?m =
             Inr (?m, ?w\<lparr>w_dict :=
                    \<lparr>mappings = AList.update (u ''rank'')
                        (AList.update ?key \<lparr>masked_as = ?m,
                             instances = [counter_of (w_counters ?w) ?m + 1]\<rparr> [])
                        (mappings (w_dict ?w)),
                     statistics = AList.update (u ''rank'') (stat_of (w_dict ?w) (u ''rank'') + 1)
                                    (statistics (w_dict ?w))\<rparr>,
                  w_counters := snd (get_next_instance ?m (w_counters ?w))\<rparr>)"
    using add_to_mapping_new [OF c n, of "w_counters ?w" ?m]
    by (simp add: record_masked_def)
  show ?thesis
    using assms r
    by (simp add: mask_rank_def Let_def is_someone_else_mask_def record_of_def update_conv')
qed

text \<open>
  C7 fails for a rank written in an inflected form. The loop of \<open>mask_rank\<close> compares the
  drawn base form with the original as written, and the drawn form is re-inflected only
  after the loop. For heneral-maiora, the genitive of heneral-maior, the army pattern
  matches heneral, the last rank of the army hierarchy. When the first
  \<open>random.choice\<close> selects the first of the four shifts, -2, the drawn base form is
  heneral-maior: it differs from heneral-maiora, so the loop makes no retry, and its
  genitive is heneral-maiora again. The rank, masked for the first time, is recorded and
  returned as its own mask after 0 retries. This holds for every library in which the
  generator seeded with the seed of the original makes that draw.
\<close>

theorem mask_rank_inflected_rank_masked_as_itself:
  assumes seed:
      "get_deterministic_seed (env0\<lparr>library := L\<rparr>)
         [1075, 1077, 1085, 1077, 1088, 1072, 1083, 45, 1084, 1072, 1081, 1086, 1088, 1072] = Inr seed"
    and draw: "fst (rnd_below L 4 (rnd_seed L seed)) = 0"
  shows "record_of (w_dict world0) (u ''rank'')
           [1075, 1077, 1085, 1077, 1088, 1072, 1083, 45, 1084, 1072, 1081, 1086, 1088, 1072] = None \<and>
         (\<exists>g. rank_generation (env0\<lparr>library := L\<rparr>)
                  [1075, 1077, 1085, 1077, 1088, 1072, 1083, 45, 1084, 1072, 1081, 1086, 1088, 1072]
                = Some (Inr ([1075, 1077, 1085, 1077, 1088, 1072, 1083, 45, 1084, 1072, 1081, 1086, 1088],
                             0, g))) \<and>
         (\<exists>w'. mask_rank (env0\<lparr>library := L\<rparr>)
                   [1075, 1077, 1085, 1077, 1088, 1072, 1083, 45, 1084, 1072, 1081, 1086, 1088, 1072] world0
                 = Inr ([1075, 1077, 1085, 1077, 1088, 1072, 1083, 45, 1084, 1072, 1081, 1086, 1088, 1072], w') \<and>
               record_of (w_dict w') (u ''rank'')
                   [1075, 1077, 1085, 1077, 1088, 1072, 1083, 45, 1084, 1072, 1081, 1086, 1088, 1072]
                 = Some \<lparr>masked_as =
                           [1075, 1077, 1085, 1077, 1088, 1072, 1083, 45, 1084, 1072, 1081, 1086, 1088, 1072],
                         instances = [1]\<rparr>)"
proof -
  let ?E = "env0\<lparr>library := L\<rparr>"
  let ?gm = "[1075, 1077, 1085, 1077, 1088, 1072, 1083, 45, 1084, 1072, 1081, 1086, 1088, 1072] :: ustr"
  let ?gmaj = "[1075, 1077, 1085, 1077, 1088, 1072, 1083, 45, 1084, 1072, 1081, 1086, 1088] :: ustr"
  let ?gen = "[1075, 1077, 1085, 1077, 1088, 1072, 1083] :: ustr"
  let ?h = "ARMY_RANKS rank_data0"
  have cat: "get_rank_category_and_match ?E ?gm = Some (u ''army'', ?gen)"
    by code_simp
  have hier: "rank_hierarchy ?E (u ''army'') = Some ?h"
    by code_simp
  have idx: "index_of (map (py_lower ?E) ?h) (py_lower ?E ?gen) = Some 25"
    by code_simp
  have at: "?h ! 23 = ?gmaj" and len: "length ?h = 26"
    by code_simp+
  have low: "py_lower ?E ?gm = ?gm"
    by code_simp
  have ne: "py_lower ?E ?gmaj \<noteq> ?gm"
    by code_simp
  have infl: "rank_inflect ?E ?gm ?gmaj = ?gm"
    by code_simp
  have casing: "rank_casing ?E ?gm ?gm = ?gm"
    by code_simp
  have fresh: "map_of (mappings (w_dict world0)) (u ''rank'') = Some []"
    by code_simp
  have cnt: "counter_of (w_counters world0) ?gm = 0"
    by code_simp
  obtain g1 where rb: "rnd_below (library ?E) 4 (rnd_seed L seed) = (0, g1)"
    using draw by (cases "rnd_below L 4 (rnd_seed L seed)") simp
  have dr: "rank_draw ?E ?h 25 (rnd_seed L seed) = Inr (?h ! 23, g1)"
    by (rule rank_draw_at [OF rb]) (simp_all add: len)
  have gen: "rank_generate ?E ?h 25 ?gm (rnd_seed L seed) = Inr (?gmaj, 0, g1)"
    using rank_generate_first_draw [of ?E ?h 25 "rnd_seed L seed" ?gmaj g1 ?gm] dr ne
    by (simp add: at)
  have generation: "rank_generation ?E ?gm = Some (Inr (?gmaj, 0, g1))"
    using cat hier idx seed gen by (simp add: rank_generation_def)
  have a: "record_of (w_dict world0) (u ''rank'') ?gm = None"
    using fresh by (simp add: record_of_def)
  have generation': "rank_generation ?E (py_lower ?E ?gm) = Some (Inr (?gmaj, 0, g1))"
    using generation by (simp only: low)
  show ?thesis
    using a generation mask_rank_first [OF fresh generation']
    by (simp only: low infl casing cnt) auto
qed

text \<open>The witness: a generator that always draws 0.\<close>

definition lib_first :: lib where
  "lib_first = lib0\<lparr>rnd_below := (\<lambda>n g. (0, g))\<rparr>"

theorem mask_rank_inflected_rank_masked_as_itself_witness:
  "get_deterministic_seed (env0\<lparr>library := lib_first\<rparr>)
     [1075, 1077, 1085, 1077, 1088, 1072, 1083, 45, 1084, 1072, 1081, 1086, 1088, 1072] = Inr 5204 \<and>
   fst (rnd_below lib_first 4 (rnd_seed lib_first 5204)) = 0 \<and>
   (\<exists>w'. mask_rank (env0\<lparr>library := lib_first\<rparr>)
             [1075, 1077, 1085, 1077, 1088, 1072, 1083, 45, 1084, 1072, 1081, 1086, 1088, 1072] world0
           = Inr ([1075, 1077, 1085, 1077, 1088, 1072, 1083, 45, 1084, 1072, 1081, 1086, 1088, 1072], w'))"
proof -
  let ?gm = "[1075, 1077, 1085, 1077, 1088, 1072, 1083, 45, 1084, 1072, 1081, 1086, 1088, 1072] :: ustr"
  have s: "get_deterministic_seed (env0\<lparr>library := lib_first\<rparr>) ?gm = Inr 5204"
    by code_simp
  have d: "fst (rnd_below lib_first 4 (rnd_seed lib_first 5204)) = 0"
    by (simp add: lib_first_def)
  show ?thesis
    using mask_rank_inflected_rank_masked_as_itself [OF s d] s d by blast
qed

subsection \<open>C3: determinism\<close>

text \<open>Where the generator is seeded before the draw, the outcome does not depend on the
  states of the generators that earlier operations left behind.\<close>

lemma mask_ipn_ignores_generator_states:
  assumes "w_dict w1 = w_dict w2" and "w_counters w1 = w_counters w2"
  shows "map_sum id (\<lambda>p. (fst p, w_dict (snd p), w_counters (snd p))) (mask_ipn E original w1)
       = map_sum id (\<lambda>p. (fst p, w_dict (snd p), w_counters (snd p))) (mask_ipn E original w2)"
  using assms
  by (auto simp: mask_ipn_def record_masked_def split_beta Let_def
           split: option.splits sum.splits)

text \<open>
  C3 fails for given names. \<open>generate_easy_name\<close> seeds module \<open>random\<close> but not
  \<open>fake_uk\<close>, and for a first letter without a curated name (here N, for Nestor) the
  replacement is drawn from \<open>fake_uk\<close>: two runs with fresh stores and counters and the
  same hash algorithm, which differ only in the state earlier operations left
  \<open>fake_uk\<close> in, mask Nestor as Nazar and as Nykon.
\<close>

theorem mask_name_depends_on_faker_state:
  "w_dict (world0\<lparr>w_faker := 1\<rparr>) = w_dict world0 \<and>
   w_counters (world0\<lparr>w_faker := 1\<rparr>) = w_counters world0 \<and>
   map_sum id fst (mask_name env0 [1053, 1077, 1089, 1090, 1086, 1088] None None world0)
     = Inr [1053, 1072, 1079, 1072, 1088] \<and>
   map_sum id fst (mask_name env0 [1053, 1077, 1089, 1090, 1086, 1088] None None
                     (world0\<lparr>w_faker := 1\<rparr>))
     = Inr [1053, 1080, 1082, 1086, 1085]"
proof -
  have a: "map_sum id fst (mask_name env0 [1053, 1077, 1089, 1090, 1086, 1088] None None world0)
     = Inr [1053, 1072, 1079, 1072, 1088]"
    by code_simp
  have b: "map_sum id fst (mask_name env0 [1053, 1077, 1089, 1090, 1086, 1088] None None
                     (world0\<lparr>w_faker := 1\<rparr>))
     = Inr [1053, 1080, 1082, 1086, 1085]"
    by code_simp
  show ?thesis
    using a b by simp
qed

subsection \<open>C8: the hierarchy of a masked rank\<close>

text \<open>
  C8 fails for the ranks of the legal hierarchy. The army pattern is tried first and
  \<open>\b\<close> holds before a space, so kapitan yustytsii, a base form of the legal hierarchy,
  is classified as army with the match kapitan, and the index and the drawn rank are
  taken from the army hierarchy. Whatever the library draws, \<open>mask_rank\<close> returns a rank of
  the army hierarchy that is not in the legal hierarchy.
\<close>

theorem mask_rank_legal_rank_masked_as_army:
  assumes "rnd_ok (env0\<lparr>library := L\<rparr>)"
  shows "[1082, 1072, 1087, 1110, 1090, 1072, 1085, 32, 1102, 1089, 1090, 1080, 1094, 1110, 1111]
           \<in> set (LEGAL_RANKS (ranks env0)) \<and>
         get_rank_category_and_match (env0\<lparr>library := L\<rparr>)
             [1082, 1072, 1087, 1110, 1090, 1072, 1085, 32, 1102, 1089, 1090, 1080, 1094, 1110, 1111]
           = Some (u ''army'', [1082, 1072, 1087, 1110, 1090, 1072, 1085]) \<and>
         (\<exists>m w'. mask_rank (env0\<lparr>library := L\<rparr>)
                     [1082, 1072, 1087, 1110, 1090, 1072, 1085, 32, 1102, 1089, 1090, 1080, 1094, 1110, 1111] world0
                   = Inr (m, w') \<and>
                 m \<in> set (ARMY_RANKS (ranks env0)) \<and> m \<notin> set (LEGAL_RANKS (ranks env0)))"
proof -
  let ?E = "env0\<lparr>library := L\<rparr>"
  let ?kyu = "[1082, 1072, 1087, 1110, 1090, 1072, 1085, 32, 1102, 1089, 1090, 1080, 1094, 1110, 1111] :: ustr"
  let ?kap = "[1082, 1072, 1087, 1110, 1090, 1072, 1085] :: ustr"
  let ?h = "ARMY_RANKS rank_data0"
  let ?r16 = "[1083, 1077, 1081, 1090, 1077, 1085, 1072, 1085, 1090] :: ustr"
  let ?r17 = "[1089, 1090, 1072, 1088, 1096, 1080, 1081, 32, 1083, 1077, 1081, 1090, 1077,
              1085, 1072, 1085, 1090] :: ustr"
  let ?r19 = "[1084, 1072, 1081, 1086, 1088] :: ustr"
  let ?r20 = "[1087, 1110, 1076, 1087, 1086, 1083, 1082, 1086, 1074, 1085, 1080, 1082] :: ustr"
  have legal: "?kyu \<in> set (LEGAL_RANKS (ranks env0))"
    by (simp add: env0_def rank_data0_def)
  have cat: "get_rank_category_and_match ?E ?kyu = Some (u ''army'', ?kap)"
    by code_simp
  have hier: "rank_hierarchy ?E (u ''army'') = Some ?h"
    by code_simp
  have idx: "index_of (map (py_lower ?E) ?h) (py_lower ?E ?kap) = Some 18"
    by code_simp
  have len: "length ?h = 26"
    by code_simp
  have low: "py_lower ?E ?kyu = ?kyu"
    by code_simp
  have fresh: "map_of (mappings (w_dict world0)) (u ''rank'') = Some []"
    by code_simp
  have alg: "HASH_ALGORITHM (cfg ?E) \<in> set hash_algorithms"
    by (simp add: env0_def cfg0_def hash_algorithms_def u_def)
  have enc: "utf8_encode ?kyu \<noteq> None"
    by code_simp
  obtain seed where seed: "get_deterministic_seed ?E ?kyu = Inr seed"
    using alg enc by (auto simp: get_deterministic_seed_def)
  let ?g = "rnd_seed L seed"
  obtain k g1 where rb: "rnd_below (library ?E) 4 ?g = (k, g1)"
    by (cases "rnd_below (library ?E) 4 ?g") simp
  have "fst (rnd_below (library ?E) 4 ?g) < 4"
    using assms by (simp add: rnd_ok_def)
  then have k: "k < 4"
    using rb by simp
  have at16: "?h ! 16 = ?r16"
    by code_simp
  have ne16: "py_lower ?E ?r16 \<noteq> ?kyu"
    by code_simp
  have out16: "rank_casing ?E ?kyu (rank_inflect ?E ?kyu ?r16) = ?r16"
    by code_simp
  have in16: "?r16 \<in> set (ARMY_RANKS (ranks env0)) \<and> ?r16 \<notin> set (LEGAL_RANKS (ranks env0))"
    by (simp add: env0_def rank_data0_def)
  have at17: "?h ! 17 = ?r17"
    by code_simp
  have ne17: "py_lower ?E ?r17 \<noteq> ?kyu"
    by code_simp
  have out17: "rank_casing ?E ?kyu (rank_inflect ?E ?kyu ?r17) = ?r17"
    by code_simp
  have in17: "?r17 \<in> set (ARMY_RANKS (ranks env0)) \<and> ?r17 \<notin> set (LEGAL_RANKS (ranks env0))"
    by (simp add: env0_def rank_data0_def)
  have at19: "?h ! 19 = ?r19"
    by code_simp
  have ne19: "py_lower ?E ?r19 \<noteq> ?kyu"
    by code_simp
  have out19: "rank_casing ?E ?kyu (rank_inflect ?E ?kyu ?r19) = ?r19"
    by code_simp
  have in19: "?r19 \<in> set (ARMY_RANKS (ranks env0)) \<and> ?r19 \<notin> set (LEGAL_RANKS (ranks env0))"
    by (simp add: env0_def rank_data0_def)
  have at20: "?h ! 20 = ?r20"
    by code_simp
  have ne20: "py_lower ?E ?r20 \<noteq> ?kyu"
    by code_simp
  have out20: "rank_casing ?E ?kyu (rank_inflect ?E ?kyu ?r20) = ?r20"
    by code_simp
  have in20: "?r20 \<in> set (ARMY_RANKS (ranks env0)) \<and> ?r20 \<notin> set (LEGAL_RANKS (ranks env0))"
    by (simp add: env0_def rank_data0_def)
  have step: "\<exists>w'. mask_rank ?E ?kyu world0
                  = Inr (rank_casing ?E ?kyu (rank_inflect ?E ?kyu m), w')"
    if "rank_draw ?E ?h 18 ?g = Inr (m, g1)" and "py_lower ?E m \<noteq> ?kyu" for m
  proof -
    have "rank_generate ?E ?h 18 ?kyu ?g = Inr (m, 0, g1)"
      using that by (rule rank_generate_first_draw)
    then have "rank_generation ?E (py_lower ?E ?kyu) = Some (Inr (m, 0, g1))"
      using cat hier idx seed by (simp add: rank_generation_def low)
    from mask_rank_first [OF fresh this] show ?thesis
      by (auto simp only: low)
  qed
  have case0: ?thesis if "k = 0"
  proof -
    have rb': "rnd_below (library ?E) 4 ?g = (0, g1)"
      using rb that by simp
    have "rank_draw ?E ?h 18 ?g = Inr (?h ! 16, g1)"
      by (rule rank_draw_at [OF rb']) (simp_all add: len)
    then have d: "rank_draw ?E ?h 18 ?g = Inr (?r16, g1)"
      by (simp only: at16)
    from step [OF d ne16] obtain w' where "mask_rank ?E ?kyu world0 = Inr (?r16, w')"
      by (auto simp only: out16)
    then show ?thesis
      using legal cat in16 by blast
  qed
  have case1: ?thesis if "k = 1"
  proof -
    have rb': "rnd_below (library ?E) 4 ?g = (1, g1)"
      using rb that by simp
    have "rank_draw ?E ?h 18 ?g = Inr (?h ! 17, g1)"
      by (rule rank_draw_at [OF rb']) (simp_all add: len)
    then have d: "rank_draw ?E ?h 18 ?g = Inr (?r17, g1)"
      by (simp only: at17)
    from step [OF d ne17] obtain w' where "mask_rank ?E ?kyu world0 = Inr (?r17, w')"
      by (auto simp only: out17)
    then show ?thesis
      using legal cat in17 by blast
  qed
  have case2: ?thesis if "k = 2"
  proof -
    have rb': "rnd_below (library ?E) 4 ?g = (2, g1)"
      using rb that by simp
    have "rank_draw ?E ?h 18 ?g = Inr (?h ! 19, g1)"
      by (rule rank_draw_at [OF rb']) (simp_all add: len)
    then have d: "rank_draw ?E ?h 18 ?g = Inr (?r19, g1)"
      by (simp only: at19)
    from step [OF d ne19] obtain w' where "mask_rank ?E ?kyu world0 = Inr (?r19, w')"
      by (auto simp only: out19)
    then show ?thesis
      using legal cat in19 by blast
  qed
  have case3: ?thesis if "k = 3"
  proof -
    have rb': "rnd_below (library ?E) 4 ?g = (3, g1)"
      using rb that by simp
    have "rank_draw ?E ?h 18 ?g = Inr (?h ! 20, g1)"
      by (rule rank_draw_at [OF rb']) (simp_all add: len)
    then have d: "rank_draw ?E ?h 18 ?g = Inr (?r20, g1)"
      by (simp only: at20)
    from step [OF d ne20] obtain w' where "mask_rank ?E ?kyu world0 = Inr (?r20, w')"
      by (auto simp only: out20)
    then show ?thesis
      using legal cat in20 by blast
  qed
  from k have "k = 0 \<or> k = 1 \<or> k = 2 \<or> k = 3"
    by arith
  then show ?thesis
    using case0 case1 case2 case3 by blast
qed

theorem mask_rank_legal_rank_masked_as_army_witness:
  "rnd_ok (env0\<lparr>library := lib0\<rparr>) \<and>
   (\<exists>m w'. mask_rank (env0\<lparr>library := lib0\<rparr>)
               [1082, 1072, 1087, 1110, 1090, 1072, 1085, 32, 1102, 1089, 1090, 1080, 1094, 1110, 1111] world0
             = Inr (m, w') \<and>
           m \<in> set (ARMY_RANKS (ranks env0)) \<and> m \<notin> set (LEGAL_RANKS (ranks env0)))"
proof -
  have ok: "rnd_ok (env0\<lparr>library := lib0\<rparr>)"
    by (simp add: rnd_ok_def lib0_def)
  show ?thesis
    using mask_rank_legal_rank_masked_as_army [OF ok] ok by blast
qed

section \<open>Reverse engine (unmask_data.py)\<close>

text \<open>
  \<open>find_all_occurrences\<close>: the matches of \<open>(?<!\w)\<close> + \<open>re.escape(pattern)\<close> + \<open>(?!\w)\<close>,
  ignoring case, from left to right, as (start, end).
\<close>

definition find_all_occurrences :: "env \<Rightarrow> ustr \<Rightarrow> ustr \<Rightarrow> (nat \<times> nat) list" where
  "find_all_occurrences E text pattern =
     map (\<lambda>m. (fst m, fst (snd m)))
       (rx_finditer E True text (Seqs [NotWordBehind, Str pattern, NotWordAhead]) 0)"

text \<open>
  \<open>build_instance_map\<close>: masked value \<open>\<rightarrow>\<close> (instance number \<open>\<rightarrow>\<close> original), over all
  categories and records in their order; a later record overwrites an instance number
  that an earlier one had under the same masked value.
\<close>

definition add_instances ::
  "(ustr \<times> (nat \<times> ustr) list) list \<Rightarrow> ustr \<times> masking_record
     \<Rightarrow> (ustr \<times> (nat \<times> ustr) list) list" where
  "add_instances instance_map p =
     (let masked_value = masked_as (snd p);
          inner = foldl (\<lambda>d instance_num. AList.update instance_num (fst p) d)
                    (dict_get instance_map masked_value []) (instances (snd p))
      in AList.update masked_value inner instance_map)"

definition build_instance_map ::
  "(ustr \<times> (ustr \<times> masking_record) list) list \<Rightarrow> (ustr \<times> (nat \<times> ustr) list) list" where
  "build_instance_map mappings_data =
     foldl (\<lambda>instance_map c. foldl add_instances instance_map (snd c)) [] mappings_data"

text \<open>
  The replacements that \<open>unmask_other_data\<close> schedules for one masked value: the
  \<open>k\<close>-th occurrence from the left (counting from 1) gets the original recorded under
  instance number \<open>k\<close>, if there is one.
\<close>

definition scheduled_for ::
  "env \<Rightarrow> ustr \<Rightarrow> ustr \<times> (nat \<times> ustr) list \<Rightarrow> (nat \<times> nat \<times> ustr \<times> ustr) list" where
  "scheduled_for E text entry =
     (let occurrences = find_all_occurrences E text (fst entry)
      in concat (map (\<lambda>(instance_num, (start_pos, end_pos)).
                        case map_of (snd entry) instance_num of
                          None \<Rightarrow> []
                        | Some original_value \<Rightarrow>
                            [(start_pos, end_pos, original_value, fst entry)])
                     (zip [1 ..< Suc (length occurrences)] occurrences)))"

text \<open>\<open>replacements_to_do.sort(key=lambda x: x[0], reverse=True)\<close>: stable, descending.\<close>

definition sort_by_start_desc :: "(nat \<times> 'a) list \<Rightarrow> (nat \<times> 'a) list" where
  "sort_by_start_desc rs = sort_key (\<lambda>r. - int (fst r)) rs"

text \<open>One replacement, made only if the masked value is still in its place.\<close>

definition apply_replacement :: "env \<Rightarrow> ustr \<Rightarrow> nat \<times> nat \<times> ustr \<times> ustr \<Rightarrow> ustr" where
  "apply_replacement E restored_text r =
     (case r of (start_pos, end_pos, original_value, masked_value) \<Rightarrow>
        if py_lower E (slice restored_text start_pos end_pos) = py_lower E masked_value
        then take start_pos restored_text
               @ apply_original_case E (slice restored_text start_pos end_pos) original_value
               @ drop end_pos restored_text
        else restored_text)"

text \<open>\<open>unmask_other_data\<close>: the restored text and (restored_count, skipped_count).\<close>

definition unmask_other_data :: "env \<Rightarrow> ustr \<Rightarrow> masking_dict \<Rightarrow> ustr \<times> nat \<times> nat" where
  "unmask_other_data E masked_text masking_map =
     (let mappings_copy = filter (\<lambda>c. fst c \<noteq> u ''rank'') (mappings masking_map);
          instance_map = build_instance_map mappings_copy;
          replacements_to_do = concat (map (scheduled_for E masked_text) instance_map);
          found = sum_list (map (\<lambda>entry. length (find_all_occurrences E masked_text (fst entry)))
                              instance_map)
      in (foldl (apply_replacement E) masked_text (sort_by_start_desc replacements_to_do),
          length replacements_to_do, found - length replacements_to_do))"

lemma distinct_add_instances:
  "distinct (map fst im) \<Longrightarrow> distinct (map fst (add_instances im p))"
  by (simp add: add_instances_def Let_def distinct_update)

lemma distinct_foldl_add_instances:
  "distinct (map fst im) \<Longrightarrow> distinct (map fst (foldl add_instances im recs))"
  by (induction recs arbitrary: im) (simp_all add: distinct_add_instances)

lemma distinct_build_instance_map: "distinct (map fst (build_instance_map mp))"
proof -
  have "distinct (map fst im) \<Longrightarrow>
        distinct (map fst (foldl (\<lambda>instance_map c. foldl add_instances instance_map (snd c)) im mp))"
    for im
    by (induction mp arbitrary: im) (simp_all add: distinct_foldl_add_instances)
  then show ?thesis
    by (simp add: build_instance_map_def)
qed

lemma concat_map_single:
  assumes "distinct (map fst im)" and "map_of im k = Some v"
    and "\<forall>p \<in> set im. fst p \<noteq> k \<longrightarrow> f p = []"
  shows "concat (map f im) = f (k, v)"
  using assms
proof (induction im)
  case Nil
  then show ?case by simp
next
  case (Cons p im)
  show ?case
  proof (cases "fst p = k")
    case True
    then have pv: "p = (k, v)"
      using Cons.prems(2) by (cases p) simp
    have "\<forall>q \<in> set im. fst q \<noteq> k"
      using Cons.prems(1) True by (auto simp: image_iff)
    then have "\<forall>q \<in> set im. f q = []"
      using Cons.prems(3) by simp
    then have "concat (map f im) = []"
      by (induction im) simp_all
    then show ?thesis
      using pv by simp
  next
    case False
    then have "f p = []"
      using Cons.prems(3) by simp
    moreover have "map_of im k = Some v"
      using Cons.prems(2) False by (cases p) (simp split: if_splits)
    moreover have "distinct (map fst im)"
      using Cons.prems(1) by simp
    ultimately show ?thesis
      using Cons.IH Cons.prems(3) by simp
  qed
qed

lemma sum_list_map_single:
  assumes "distinct (map fst im)" and "map_of im k = Some v"
    and "\<forall>p \<in> set im. fst p \<noteq> k \<longrightarrow> f p = (0::nat)"
  shows "sum_list (map f im) = f (k, v)"
  using assms
proof (induction im)
  case Nil
  then show ?case by simp
next
  case (Cons p im)
  show ?case
  proof (cases "fst p = k")
    case True
    then have pv: "p = (k, v)"
      using Cons.prems(2) by (cases p) simp
    have "\<forall>q \<in> set im. fst q \<noteq> k"
      using Cons.prems(1) True by (auto simp: image_iff)
    then have "\<forall>q \<in> set im. f q = 0"
      using Cons.prems(3) by simp
    then have "sum_list (map f im) = 0"
      by (induction im) simp_all
    then show ?thesis
      using pv by simp
  next
    case False
    then have "f p = 0"
      using Cons.prems(3) by simp
    moreover have "map_of im k = Some v"
      using Cons.prems(2) False by (cases p) (simp split: if_splits)
    moreover have "distinct (map fst im)"
      using Cons.prems(1) by simp
    ultimately show ?thesis
      using Cons.IH Cons.prems(3) by simp
  qed
qed

lemma scheduled_for_two:
  assumes "find_all_occurrences E text M = [o1, o2]"
    and "map_of inst 1 = Some A" and "map_of inst 2 = Some B"
  shows "scheduled_for E text (M, inst) = [(fst o1, snd o1, A, M), (fst o2, snd o2, B, M)]"
proof -
  have u: "[1 ..< Suc (Suc (Suc 0))] = [Suc 0, Suc (Suc 0)]"
    by (simp add: upt_rec)
  have b: "map_of inst (Suc (Suc 0)) = Some B"
    using assms(3) by (simp add: numeral_2_eq_2)
  show ?thesis
    using assms(1,2) b by (simp add: scheduled_for_def Let_def u split_beta)
qed

lemma sort_two_desc:
  assumes "s1 < s2"
  shows "sort_by_start_desc [(s1, x), (s2, y)] = [(s2, y), (s1, x)]"
  using assms by (simp add: sort_by_start_desc_def)

text \<open>What \<open>unmask_other_data\<close> works on: every category but \<open>rank\<close>.\<close>

definition other_mappings :: "masking_dict \<Rightarrow> (ustr \<times> (ustr \<times> masking_record) list) list" where
  "other_mappings masking_map = filter (\<lambda>c. fst c \<noteq> u ''rank'') (mappings masking_map)"

section \<open>Claims about the reverse engine\<close>

subsection \<open>C2: collisions are resolved by instance number\<close>

text \<open>The instance map in terms of the records: under a masked value, an instance
  number leads to the original of the record that lists it.\<close>

definition instance_lookup :: "(ustr \<times> (nat \<times> ustr) list) list \<Rightarrow> ustr \<Rightarrow> nat \<Rightarrow> ustr option" where
  "instance_lookup im M n = (case map_of im M of None \<Rightarrow> None | Some inst \<Rightarrow> map_of inst n)"

lemma map_of_foldl_update:
  "map_of (foldl (\<lambda>d k. AList.update k v d) d0 ks) n
     = (if n \<in> set ks then Some v else map_of d0 n)"
  by (induction ks arbitrary: d0) (auto simp: update_conv')

lemma lookup_add_instances:
  "instance_lookup (add_instances im p) M n =
     (if masked_as (snd p) = M \<and> n \<in> set (instances (snd p)) then Some (fst p)
      else instance_lookup im M n)"
  by (auto simp: instance_lookup_def add_instances_def Let_def update_conv' dict_get_def
                 map_of_foldl_update split: option.splits)

lemma lookup_foldl_add_instances:
  assumes "\<forall>p \<in> set recs. masked_as (snd p) = M \<and> n \<in> set (instances (snd p)) \<longrightarrow> fst p = A"
  shows "instance_lookup (foldl add_instances im recs) M n =
           (if \<exists>p \<in> set recs. masked_as (snd p) = M \<and> n \<in> set (instances (snd p))
            then Some A else instance_lookup im M n)"
  using assms
proof (induction recs arbitrary: im rule: rev_induct)
  case Nil
  then show ?case by simp
next
  case (snoc x xs)
  then show ?case
    by (auto simp: lookup_add_instances)
qed

lemma build_instance_map_flat:
  "build_instance_map mp = foldl add_instances [] (concat (map snd mp))"
proof -
  have "foldl (\<lambda>instance_map c. foldl add_instances instance_map (snd c)) im mp
          = foldl add_instances im (concat (map snd mp))" for im
    by (induction mp arbitrary: im) simp_all
  then show ?thesis
    by (simp add: build_instance_map_def)
qed

lemma keys_add_instances:
  "fst ` set (add_instances im p) = insert (masked_as (snd p)) (fst ` set im)"
  by (simp add: add_instances_def Let_def dom_update)

lemma keys_foldl_add_instances:
  "fst ` set (foldl add_instances im recs) = fst ` set im \<union> (\<lambda>p. masked_as (snd p)) ` set recs"
  by (induction recs arbitrary: im) (auto simp: keys_add_instances)

text \<open>The generic pass on a text with exactly two occurrences of one masked value.\<close>

lemma unmask_two_occurrences:
  assumes im: "map_of (build_instance_map (other_mappings mm)) M = Some inst"
    and i1: "map_of inst 1 = Some A" and i2: "map_of inst 2 = Some B"
    and others: "\<forall>entry \<in> set (build_instance_map (other_mappings mm)).
                   fst entry \<noteq> M \<longrightarrow> find_all_occurrences E masked_text (fst entry) = []"
    and decomp: "masked_text = p @ m1 @ q @ m2 @ r"
    and occ: "find_all_occurrences E masked_text M =
                [(length p, length p + length m1),
                 (length p + length m1 + length q, length p + length m1 + length q + length m2)]"
    and ne: "m1 \<noteq> []"
    and ci: "py_lower E m1 = py_lower E M" "py_lower E m2 = py_lower E M"
  shows "unmask_other_data E masked_text mm =
           (p @ apply_original_case E m1 A @ q @ apply_original_case E m2 B @ r, 2, 0)"
proof -
  let ?im = "build_instance_map (other_mappings mm)"
  let ?s1 = "length p" and ?e1 = "length p + length m1"
  let ?s2 = "length p + length m1 + length q"
  let ?e2 = "length p + length m1 + length q + length m2"
  have d: "distinct (map fst ?im)"
    by (rule distinct_build_instance_map)
  have o: "\<forall>entry \<in> set ?im. fst entry \<noteq> M \<longrightarrow> scheduled_for E masked_text entry = []"
    using others by (simp add: scheduled_for_def)
  have sched: "concat (map (scheduled_for E masked_text) ?im)
                 = [(?s1, ?e1, A, M), (?s2, ?e2, B, M)]"
    using concat_map_single [OF d im o] scheduled_for_two [OF occ i1 i2] by simp
  have o': "\<forall>entry \<in> set ?im. fst entry \<noteq> M \<longrightarrow>
              length (find_all_occurrences E masked_text (fst entry)) = 0"
    using others by simp
  have found: "sum_list (map (\<lambda>entry. length (find_all_occurrences E masked_text (fst entry))) ?im)
                 = 2"
    using sum_list_map_single [OF d im o'] occ by simp
  have lt: "?s1 < ?s2"
    using ne by simp
  have sorted: "sort_by_start_desc [(?s1, ?e1, A, M), (?s2, ?e2, B, M)]
                  = [(?s2, ?e2, B, M), (?s1, ?e1, A, M)]"
    by (rule sort_two_desc [OF lt])
  have sl2: "slice masked_text ?s2 ?e2 = m2"
    by (simp add: slice_def decomp)
  have step2: "apply_replacement E masked_text (?s2, ?e2, B, M)
                 = p @ m1 @ q @ apply_original_case E m2 B @ r"
    using ci(2) by (simp add: apply_replacement_def sl2) (simp add: decomp)
  have sl1: "slice (p @ m1 @ q @ apply_original_case E m2 B @ r) ?s1 ?e1 = m1"
    by (simp add: slice_def)
  have step1: "apply_replacement E (p @ m1 @ q @ apply_original_case E m2 B @ r) (?s1, ?e1, A, M)
                 = p @ apply_original_case E m1 A @ q @ apply_original_case E m2 B @ r"
    using ci(1) by (simp add: apply_replacement_def sl1)
  show ?thesis
    by (simp add: unmask_other_data_def Let_def other_mappings_def [symmetric]
                  sched found sorted step2 step1)
qed

text \<open>
  What the generic pass does with the instance numbers. Let two distinct originals \<open>A\<close>
  and \<open>B\<close>, recorded in categories other than \<open>rank\<close>, both be masked as \<open>M\<close>, the
  record of \<open>A\<close> listing instance number 1 of \<open>M\<close> and the record of \<open>B\<close> instance number
  2. Let the masked text be \<open>p @ m1 @ q @ m2 @ r\<close>, where \<open>m1\<close> and \<open>m2\<close> are the
  whole-word, case-insensitive occurrences of \<open>M\<close>, and let no other masked value of the
  store occur in the text. Then the pass puts \<open>A\<close> in the place of the first occurrence
  and \<open>B\<close> in the place of the second, each through \<open>_apply_original_case\<close> of the
  occurrence it replaces. Where that casing leaves \<open>A\<close> and \<open>B\<close> as they are, the result
  is \<open>p @ A @ q @ B @ r\<close>.
\<close>

lemma two_occurrences_restored_in_instance_order:
  assumes recs: "recs = concat (map snd (other_mappings mm))"
    and A: "(A, rA) \<in> set recs" "masked_as rA = M" "1 \<in> set (instances rA)"
    and B: "(B, rB) \<in> set recs" "masked_as rB = M" "2 \<in> set (instances rB)"
    and uniq: "\<forall>x \<in> set recs. masked_as (snd x) = M \<longrightarrow>
                 (1 \<in> set (instances (snd x)) \<longrightarrow> fst x = A) \<and>
                 (2 \<in> set (instances (snd x)) \<longrightarrow> fst x = B)"
    and others: "\<forall>x \<in> set recs. masked_as (snd x) \<noteq> M \<longrightarrow>
                   find_all_occurrences E masked_text (masked_as (snd x)) = []"
    and decomp: "masked_text = p @ m1 @ q @ m2 @ r"
    and occ: "find_all_occurrences E masked_text M =
                [(length p, length p + length m1),
                 (length p + length m1 + length q, length p + length m1 + length q + length m2)]"
    and ne: "m1 \<noteq> []"
    and ci: "py_lower E m1 = py_lower E M" "py_lower E m2 = py_lower E M"
  shows "unmask_other_data E masked_text mm =
           (p @ apply_original_case E m1 A @ q @ apply_original_case E m2 B @ r, 2, 0) \<and>
         (apply_original_case E m1 A = A \<longrightarrow> apply_original_case E m2 B = B \<longrightarrow>
            fst (unmask_other_data E masked_text mm) = p @ A @ q @ B @ r)"
proof -
  let ?im = "build_instance_map (other_mappings mm)"
  have flat: "?im = foldl add_instances [] recs"
    by (simp add: build_instance_map_flat recs)
  have u1: "\<forall>x \<in> set recs. masked_as (snd x) = M \<and> 1 \<in> set (instances (snd x)) \<longrightarrow> fst x = A"
    using uniq by blast
  have u2: "\<forall>x \<in> set recs. masked_as (snd x) = M \<and> 2 \<in> set (instances (snd x)) \<longrightarrow> fst x = B"
    using uniq by blast
  have l1: "instance_lookup ?im M 1 = Some A"
    using lookup_foldl_add_instances [OF u1, of "[]"] A by (auto simp: flat)
  have l2: "instance_lookup ?im M 2 = Some B"
    using lookup_foldl_add_instances [OF u2, of "[]"] B by (auto simp: flat)
  from l1 obtain inst where im: "map_of ?im M = Some inst" and i1: "map_of inst 1 = Some A"
    by (auto simp: instance_lookup_def split: option.splits)
  have i2: "map_of inst 2 = Some B"
    using l2 im by (simp add: instance_lookup_def)
  have keys: "fst ` set ?im = (\<lambda>x. masked_as (snd x)) ` set recs"
    using keys_foldl_add_instances [of "[]" recs] by (simp add: flat)
  have oth: "\<forall>entry \<in> set ?im. fst entry \<noteq> M \<longrightarrow>
               find_all_occurrences E masked_text (fst entry) = []"
  proof (intro ballI impI)
    fix entry assume e: "entry \<in> set ?im" and n: "fst entry \<noteq> M"
    from e have "fst entry \<in> fst ` set ?im"
      by (rule imageI)
    then obtain x where "x \<in> set recs" and "fst entry = masked_as (snd x)"
      using keys by auto
    then show "find_all_occurrences E masked_text (fst entry) = []"
      using others n by auto
  qed
  have main: "unmask_other_data E masked_text mm =
           (p @ apply_original_case E m1 A @ q @ apply_original_case E m2 B @ r, 2, 0)"
    by (rule unmask_two_occurrences [OF im i1 i2 oth decomp occ ne ci])
  show ?thesis
    by (simp add: main)
qed

text \<open>
  An example: the units A1234 and A5678 are recorded, in this order, with the same
  mask A9999; the text "A9999 ta A9999" is restored to "A1234 ta A5678".
\<close>

definition collision_store :: masking_dict where
  "collision_store =
     \<lparr>mappings = [(u ''military_unit'',
                    [([1040, 49, 50, 51, 52], \<lparr>masked_as = [1040, 57, 57, 57, 57], instances = [1]\<rparr>),
                     ([1040, 53, 54, 55, 56], \<lparr>masked_as = [1040, 57, 57, 57, 57], instances = [2]\<rparr>)]),
                   (u ''rank'', [])],
      statistics = [(u ''military_unit'', 2)]\<rparr>"

lemma two_occurrences_restored_in_instance_order_example:
  "(\<exists>md1 ic1.
      add_to_mapping \<lparr>mappings = [(u ''military_unit'', []), (u ''rank'', [])], statistics = []\<rparr> []
          (u ''military_unit'') [1040, 49, 50, 51, 52] [1040, 57, 57, 57, 57]
        = Inr ([1040, 57, 57, 57, 57], md1, ic1) \<and>
      add_to_mapping md1 ic1 (u ''military_unit'') [1040, 53, 54, 55, 56] [1040, 57, 57, 57, 57]
        = Inr ([1040, 57, 57, 57, 57], collision_store, [([1040, 57, 57, 57, 57], 2)])) \<and>
   build_instance_map (other_mappings collision_store)
     = [([1040, 57, 57, 57, 57], [(1, [1040, 49, 50, 51, 52]), (2, [1040, 53, 54, 55, 56])])] \<and>
   find_all_occurrences env0
       ([] @ [1040, 57, 57, 57, 57] @ [32, 1090, 1072, 32] @ [1040, 57, 57, 57, 57] @ [])
       [1040, 57, 57, 57, 57] = [(0, 5), (9, 14)] \<and>
   unmask_other_data env0
       ([] @ [1040, 57, 57, 57, 57] @ [32, 1090, 1072, 32] @ [1040, 57, 57, 57, 57] @ [])
       collision_store
     = ([1040, 49, 50, 51, 52] @ [32, 1090, 1072, 32] @ [1040, 53, 54, 55, 56], 2, 0)"
proof -
  let ?A = "[1040, 49, 50, 51, 52] :: ustr"
  let ?B = "[1040, 53, 54, 55, 56] :: ustr"
  let ?M = "[1040, 57, 57, 57, 57] :: ustr"
  let ?q = "[32, 1090, 1072, 32] :: ustr"
  let ?t = "[] @ ?M @ ?q @ ?M @ []"
  have rec: "\<exists>md1 ic1.
      add_to_mapping \<lparr>mappings = [(u ''military_unit'', []), (u ''rank'', [])], statistics = []\<rparr> []
          (u ''military_unit'') ?A ?M = Inr (?M, md1, ic1) \<and>
      add_to_mapping md1 ic1 (u ''military_unit'') ?B ?M
        = Inr (?M, collision_store, [(?M, 2)])"
    by (simp add: add_to_mapping_def get_next_instance_def dict_get_def collision_store_def
                  u_def split_beta Let_def)
  have bim: "build_instance_map (other_mappings collision_store) = [(?M, [(1, ?A), (2, ?B)])]"
    by code_simp
  let ?rA = "\<lparr>masked_as = ?M, instances = [1]\<rparr>"
  let ?rB = "\<lparr>masked_as = ?M, instances = [2]\<rparr>"
  have recs: "[(?A, ?rA), (?B, ?rB)] = concat (map snd (other_mappings collision_store))"
    by (simp add: other_mappings_def collision_store_def u_def)
  have a: "(?A, ?rA) \<in> set [(?A, ?rA), (?B, ?rB)]" "masked_as ?rA = ?M"
          "1 \<in> set (instances ?rA)"
    by simp_all
  have b: "(?B, ?rB) \<in> set [(?A, ?rA), (?B, ?rB)]" "masked_as ?rB = ?M"
          "2 \<in> set (instances ?rB)"
    by simp_all
  have uniq: "\<forall>x \<in> set [(?A, ?rA), (?B, ?rB)]. masked_as (snd x) = ?M \<longrightarrow>
                 (1 \<in> set (instances (snd x)) \<longrightarrow> fst x = ?A) \<and>
                 (2 \<in> set (instances (snd x)) \<longrightarrow> fst x = ?B)"
    by simp
  have others: "\<forall>x \<in> set [(?A, ?rA), (?B, ?rB)]. masked_as (snd x) \<noteq> ?M \<longrightarrow>
                   find_all_occurrences env0 ?t (masked_as (snd x)) = []"
    by simp
  have occ0: "find_all_occurrences env0 ?t ?M = [(0, 5), (9, 14)]"
    by code_simp
  have occ: "find_all_occurrences env0 ?t ?M =
                [(length ([]::ustr), length ([]::ustr) + length ?M),
                 (length ([]::ustr) + length ?M + length ?q,
                  length ([]::ustr) + length ?M + length ?q + length ?M)]"
    using occ0 by simp
  have ne: "?M \<noteq> []"
    by simp
  have ca: "apply_original_case env0 ?M ?A = ?A"
    by code_simp
  have cb: "apply_original_case env0 ?M ?B = ?B"
    by code_simp
  show ?thesis
    using two_occurrences_restored_in_instance_order
            [OF recs a b uniq others refl occ ne refl refl]
          rec bim occ0 ca cb
    by simp
qed

text \<open>The store that masking "No 3/Ab, No 4/Ab" leaves when both order numbers get the mask
  2/Ab: the substitutions are made from the end of the text, so 4/Ab is recorded first.\<close>

definition mixed_case_collision_store :: masking_dict where
  "mixed_case_collision_store =
     \<lparr>mappings = [(u ''order_number_with_letters'',
                    [([52, 47, 1040, 1073], \<lparr>masked_as = [50, 47, 1040, 1073], instances = [1]\<rparr>),
                     ([51, 47, 1040, 1073], \<lparr>masked_as = [50, 47, 1040, 1073], instances = [2]\<rparr>)]),
                   (u ''rank'', [])],
      statistics = [(u ''order_number_with_letters'', 2)]\<rparr>"

text \<open>
  C2 fails for originals in mixed case. The order numbers 4/Ab and 3/Ab (a capital A,
  a small b), of the category \<open>order_number_with_letters\<close>, are recorded in this order
  with the same mask 2/Ab, so that the record of 4/Ab lists instance 1 and the record
  of 3/Ab instance 2. In the masked text "No 2/Ab, No 2/Ab" the generic pass finds the
  two occurrences of the mask and matches the first with instance 1 and the second
  with instance 2, but it writes each original through \<open>_apply_original_case\<close> of the
  occurrence it replaces, which is neither upper case nor capitalised: the text
  becomes "No 4/ab, No 3/ab". What stands at the first occurrence is not the original
  4/Ab, and what stands at the second is not the original 3/Ab.
\<close>

theorem collision_of_mixed_case_originals_not_restored:
  "(\<exists>md1 ic1.
      add_to_mapping
          \<lparr>mappings = [(u ''order_number_with_letters'', []), (u ''rank'', [])], statistics = []\<rparr>
          [] (u ''order_number_with_letters'') [52, 47, 1040, 1073] [50, 47, 1040, 1073]
        = Inr ([50, 47, 1040, 1073], md1, ic1) \<and>
      add_to_mapping md1 ic1 (u ''order_number_with_letters'')
          [51, 47, 1040, 1073] [50, 47, 1040, 1073]
        = Inr ([50, 47, 1040, 1073], mixed_case_collision_store, [([50, 47, 1040, 1073], 2)])) \<and>
   build_instance_map (other_mappings mixed_case_collision_store)
     = [([50, 47, 1040, 1073], [(1, [52, 47, 1040, 1073]), (2, [51, 47, 1040, 1073])])] \<and>
   find_all_occurrences env0
       [8470, 32, 50, 47, 1040, 1073, 44, 32, 8470, 32, 50, 47, 1040, 1073]
       [50, 47, 1040, 1073] = [(2, 6), (10, 14)] \<and>
   unmask_other_data env0
       [8470, 32, 50, 47, 1040, 1073, 44, 32, 8470, 32, 50, 47, 1040, 1073]
       mixed_case_collision_store
     = ([8470, 32] @ [52, 47, 1072, 1073] @ [44, 32, 8470, 32] @ [51, 47, 1072, 1073], 2, 0) \<and>
   ([52, 47, 1072, 1073] :: ustr) \<noteq> [52, 47, 1040, 1073] \<and>
   ([51, 47, 1072, 1073] :: ustr) \<noteq> [51, 47, 1040, 1073]"
proof -
  let ?A = "[52, 47, 1040, 1073] :: ustr"
  let ?B = "[51, 47, 1040, 1073] :: ustr"
  let ?M = "[50, 47, 1040, 1073] :: ustr"
  let ?t = "[8470, 32, 50, 47, 1040, 1073, 44, 32, 8470, 32, 50, 47, 1040, 1073] :: ustr"
  have rec: "\<exists>md1 ic1.
      add_to_mapping
          \<lparr>mappings = [(u ''order_number_with_letters'', []), (u ''rank'', [])], statistics = []\<rparr>
          [] (u ''order_number_with_letters'') ?A ?M = Inr (?M, md1, ic1) \<and>
      add_to_mapping md1 ic1 (u ''order_number_with_letters'') ?B ?M
        = Inr (?M, mixed_case_collision_store, [(?M, 2)])"
    by (simp add: add_to_mapping_def get_next_instance_def dict_get_def
                  mixed_case_collision_store_def u_def split_beta Let_def)
  have bim: "build_instance_map (other_mappings mixed_case_collision_store)
               = [(?M, [(1, ?A), (2, ?B)])]"
    by code_simp
  have occ: "find_all_occurrences env0 ?t ?M = [(2, 6), (10, 14)]"
    by code_simp
  have res: "unmask_other_data env0 ?t mixed_case_collision_store
     = ([8470, 32] @ [52, 47, 1072, 1073] @ [44, 32, 8470, 32] @ [51, 47, 1072, 1073], 2, 0)"
    by code_simp
  show ?thesis
    using rec bim occ res by simp
qed

subsection \<open>C1: the round trip\<close>

text \<open>\<open>re.sub(r'\d', lambda _: str(random.randint(0, 9)), original)\<close>.\<close>

fun sub_digits :: "env \<Rightarrow> ustr \<Rightarrow> nat \<Rightarrow> ustr \<times> nat" where
  "sub_digits E [] g = ([], g)"
| "sub_digits E (c # cs) g =
     (if uc_isdecimal (unicode E) c then
        (let (x, g1) = randint E 0 9 g;
             (rest, g2) = sub_digits E cs g1
         in (py_str x @ rest, g2))
      else (let (rest, g1) = sub_digits E cs g in (c # rest, g1)))"

definition mask_order_number_with_letters ::
  "env \<Rightarrow> ustr \<Rightarrow> world \<Rightarrow> py_error + (ustr \<times> world)" where
  "mask_order_number_with_letters E original w =
     (case map_of (mappings (w_dict w)) (u ''order_number_with_letters'') of
        None \<Rightarrow> Inl KeyError
      | Some cat \<Rightarrow>
          (case map_of cat original of
             Some r \<Rightarrow>
               record_masked w (u ''order_number_with_letters'') original (masked_as r)
           | None \<Rightarrow>
               (case get_deterministic_seed E original of
                  Inl e \<Rightarrow> Inl e
                | Inr seed \<Rightarrow>
                    (let (masked, g) = sub_digits E original (rnd_seed (library E) seed)
                     in record_masked (w\<lparr>w_random := g\<rparr>)
                          (u ''order_number_with_letters'') original masked))))"

text \<open>
  C1 fails on an original in mixed case. In the text "No 5/Ab" (numero sign, space,
  5/Ab with a capital A and a small b) the masking pass finds the order number 5/Ab
  and replaces its digits; the line is shorter than ten characters, so the name parser
  leaves it alone. Nothing collides and the masked value occurs once. The generic
  pass finds the masked value 9/Ab and restores the original through
  \<open>_apply_original_case\<close> of the occurrence, which is neither upper case nor title
  case: the original comes back in lower case, as "No 5/ab".
\<close>

theorem mixed_case_original_not_restored:
  "(case mask_order_number_with_letters env0 [53, 47, 1040, 1073] world0 of
      Inl e \<Rightarrow> None
    | Inr (masked, w) \<Rightarrow>
        Some (masked, instances_of (w_dict w) (u ''order_number_with_letters'') [53, 47, 1040, 1073],
              find_all_occurrences env0 ([8470, 32] @ masked) masked,
              unmask_other_data env0 ([8470, 32] @ masked) (w_dict w)))
     = Some ([57, 47, 1040, 1073], [1], [(2, 6)], ([8470, 32, 53, 47, 1072, 1073], 1, 0)) \<and>
   ([8470, 32, 53, 47, 1072, 1073] :: ustr) \<noteq> [8470, 32] @ [53, 47, 1040, 1073]"
proof -
  have a: "(case mask_order_number_with_letters env0 [53, 47, 1040, 1073] world0 of
      Inl e \<Rightarrow> None
    | Inr (masked, w) \<Rightarrow>
        Some (masked, instances_of (w_dict w) (u ''order_number_with_letters'') [53, 47, 1040, 1073],
              find_all_occurrences env0 ([8470, 32] @ masked) masked,
              unmask_other_data env0 ([8470, 32] @ masked) (w_dict w)))
     = Some ([57, 47, 1040, 1073], [1], [(2, 6)], ([8470, 32, 53, 47, 1072, 1073], 1, 0))"
    by code_simp
  show ?thesis
    using a by simp
qed

section \<open>Claims about span detection\<close>

subsection \<open>C9: conflicts between spans\<close>

text \<open>What the passes after the numero-sign pass do check: a candidate that they
  register overlaps no candidate registered before it and lies inside no skip item.\<close>

lemma register_plain_checked:
  assumes "c \<in> set (register_plain ty t items_to_skip items_to_mask m)"
    and "c \<notin> set items_to_mask"
  shows "(\<forall>item \<in> set items_to_mask. \<not> overlaps_span (sp_start c) (sp_end c) item) \<and>
         (\<forall>item \<in> set items_to_skip. \<not> inside_skip (sp_start c) (sp_end c) item)"
  using assms
  by (auto simp: register_plain_def Let_def make_span_def split: if_splits)

lemma register_br_checked:
  assumes "c \<in> set (register_br E t items_to_skip items_to_mask m)"
    and "c \<notin> set items_to_mask"
  shows "(\<forall>item \<in> set items_to_mask. \<not> overlaps_span (sp_start c) (sp_end c) item) \<and>
         (\<forall>item \<in> set items_to_skip. \<not> overlaps_skip (sp_start c) (sp_end c) item)"
  using assms
  by (auto simp: register_br_def split: option.splits if_splits)

text \<open>
  C9 fails for a candidate that overlaps a skip span without lying inside it. Only the
  pass for the word BR tests the overlap with the skip spans; the passes for the
  identifiers, the brigade phrase and the date test whether the match lies inside a
  skip span, and the numero-sign pass tests nothing. In "punktu 5 bryhady" the numeral
  5 is a legal-citation numeral, hence a skip span [7, 8); the brigade phrase
  "5 bryhady" at [7, 16) overlaps it and is registered as a candidate all the same.
\<close>

theorem brigade_candidate_overlapping_skip_span_is_registered:
  "detect_spans env0
     [1087, 1091, 1085, 1082, 1090, 1091, 32, 53, 32, 1073, 1088, 1080, 1075, 1072, 1076, 1080]
     = ([\<lparr>sk_start = 7, sk_end = 8, sk_text = [53]\<rparr>],
        [\<lparr>sp_type = u ''brigade_number'',
          full_text = [53, 32, 1073, 1088, 1080, 1075, 1072, 1076, 1080],
          number_part = [53], sp_start = 7, sp_end = 16\<rparr>]) \<and>
   overlaps_skip 7 16 \<lparr>sk_start = 7, sk_end = 8, sk_text = [53]\<rparr>"
proof -
  have a: "detect_spans env0
     [1087, 1091, 1085, 1082, 1090, 1091, 32, 53, 32, 1073, 1088, 1080, 1075, 1072, 1076, 1080]
     = ([\<lparr>sk_start = 7, sk_end = 8, sk_text = [53]\<rparr>],
        [\<lparr>sp_type = u ''brigade_number'',
          full_text = [53, 32, 1073, 1088, 1080, 1075, 1072, 1076, 1080],
          number_part = [53], sp_start = 7, sp_end = 16\<rparr>])"
    by code_simp
  have b: "overlaps_skip 7 16 \<lparr>sk_start = 7, sk_end = 8, sk_text = [53]\<rparr>"
    by (simp add: overlaps_skip_def)
  show ?thesis
    using a b by blast
qed

end
